(* ===== verification/Prelude.thy ===== *)
theory Prelude
  imports Complex_Main
begin

text \<open>
  Shared vocabulary of the development: the number and time types the model uses for
  the browser's values, the linear interpolation of three.js that several components
  call, the theorem collections the component theories fill, and generic lemmas on
  lists and reals that more than one component needs.
\<close>

section \<open>Types of the model\<close>

text \<open>
  JavaScript numbers read from the DOM or the render loop (pixel positions, normalised
  coordinates, seconds) are modelled as \<^typ>\<open>real\<close>: the code never relies on the
  rounding of doubles. Timer delays and the event loop's clock are whole milliseconds,
  \<^typ>\<open>nat\<close>.
\<close>

type_synonym ms = nat
type_synonym seconds = real

record vec2 =
  vx :: real
  vy :: real

definition origin :: vec2 where
  "origin = \<lparr>vx = 0, vy = 0\<rparr>"

section \<open>Theorem collections\<close>

named_theorems store_ops "the mutators of the global store, unfolded by the component proofs"
named_theorems view_defs "the pure view functions of the React components"

section \<open>three.js linear interpolation\<close>

text \<open>\<open>THREE.MathUtils.lerp(x, y, t)\<close> returns \<open>(1 - t) * x + t * y\<close>.\<close>

definition lerp :: "real \<Rightarrow> real \<Rightarrow> real \<Rightarrow> real" where
  "lerp x y t = (1 - t) * x + t * y"

lemma lerp_same [simp]: "lerp x x t = x"
  by (simp add: lerp_def algebra_simps)

lemma lerp_dist: "lerp u v t - v = (1 - t) * (u - v)"
  by (simp add: lerp_def algebra_simps)

lemma lerp_between:
  assumes "0 \<le> t" "t \<le> 1" "a \<le> u" "u \<le> b" "a \<le> v" "v \<le> b"
  shows "a \<le> lerp u v t \<and> lerp u v t \<le> b"
proof -
  have "(1 - t) * a + t * a \<le> (1 - t) * u + t * v"
    using assms by (intro add_mono mult_left_mono) auto
  moreover have "(1 - t) * u + t * v \<le> (1 - t) * b + t * b"
    using assms by (intro add_mono mult_left_mono) auto
  ultimately show ?thesis by (simp add: lerp_def algebra_simps)
qed

section \<open>Three-component vectors\<close>

text \<open>
  GLSL's \<open>vec3\<close> and three.js's \<open>Vector3\<close> as triples of reals, with the vector
  operations the shaders use: sum, difference, scaling, dot product, length, \<open>normalize\<close>
  and \<open>mix\<close>. GLSL leaves \<open>normalize\<close> of the zero vector undefined; here it is zero.
\<close>

type_synonym vec3 = "real \<times> real \<times> real"

definition vadd :: "vec3 \<Rightarrow> vec3 \<Rightarrow> vec3" where
  "vadd a b = (case a of (x, y, z) \<Rightarrow> case b of (u, v, w) \<Rightarrow> (x + u, y + v, z + w))"

definition vsub :: "vec3 \<Rightarrow> vec3 \<Rightarrow> vec3" where
  "vsub a b = (case a of (x, y, z) \<Rightarrow> case b of (u, v, w) \<Rightarrow> (x - u, y - v, z - w))"

definition vscale :: "real \<Rightarrow> vec3 \<Rightarrow> vec3" where
  "vscale k a = (case a of (x, y, z) \<Rightarrow> (k * x, k * y, k * z))"

definition vdot :: "vec3 \<Rightarrow> vec3 \<Rightarrow> real" where
  "vdot a b = (case a of (x, y, z) \<Rightarrow> case b of (u, v, w) \<Rightarrow> x * u + y * v + z * w)"

definition vlength :: "vec3 \<Rightarrow> real" where
  "vlength a = sqrt (vdot a a)"

definition vnormalize :: "vec3 \<Rightarrow> vec3" where
  "vnormalize a = vscale (1 / vlength a) a"

text \<open>GLSL \<open>mix(x, y, a)\<close> is \<open>x * (1 - a) + y * a\<close>, componentwise the three.js \<open>lerp\<close>.\<close>

definition vmix :: "vec3 \<Rightarrow> vec3 \<Rightarrow> real \<Rightarrow> vec3" where
  "vmix a b t = vadd (vscale (1 - t) a) (vscale t b)"

lemma vec3_ops [simp]:
  "vadd (x, y, z) (u, v, w) = (x + u, y + v, z + w)"
  "vsub (x, y, z) (u, v, w) = (x - u, y - v, z - w)"
  "vscale k (x, y, z) = (k * x, k * y, k * z)"
  "vdot (x, y, z) (u, v, w) = x * u + y * v + z * w"
  by (simp_all add: vadd_def vsub_def vscale_def vdot_def)

lemma vmix_lerp:
  "vmix (x, y, z) (u, v, w) t = (lerp x u t, lerp y v t, lerp z w t)"
  by (simp add: vmix_def lerp_def algebra_simps)

end
