(* ===== verification/Store.thy ===== *)
theory Store
  imports Prelude
begin

text \<open>
  The global UI store of \<open>src/src/store/multiverseStore.ts\<close>: the \<open>Timeline\<close> union,
  the zustand state with its five fields and its five mutators, each a shallow merge of
  one field into the state.
\<close>

section \<open>Timelines\<close>

text \<open>\<open>type Timeline = 'data' | 'comic' | 'web3' | 'singularity'\<close>, in the source's order.\<close>

datatype timeline = Data | Comic | Web3 | Singularity

section \<open>The store\<close>

text \<open>\<open>interface MultiverseState\<close>: the data fields; the mutators follow as functions.\<close>

record multiverse_state =
  currentTimeline :: timeline
  mousePosition :: vec2
  isTransitioning :: bool
  cursorInfluence :: vec2
  soundEnabled :: bool

text \<open>The initial value passed to \<open>create\<close>.\<close>

definition initial_store :: multiverse_state where
  "initial_store =
     \<lparr>currentTimeline = Singularity, mousePosition = origin, isTransitioning = False,
      cursorInfluence = origin, soundEnabled = False\<rparr>"

text \<open>Each mutator calls \<open>set\<close> with one field, which zustand merges into the state.\<close>

definition setTimeline :: "timeline \<Rightarrow> multiverse_state \<Rightarrow> multiverse_state" where
  [store_ops]: "setTimeline t s = s\<lparr>currentTimeline := t\<rparr>"

definition setMousePosition :: "real \<Rightarrow> real \<Rightarrow> multiverse_state \<Rightarrow> multiverse_state" where
  [store_ops]: "setMousePosition x y s = s\<lparr>mousePosition := \<lparr>vx = x, vy = y\<rparr>\<rparr>"

definition setTransitioning :: "bool \<Rightarrow> multiverse_state \<Rightarrow> multiverse_state" where
  [store_ops]: "setTransitioning b s = s\<lparr>isTransitioning := b\<rparr>"

definition setCursorInfluence :: "real \<Rightarrow> real \<Rightarrow> multiverse_state \<Rightarrow> multiverse_state" where
  [store_ops]: "setCursorInfluence x y s = s\<lparr>cursorInfluence := \<lparr>vx = x, vy = y\<rparr>\<rparr>"

definition toggleSound :: "multiverse_state \<Rightarrow> multiverse_state" where
  [store_ops]: "toggleSound s = s\<lparr>soundEnabled := \<not> soundEnabled s\<rparr>"

section \<open>Timelines as an enumeration\<close>

text \<open>
  The four timelines form a finite enumeration; the \<open>enum\<close> instance makes quantifiers
  over timelines executable, so claims over every timeline evaluate by \<open>simp\<close>.
\<close>

instantiation timeline :: enum
begin

definition enum_timeline :: "timeline list" where
  "enum_timeline = [Data, Comic, Web3, Singularity]"

definition enum_all_timeline :: "(timeline \<Rightarrow> bool) \<Rightarrow> bool" where
  "enum_all_timeline P \<longleftrightarrow> P Data \<and> P Comic \<and> P Web3 \<and> P Singularity"

definition enum_ex_timeline :: "(timeline \<Rightarrow> bool) \<Rightarrow> bool" where
  "enum_ex_timeline P \<longleftrightarrow> P Data \<or> P Comic \<or> P Web3 \<or> P Singularity"

lemma UNIV_timeline: "(UNIV :: timeline set) = {Data, Comic, Web3, Singularity}"
  using timeline.exhaust by auto

instance
  by standard
    (simp_all add: enum_timeline_def enum_all_timeline_def enum_ex_timeline_def UNIV_timeline)

end

end
