(* ===== verification/Classifier.thy ===== *)
theory Classifier
  imports Store
begin

text \<open>
  The timeline classifier: the three places that map the normalised pointer to the
  timeline it leans towards, with the same threshold 0.3 and the same order of tests.
  \<^item> \<open>dominantTimeline\<close> of \<open>src/src/components/Singularity.tsx\<close> (a \<open>useMemo\<close> on the
    pointer), which decides the commit on a click of the hero object;
  \<^item> \<open>getCursorStyle\<close> and \<open>getInnerDot\<close> of \<open>src/src/components/UI/RealityAnchor.tsx\<close>,
    which colour the custom cursor ring and its inner pulse.
  The lemmas give the regions of the classifier and show that the three agree.
\<close>

section \<open>Singularity: the dominant timeline\<close>

definition threshold :: real where
  "threshold = 3 / 10"

definition dominantTimeline :: "vec2 \<Rightarrow> timeline" where
  [view_defs]: "dominantTimeline p =
     (if vx p < - threshold then Data
      else if vx p > threshold then Web3
      else if vy p > threshold then Comic
      else Singularity)"

section \<open>RealityAnchor: cursor ring and inner pulse\<close>

text \<open>
  \<open>getCursorStyle\<close> returns the ring's colour classes. Outside the singularity the
  \<open>switch\<close> on the committed timeline decides; its \<open>default\<close> branch is only reached by
  \<open>'singularity'\<close>, which the guard has excluded.
\<close>

definition getCursorStyle :: "timeline \<Rightarrow> vec2 \<Rightarrow> string" where
  [view_defs]: "getCursorStyle cur p =
     (if cur \<noteq> Singularity then
        (case cur of
           Data \<Rightarrow> ''border-data-primary shadow-data-glow''
         | Comic \<Rightarrow> ''border-comic-primary shadow-comic-accent''
         | Web3 \<Rightarrow> ''border-web3-primary shadow-web3-gold''
         | Singularity \<Rightarrow> ''border-white'')
      else if vx p < - threshold then ''border-data-primary shadow-data-glow''
      else if vx p > threshold then ''border-web3-primary shadow-web3-gold''
      else if vy p > threshold then ''border-comic-primary shadow-comic-accent''
      else ''border-white'')"

text \<open>
  \<open>getInnerDot\<close> returns a \<open>Timeline\<close> or the string \<open>'none'\<close>; \<open>'none'\<close> is
  \<^term>\<open>None\<close> here.
\<close>

definition getInnerDot :: "timeline \<Rightarrow> vec2 \<Rightarrow> timeline option" where
  [view_defs]: "getInnerDot cur p =
     (if cur \<noteq> Singularity then Some cur
      else if vx p < - threshold then Some Data
      else if vx p > threshold then Some Web3
      else if vy p > threshold then Some Comic
      else None)"

text \<open>The inner pulse is rendered when the dot is not \<open>'none'\<close>, with its background class.\<close>

definition innerPulseClass :: "timeline option \<Rightarrow> string option" where
  [view_defs]: "innerPulseClass d =
     (case d of
        None \<Rightarrow> None
      | Some t \<Rightarrow> Some (if t = Data then ''bg-data-primary''
                       else if t = Comic then ''bg-comic-primary''
                       else ''bg-web3-primary''))"

text \<open>
  What \<open>RealityAnchor\<close> renders: the ring at the raw client position kept in its own
  \<open>position\<close> state, the ring's colour classes and the optional pulse.
\<close>

record anchor_view =
  ringClass :: string
  ringLeft :: real
  ringTop :: real
  pulseClass :: "string option"

definition realityAnchorView :: "timeline \<Rightarrow> vec2 \<Rightarrow> vec2 \<Rightarrow> anchor_view" where
  [view_defs]: "realityAnchorView cur mouse position =
     \<lparr>ringClass = getCursorStyle cur mouse, ringLeft = vx position, ringTop = vy position,
      pulseClass = innerPulseClass (getInnerDot cur mouse)\<rparr>"

section \<open>Lemmas\<close>

text \<open>C16: the regions of the classifier, with the x tests before the y test.\<close>

theorem dominantTimeline_regions:
  "(dominantTimeline p = Data \<longleftrightarrow> vx p < - (3 / 10)) \<and>
   (dominantTimeline p = Web3 \<longleftrightarrow> vx p > 3 / 10) \<and>
   (dominantTimeline p = Comic \<longleftrightarrow> \<bar>vx p\<bar> \<le> 3 / 10 \<and> vy p > 3 / 10) \<and>
   (dominantTimeline p = Singularity \<longleftrightarrow> \<bar>vx p\<bar> \<le> 3 / 10 \<and> vy p \<le> 3 / 10)"
  by (auto simp: dominantTimeline_def threshold_def abs_le_iff)

text \<open>
  The inner pulse of the cursor shows the committed timeline, and in the singularity
  exactly the timeline the Singularity scene would commit to, or nothing.
\<close>

lemma getInnerDot_agrees_dominant:
  "getInnerDot cur p =
     (let t = (if cur = Singularity then dominantTimeline p else cur)
      in if t = Singularity then None else Some t)"
  by (simp add: getInnerDot_def dominantTimeline_def Let_def)

text \<open>The ring's colour is the colour of the pulse's timeline, white without a pulse.\<close>

lemma getCursorStyle_agrees_innerDot:
  "getCursorStyle cur p =
     (case getInnerDot cur p of None \<Rightarrow> ''border-white'' | Some t \<Rightarrow> getCursorStyle t p)"
  by (cases cur) (simp_all add: getCursorStyle_def getInnerDot_def)

end
