(* ===== verification/Sequencer.thy ===== *)
theory Sequencer
  imports Store
begin

text \<open>
  The transition sequencer: \<open>handleTimelineSwitch\<close> of
  \<open>src/src/components/UI/MultiverseWatch.tsx\<close> and the two \<open>setTimeout\<close> continuations
  it schedules, run by the browser's event loop. The event loop is explicit: a clock in
  milliseconds and a queue of pending timers, ordered by due time and, for equal due
  times, by the order in which they were scheduled, which is the order in which the
  browser runs them. The loop is parametric in a hook \<open>eff\<close> that the React effects of
  other components use to observe each store change; the sequencer's lemmas hold for
  every hook.
\<close>

section \<open>Timers and the event loop state\<close>

text \<open>
  The two continuations of \<open>handleTimelineSwitch\<close>:
  \<^item> \<open>CommitTimeline t\<close> is \<open>() => { setTimeline(t); setTimeout(() => setTransitioning(false), 500) }\<close>;
  \<^item> \<open>EndTransition\<close> is \<open>() => setTransitioning(false)\<close>.
\<close>

datatype callback = CommitTimeline timeline | EndTransition

type_synonym timer = "ms \<times> callback"

text \<open>\<open>setTimeout\<close> enqueues behind every timer due at the same time or earlier.\<close>

fun schedule :: "timer \<Rightarrow> timer list \<Rightarrow> timer list" where
  "schedule tm [] = [tm]"
| "schedule tm (t # ts) = (if fst tm < fst t then tm # t # ts else t # schedule tm ts)"

record loop_state =
  store :: multiverse_state
  clock :: ms
  timers :: "timer list"

text \<open>The click handler of a watch button (\<open>MultiverseWatch.tsx\<close>, lines 14--22).\<close>

definition handleTimelineSwitch :: "timeline \<Rightarrow> 'a loop_state_scheme \<Rightarrow> 'a loop_state_scheme" where
  "handleTimelineSwitch t s =
     (if t = currentTimeline (store s) then s
      else s\<lparr>store := setTransitioning True (store s),
             timers := schedule (clock s + 300, CommitTimeline t) (timers s)\<rparr>)"

text \<open>Running one continuation at the current clock.\<close>

fun run_callback :: "callback \<Rightarrow> 'a loop_state_scheme \<Rightarrow> 'a loop_state_scheme" where
  "run_callback (CommitTimeline t) s =
     s\<lparr>store := setTimeline t (store s),
       timers := schedule (clock s + 500, EndTransition) (timers s)\<rparr>"
| "run_callback EndTransition s = s\<lparr>store := setTransitioning False (store s)\<rparr>"

text \<open>
  Firing the first timer: the clock moves to its due time, the timer leaves the queue,
  the continuation runs, and the hook sees the store before and after it.
\<close>

definition fire ::
  "(multiverse_state \<Rightarrow> multiverse_state \<Rightarrow> 'a \<Rightarrow> 'a) \<Rightarrow> ms \<Rightarrow> callback \<Rightarrow> timer list \<Rightarrow>
   'a loop_state_scheme \<Rightarrow> 'a loop_state_scheme" where
  "fire eff due cb rest s =
     (let s1 = s\<lparr>clock := due, timers := rest\<rparr>;
          s2 = run_callback cb s1
      in loop_state.more_update (eff (store s1) (store s2)) s2)"

text \<open>
  The weight of the queue decreases with every timer fired: a commit (weight 2) is
  replaced by one end (weight 1), an end leaves nothing. It is the termination measure
  of the loop below.
\<close>

fun cb_weight :: "callback \<Rightarrow> nat" where
  "cb_weight (CommitTimeline _) = 2"
| "cb_weight EndTransition = 1"

definition timers_weight :: "timer list \<Rightarrow> nat" where
  "timers_weight ts = sum_list (map (cb_weight \<circ> snd) ts)"

lemma timers_weight_simps [simp]:
  "timers_weight [] = 0"
  "timers_weight (tm # ts) = cb_weight (snd tm) + timers_weight ts"
  by (simp_all add: timers_weight_def)

lemma timers_weight_schedule [simp]:
  "timers_weight (schedule tm ts) = cb_weight (snd tm) + timers_weight ts"
  by (induction ts) auto

lemma timers_fire_less:
  "timers_weight (timers (fire eff due cb rest s)) < cb_weight cb + timers_weight rest"
  by (cases cb) (simp_all add: fire_def Let_def)

text \<open>
  Letting time pass up to \<open>target\<close>: every timer due by then fires, in queue order,
  including timers scheduled by the continuations themselves.
\<close>

function advance ::
  "(multiverse_state \<Rightarrow> multiverse_state \<Rightarrow> 'a \<Rightarrow> 'a) \<Rightarrow> ms \<Rightarrow>
   'a loop_state_scheme \<Rightarrow> 'a loop_state_scheme" where
  "advance eff target s =
     (case timers s of
        [] \<Rightarrow> s\<lparr>clock := target\<rparr>
      | (due, cb) # rest \<Rightarrow>
          (if due \<le> target then advance eff target (fire eff due cb rest s)
           else s\<lparr>clock := target\<rparr>))"
  by pat_completeness auto
termination
  by (relation "measure (\<lambda>(eff, target, s). timers_weight (timers s))")
    (auto simp: timers_fire_less)

declare advance.simps [simp del]

definition elapse ::
  "(multiverse_state \<Rightarrow> multiverse_state \<Rightarrow> 'a \<Rightarrow> 'a) \<Rightarrow> ms \<Rightarrow>
   'a loop_state_scheme \<Rightarrow> 'a loop_state_scheme" where
  "elapse eff d s = advance eff (clock s + d) s"

text \<open>
  Queue well-formedness: the queue is ordered by due time, no timer is overdue, a commit
  is due within 300 ms and an end within 500 ms, and an empty queue means no transition
  is in progress.
\<close>

fun deadline :: "callback \<Rightarrow> ms" where
  "deadline (CommitTimeline _) = 300"
| "deadline EndTransition = 500"

definition timers_wf :: "'a loop_state_scheme \<Rightarrow> bool" where
  "timers_wf s \<longleftrightarrow>
     sorted (map fst (timers s)) \<and>
     (\<forall>(d, cb) \<in> set (timers s). clock s \<le> d \<and> d \<le> clock s + deadline cb) \<and>
     (timers s = [] \<longrightarrow> \<not> isTransitioning (store s))"

text \<open>How long after its due time a timer's effects have all run: a commit schedules an end 500 ms later.\<close>

fun settle :: "callback \<Rightarrow> ms" where
  "settle (CommitTimeline _) = 500"
| "settle EndTransition = 0"

section \<open>Runs of the sequencer\<close>

text \<open>
  A run is a list of clicks on watch buttons and waits. The hook \<open>log_hook\<close> records
  every store change made by a timer callback, which is what a React effect subscribed to
  the store observes.
\<close>

datatype seq_event = Click timeline | Wait ms

fun seq_run ::
  "(multiverse_state \<Rightarrow> multiverse_state \<Rightarrow> 'a \<Rightarrow> 'a) \<Rightarrow> seq_event list \<Rightarrow>
   'a loop_state_scheme \<Rightarrow> 'a loop_state_scheme" where
  "seq_run eff [] s = s"
| "seq_run eff (Click t # es) s = seq_run eff es (handleTimelineSwitch t s)"
| "seq_run eff (Wait d # es) s = seq_run eff es (elapse eff d s)"

text \<open>The clicks of a run come only while no timer is pending.\<close>

fun clicks_when_idle ::
  "(multiverse_state \<Rightarrow> multiverse_state \<Rightarrow> 'a \<Rightarrow> 'a) \<Rightarrow> seq_event list \<Rightarrow>
   'a loop_state_scheme \<Rightarrow> bool" where
  "clicks_when_idle eff [] s = True"
| "clicks_when_idle eff (Click t # es) s =
     (timers s = [] \<and> clicks_when_idle eff es (handleTimelineSwitch t s))"
| "clicks_when_idle eff (Wait d # es) s = clicks_when_idle eff es (elapse eff d s)"

definition log_hook ::
  "multiverse_state \<Rightarrow> multiverse_state \<Rightarrow> (multiverse_state \<times> multiverse_state) list \<Rightarrow>
   (multiverse_state \<times> multiverse_state) list" where
  "log_hook old new l = l @ [(old, new)]"

text \<open>Every change of the active timeline in the log happens while the transition flag is up.\<close>

definition commits_under_flag :: "(multiverse_state \<times> multiverse_state) list \<Rightarrow> bool" where
  "commits_under_flag l \<longleftrightarrow>
     (\<forall>(old, new) \<in> set l. currentTimeline old \<noteq> currentTimeline new \<longrightarrow> isTransitioning new)"

text \<open>At most one timer pending, and one pending exactly while the flag is up.\<close>

definition coherent :: "'a loop_state_scheme \<Rightarrow> bool" where
  "coherent s \<longleftrightarrow> length (timers s) \<le> 1 \<and> (timers s \<noteq> [] \<longleftrightarrow> isTransitioning (store s))"

text \<open>A page on which the timeline \<open>t\<close> has been committed, with an empty log.\<close>

definition committed_state ::
  "timeline \<Rightarrow> (multiverse_state \<times> multiverse_state) list loop_state_scheme" where
  "committed_state t =
     \<lparr>store = initial_store\<lparr>currentTimeline := t\<rparr>, clock = 0, timers = [], \<dots> = []\<rparr>"

section \<open>The event loop\<close>

lemma advance_Nil: "timers s = [] \<Longrightarrow> advance eff target s = s\<lparr>clock := target\<rparr>"
  by (simp add: advance.simps)

lemma advance_stop:
  "timers s = (due, cb) # rest \<Longrightarrow> target < due \<Longrightarrow> advance eff target s = s\<lparr>clock := target\<rparr>"
  by (simp add: advance.simps)

lemma advance_fire:
  "timers s = (due, cb) # rest \<Longrightarrow> due \<le> target \<Longrightarrow>
   advance eff target s = advance eff target (fire eff due cb rest s)"
  by (simp add: advance.simps)

lemma advance_induct [case_names empty stop fire]:
  assumes empty: "\<And>s. timers s = [] \<Longrightarrow> P s"
    and stop: "\<And>s due cb rest. timers s = (due, cb) # rest \<Longrightarrow> target < due \<Longrightarrow> P s"
    and step: "\<And>s due cb rest. timers s = (due, cb) # rest \<Longrightarrow> due \<le> target \<Longrightarrow>
                 P (fire eff due cb rest s) \<Longrightarrow> P s"
  shows "P s"
proof (induction "timers_weight (timers s)" arbitrary: s rule: less_induct)
  case less
  show ?case
  proof (cases "timers s")
    case Nil
    then show ?thesis by (rule empty)
  next
    case (Cons tm rest)
    obtain due cb where q: "timers s = (due, cb) # rest"
      using Cons by (cases tm) simp
    show ?thesis
    proof (cases "due \<le> target")
      case True
      have "timers_weight (timers (fire eff due cb rest s)) < timers_weight (timers s)"
        using q timers_fire_less [of eff due cb rest s] by simp
      then have "P (fire eff due cb rest s)" by (rule less)
      with q True show ?thesis by (rule step)
    next
      case False
      then have "target < due" by simp
      with q show ?thesis by (rule stop)
    qed
  qed
qed

text \<open>A property kept by every firing and by moving the clock is kept by the loop.\<close>

lemma advance_invariant:
  assumes "P s"
    and fire: "\<And>s due cb rest. P s \<Longrightarrow> timers s = (due, cb) # rest \<Longrightarrow> due \<le> target \<Longrightarrow>
                 P (fire eff due cb rest s)"
    and tick: "\<And>s. P s \<Longrightarrow> P (s\<lparr>clock := target\<rparr>)"
  shows "P (advance eff target s)"
  using assms(1)
proof (induction s rule: advance_induct [where eff = eff and target = target])
  case (empty s)
  then show ?case by (simp add: advance_Nil tick)
next
  case (stop s due cb rest)
  then show ?case by (simp add: advance_stop tick)
next
  case (fire s due cb rest)
  then show ?case by (simp add: advance_fire assms(2))
qed

lemma fire_clock [simp]: "fire eff due cb rest (s\<lparr>clock := c\<rparr>) = fire eff due cb rest s"
  by (cases cb) (simp_all add: fire_def Let_def)

lemma advance_clock [simp]: "advance eff target (s\<lparr>clock := c\<rparr>) = advance eff target s"
  by (cases "timers s") (auto simp: advance.simps [of eff target] split: prod.splits)

lemma fire_clock_val: "clock (fire eff due cb rest s) = due"
  by (cases cb) (simp_all add: fire_def Let_def)

lemma advance_commit_cases:
  assumes q: "timers s1 = [(c + 300, CommitTimeline t)]" and cl: "clock s1 = c"
  shows "advance eff (c + d) s1 =
           (if d < 300 then s1\<lparr>clock := c + d\<rparr>
            else if d < 800 then (fire eff (c + 300) (CommitTimeline t) [] s1)\<lparr>clock := c + d\<rparr>
            else (fire eff (c + 800) EndTransition [] (fire eff (c + 300) (CommitTimeline t) [] s1))\<lparr>clock := c + d\<rparr>)"
proof -
  let ?s2 = "fire eff (c + 300) (CommitTimeline t) [] s1"
  have s2: "timers ?s2 = [(c + 800, EndTransition)]" using cl by (simp add: fire_def Let_def)
  show ?thesis
  proof (cases "d < 300")
    case True
    then show ?thesis using q by (simp add: advance_stop)
  next
    case ge: False
    then have a: "advance eff (c + d) s1 = advance eff (c + d) ?s2" using q by (simp add: advance_fire)
    show ?thesis
    proof (cases "d < 800")
      case True
      then show ?thesis using ge a s2 by (simp add: advance_stop)
    next
      case False
      have "timers (fire eff (c + 800) EndTransition [] ?s2) = []" by (simp add: fire_def Let_def)
      with False ge a s2 show ?thesis by (simp add: advance_fire advance_Nil)
    qed
  qed
qed

text \<open>
  Letting time pass in two stretches is the same as letting it pass at once: the
  loop's result does not depend on how the waiting is cut up.
\<close>

lemma advance_advance:
  "t1 \<le> t2 \<Longrightarrow> advance eff t2 (advance eff t1 s) = advance eff t2 s"
proof (induction s rule: advance_induct [where eff = eff and target = t1])
  case (empty s)
  then show ?case by (simp add: advance_Nil)
next
  case (stop s due cb rest)
  then show ?case by (simp add: advance_stop)
next
  case (fire s due cb rest)
  then show ?case by (simp add: advance_fire)
qed

lemma length_log_fire:
  "length (loop_state.more (fire log_hook due cb rest s)) = Suc (length (loop_state.more s))"
  by (cases cb) (simp_all add: fire_def Let_def log_hook_def)

text \<open>
  C12: the event loop does bounded work: letting time pass runs at most two callbacks per
  pending commit and one per pending end, whatever the target time, so a click costs at
  most two timer callbacks.
\<close>

theorem advance_callbacks_bounded:
  "length (loop_state.more (advance log_hook target s)) \<le> length (loop_state.more s) + timers_weight (timers s)"
proof (induction s rule: advance_induct [where eff = log_hook and target = target])
  case (empty s)
  then show ?case by (simp add: advance_Nil)
next
  case (stop s due cb rest)
  then show ?case by (simp add: advance_stop)
next
  case (fire s due cb rest)
  have "timers_weight (timers (fire log_hook due cb rest s)) < cb_weight cb + timers_weight rest"
    by (rule timers_fire_less)
  with fire show ?case by (simp add: advance_fire length_log_fire)
qed

text \<open>
  C1: a click on a watch button for another timeline while nothing is pending: for
  \<open>d\<close> ms the old scene stays with the flag up, from 300 ms on the new timeline is
  active with the flag still up, from 800 ms the flag is down and nothing is pending.
  Nothing else of the store changes.
\<close>

theorem switch_timed_sequence:
  assumes idle: "timers s = []" and new: "t \<noteq> currentTimeline (store s)"
  shows "store (elapse eff d (handleTimelineSwitch t s)) =
           (store s)\<lparr>currentTimeline := (if d < 300 then currentTimeline (store s) else t),
                     isTransitioning := d < 800\<rparr> \<and>
         timers (elapse eff d (handleTimelineSwitch t s)) =
           (if d < 300 then [(clock s + 300, CommitTimeline t)]
            else if d < 800 then [(clock s + 800, EndTransition)] else []) \<and>
         clock (elapse eff d (handleTimelineSwitch t s)) = clock s + d"
proof -
  have s1: "timers (handleTimelineSwitch t s) = [(clock s + 300, CommitTimeline t)]"
    "clock (handleTimelineSwitch t s) = clock s"
    "store (handleTimelineSwitch t s) = setTransitioning True (store s)"
    using idle new by (simp_all add: handleTimelineSwitch_def)
  show ?thesis
    using advance_commit_cases [OF s1(1,2), of eff d] s1
    by (simp add: elapse_def fire_def Let_def store_ops)
qed

lemma set_schedule [simp]: "set (schedule tm ts) = insert tm (set ts)"
  by (induction ts) auto

lemma schedule_not_Nil [simp]: "schedule tm ts \<noteq> []"
  by (cases ts) auto

lemma sorted_schedule:
  "sorted (map fst ts) \<Longrightarrow> sorted (map fst (schedule tm ts))"
  by (induction ts) auto

lemma handleTimelineSwitch_wf:
  "timers_wf s \<Longrightarrow> timers_wf (handleTimelineSwitch t s)"
  by (auto simp: timers_wf_def handleTimelineSwitch_def store_ops sorted_schedule)

lemma fire_wf:
  assumes wf: "timers_wf s" and q: "timers s = (due, cb) # rest" and le: "clock s \<le> due"
  shows "timers_wf (fire eff due cb rest s)"
proof -
  from wf q have sorted: "sorted (map fst rest)" and after: "\<forall>(d, c) \<in> set rest. due \<le> d"
    and bound: "\<forall>(d, c) \<in> set rest. d \<le> clock s + deadline c"
    by (auto simp: timers_wf_def)
  from bound le have bound': "\<forall>(d, c) \<in> set rest. d \<le> due + deadline c"
    by fastforce
  show ?thesis
  proof (cases cb)
    case (CommitTimeline t)
    then show ?thesis using sorted after bound'
      by (auto simp: timers_wf_def fire_def Let_def sorted_schedule)
  next
    case EndTransition
    then show ?thesis using sorted after bound'
      by (auto simp: timers_wf_def fire_def Let_def store_ops)
  qed
qed

lemma advance_wf:
  "timers_wf s \<Longrightarrow> clock s \<le> target \<Longrightarrow> timers_wf (advance eff target s)"
proof (induction s rule: advance_induct [where eff = eff and target = target])
  case (empty s)
  then show ?case by (simp add: advance_Nil timers_wf_def)
next
  case (stop s due cb rest)
  then have "\<forall>(d, c) \<in> set (timers s). target < d"
    by (fastforce simp: timers_wf_def)
  with stop show ?case by (fastforce simp: advance_stop timers_wf_def)
next
  case (fire s due cb rest)
  then have "clock s \<le> due" by (simp add: timers_wf_def)
  with fire have "timers_wf (fire eff due cb rest s)" by (simp add: fire_wf)
  with fire show ?case by (simp add: advance_fire fire_clock_val)
qed

lemma advance_drains:
  "\<forall>(d, cb) \<in> set (timers s). d + settle cb \<le> target \<Longrightarrow> timers (advance eff target s) = []"
proof (induction s rule: advance_induct [where eff = eff and target = target])
  case (empty s)
  then show ?case by (simp add: advance_Nil)
next
  case (stop s due cb rest)
  then show ?case by auto
next
  case (fire s due cb rest)
  then have "\<forall>(d, c) \<in> set (timers (fire eff due cb rest s)). d + settle c \<le> target"
    by (cases cb) (auto simp: fire_def Let_def)
  with fire show ?case by (simp add: advance_fire)
qed

lemma fire_empty_ends:
  "timers (fire eff due cb rest s) = [] \<Longrightarrow> \<not> isTransitioning (store (fire eff due cb rest s))"
  by (cases cb) (simp_all add: fire_def Let_def store_ops)

lemma advance_flag_down:
  "timers s \<noteq> [] \<Longrightarrow> timers (advance eff target s) = [] \<Longrightarrow>
   \<not> isTransitioning (store (advance eff target s))"
proof (induction s rule: advance_induct [where eff = eff and target = target])
  case (empty s)
  then show ?case by simp
next
  case (stop s due cb rest)
  then show ?case by (simp add: advance_stop)
next
  case (fire s due cb rest)
  show ?case
  proof (cases "timers (fire eff due cb rest s) = []")
    case True
    with fire show ?thesis by (simp add: advance_fire advance_Nil fire_empty_ends)
  next
    case False
    with fire show ?thesis by (simp add: advance_fire)
  qed
qed

text \<open>
  C2: the transition flag is never stuck: from any well-formed state, 800 ms later no
  timer is pending and the flag is down, however the clicks before were interleaved.
\<close>

theorem transition_settles:
  assumes "timers_wf s"
  shows "timers (elapse eff 800 s) = [] \<and> \<not> isTransitioning (store (elapse eff 800 s))"
proof -
  have "\<forall>(d, cb) \<in> set (timers s). d + settle cb \<le> clock s + 800"
  proof
    fix x assume "x \<in> set (timers s)"
    with assms show "case x of (d, cb) \<Rightarrow> d + settle cb \<le> clock s + 800"
      by (cases x; cases "snd x") (fastforce simp: timers_wf_def)+
  qed
  then have drained: "timers (elapse eff 800 s) = []"
    by (simp add: elapse_def advance_drains)
  show ?thesis
  proof (cases "timers s = []")
    case True
    with assms show ?thesis by (simp add: elapse_def advance_Nil timers_wf_def)
  next
    case False
    with drained show ?thesis by (simp add: elapse_def advance_flag_down)
  qed
qed

lemma coherent_fire:
  assumes "coherent s" and "timers s = (due, cb) # rest"
  shows "coherent (fire eff due cb rest s)"
proof -
  from assms have "rest = []" and "isTransitioning (store s)"
    by (auto simp: coherent_def)
  then show ?thesis
    by (cases cb) (simp_all add: coherent_def fire_def Let_def store_ops)
qed

lemma coherent_advance: "coherent s \<Longrightarrow> coherent (advance eff target s)"
proof (induction s rule: advance_induct [where eff = eff and target = target])
  case (empty s)
  then show ?case by (simp add: advance_Nil coherent_def)
next
  case (stop s due cb rest)
  then show ?case by (simp add: advance_stop coherent_def)
next
  case (fire s due cb rest)
  then show ?case by (simp add: advance_fire coherent_fire)
qed

lemma log_fire:
  assumes "coherent s" and "timers s = (due, cb) # rest"
    and "commits_under_flag (loop_state.more s)"
  shows "commits_under_flag (loop_state.more (fire log_hook due cb rest s))"
proof -
  from assms(1,2) have "isTransitioning (store s)" by (simp add: coherent_def)
  with assms(3) show ?thesis
    by (cases cb) (simp_all add: fire_def Let_def log_hook_def commits_under_flag_def store_ops)
qed

lemma log_advance:
  "coherent s \<Longrightarrow> commits_under_flag (loop_state.more s) \<Longrightarrow>
   commits_under_flag (loop_state.more (advance log_hook target s))"
proof (induction s rule: advance_induct [where eff = log_hook and target = target])
  case (empty s)
  then show ?case by (simp add: advance_Nil)
next
  case (stop s due cb rest)
  then show ?case by (simp add: advance_stop)
next
  case (fire s due cb rest)
  then show ?case by (simp add: advance_fire coherent_fire log_fire)
qed

lemma more_handleTimelineSwitch [simp]:
  "loop_state.more (handleTimelineSwitch t s) = loop_state.more s"
  by (simp add: handleTimelineSwitch_def)

lemma coherent_click:
  "coherent s \<Longrightarrow> timers s = [] \<Longrightarrow> coherent (handleTimelineSwitch t s)"
  by (simp add: coherent_def handleTimelineSwitch_def store_ops)

text \<open>
  C5: when the user clicks only while nothing is pending, every change of the active
  timeline made by the sequencer happens while the transition flag is up.
\<close>

theorem idle_clicks_commit_under_flag:
  "coherent s \<Longrightarrow> commits_under_flag (loop_state.more s) \<Longrightarrow> clicks_when_idle log_hook es s \<Longrightarrow>
   commits_under_flag (loop_state.more (seq_run log_hook es s))"
proof (induction es arbitrary: s)
  case Nil
  then show ?case by simp
next
  case (Cons e es)
  then show ?case
    by (cases e) (auto simp: coherent_click elapse_def coherent_advance log_advance)
qed

section \<open>Witnesses\<close>

theorem switch_timed_sequence_witness:
  "timers (committed_state Data) = [] \<and> Comic \<noteq> currentTimeline (store (committed_state Data)) \<and>
   currentTimeline (store (elapse log_hook 500 (handleTimelineSwitch Comic (committed_state Data)))) = Comic \<and>
   isTransitioning (store (elapse log_hook 500 (handleTimelineSwitch Comic (committed_state Data)))) \<and>
   timers (elapse log_hook 500 (handleTimelineSwitch Comic (committed_state Data))) = [(800, EndTransition)]"
  using switch_timed_sequence [of "committed_state Data" Comic log_hook 500]
  by (simp add: committed_state_def initial_store_def)

lemma advance_advance_witness:
  "(300::ms) \<le> 800 \<and>
   advance log_hook 800 (advance log_hook 300 (handleTimelineSwitch Comic (committed_state Data))) =
   advance log_hook 800 (handleTimelineSwitch Comic (committed_state Data))"
  using advance_advance [of 300 800 log_hook "handleTimelineSwitch Comic (committed_state Data)"]
  by simp

theorem transition_settles_witness:
  "timers_wf (handleTimelineSwitch Comic (committed_state Data)) \<and>
   timers (elapse log_hook 800 (handleTimelineSwitch Comic (committed_state Data))) = [] \<and>
   \<not> isTransitioning (store (elapse log_hook 800 (handleTimelineSwitch Comic (committed_state Data))))"
proof -
  have wf: "timers_wf (handleTimelineSwitch Comic (committed_state Data))"
    by (simp add: timers_wf_def handleTimelineSwitch_def committed_state_def initial_store_def)
  show ?thesis using wf transition_settles [OF wf, of log_hook] by simp
qed

theorem idle_clicks_commit_under_flag_witness:
  "coherent (committed_state Data) \<and> commits_under_flag (loop_state.more (committed_state Data)) \<and>
   clicks_when_idle log_hook [Click Comic, Wait 900, Click Web3, Wait 900] (committed_state Data) \<and>
   commits_under_flag (loop_state.more
     (seq_run log_hook [Click Comic, Wait 900, Click Web3, Wait 900] (committed_state Data)))"
proof -
  have h1: "coherent (committed_state Data)"
    by (simp add: coherent_def committed_state_def initial_store_def)
  have h2: "commits_under_flag (loop_state.more (committed_state Data))"
    by (simp add: commits_under_flag_def committed_state_def)
  have h3: "clicks_when_idle log_hook [Click Comic, Wait 900, Click Web3, Wait 900] (committed_state Data)"
    by (simp add: committed_state_def initial_store_def elapse_def advance.simps
        handleTimelineSwitch_def fire_def log_hook_def store_ops)
  show ?thesis using h1 h2 h3 idle_clicks_commit_under_flag [OF h1 h2 h3] by simp
qed

end
