(* ===== verification/SequencerSpec.thy ===== *)
theory SequencerSpec
  imports Sequencer
begin

text \<open>
  The transition sequencer as the spec describes it (\<open>spec.md\<close>, section 4.5): a
  machine with the states Idle, Leaving(target) and Entering(target), timed by
  \<open>leaveDuration\<close> and \<open>enterDuration\<close>, and the abstraction of the event loop of
  \<open>Sequencer\<close> onto it. The machine is modelled from the spec; the refinement theorem
  states that the code of \<open>MultiverseWatch.tsx\<close> implements it as long as clicks come
  only while nothing is pending, and the counterexample that it does not otherwise.
\<close>

section \<open>The abstract machine\<close>

text \<open>The two delays of the spec, \<open>leaveDuration\<close> and \<open>enterDuration\<close>.\<close>

definition leaveDuration :: ms where
  "leaveDuration = 300"

definition enterDuration :: ms where
  "enterDuration = 500"

text \<open>A phase with the time left in it, in ms.\<close>

datatype phase = Idle | Leaving timeline ms | Entering ms

record seq_spec =
  specTimeline :: timeline
  specPhase :: phase

text \<open>
  A switch request: from Idle to another timeline it starts Leaving; to the active
  timeline, or while a transition runs, it does nothing (the spec's "reject" option).
\<close>

definition specRequest :: "timeline \<Rightarrow> seq_spec \<Rightarrow> seq_spec" where
  "specRequest t a =
     (if specPhase a = Idle \<and> t \<noteq> specTimeline a then a\<lparr>specPhase := Leaving t leaveDuration\<rparr> else a)"

text \<open>Time passing: Leaving commits the target when its time is up; Entering ends in Idle.\<close>

definition specWait :: "ms \<Rightarrow> seq_spec \<Rightarrow> seq_spec" where
  "specWait d a =
     (case specPhase a of
        Idle \<Rightarrow> a
      | Leaving t r \<Rightarrow>
          if d < r then a\<lparr>specPhase := Leaving t (r - d)\<rparr>
          else if d < r + enterDuration then a\<lparr>specTimeline := t, specPhase := Entering (r + enterDuration - d)\<rparr>
          else a\<lparr>specTimeline := t, specPhase := Idle\<rparr>
      | Entering r \<Rightarrow> if d < r then a\<lparr>specPhase := Entering (r - d)\<rparr> else a\<lparr>specPhase := Idle\<rparr>)"

text \<open>A run of the machine on the events of \<^const>\<open>seq_run\<close>.\<close>

fun specRun :: "seq_event list \<Rightarrow> seq_spec \<Rightarrow> seq_spec" where
  "specRun [] a = a"
| "specRun (Click t # es) a = specRun es (specRequest t a)"
| "specRun (Wait d # es) a = specRun es (specWait d a)"

section \<open>Abstraction of the event loop\<close>

text \<open>
  The phase is read from the timer queue: nothing pending is Idle, a pending commit is
  Leaving with the time until it is due, a pending end is Entering.
\<close>

definition absSeq :: "'a loop_state_scheme \<Rightarrow> seq_spec" where
  "absSeq s =
     \<lparr>specTimeline = currentTimeline (store s),
      specPhase = (case timers s of
                     [] \<Rightarrow> Idle
                   | (due, CommitTimeline t) # _ \<Rightarrow> Leaving t (due - clock s)
                   | (due, EndTransition) # _ \<Rightarrow> Entering (due - clock s))\<rparr>"

section \<open>Lemmas\<close>

lemma specTimeline_absSeq: "specTimeline (absSeq s) = currentTimeline (store s)"
  by (simp add: absSeq_def)

lemma advance_single:
  assumes "timers s = [(due, cb)]"
  shows "advance eff target s =
           (if target < due then s\<lparr>clock := target\<rparr> else advance eff target (fire eff due cb [] s))"
  using assms by (simp add: advance.simps)

lemma absSeq_elapse:
  assumes coh: "coherent s" and wf: "timers_wf s"
  shows "absSeq (elapse eff d s) = specWait d (absSeq s)"
proof (cases "timers s")
  case Nil
  then show ?thesis by (simp add: elapse_def advance_Nil absSeq_def specWait_def)
next
  case (Cons tm rest)
  with coh have q: "timers s = [tm]" by (simp add: coherent_def)
  obtain due cb where tm: "tm = (due, cb)" by fastforce
  from wf q tm have le: "clock s \<le> due" by (simp add: timers_wf_def)
  let ?a = "clock s + d"
  show ?thesis
  proof (cases "?a < due")
    case True
    with q tm show ?thesis
      by (cases cb) (simp_all add: elapse_def advance_single absSeq_def specWait_def)
  next
    case late: False
    then have a1: "elapse eff d s = advance eff ?a (fire eff due cb [] s)"
      using q tm by (simp add: elapse_def advance_single)
    show ?thesis
    proof (cases cb)
      case (CommitTimeline t)
      let ?s2 = "fire eff due (CommitTimeline t) [] s"
      have s2: "timers ?s2 = [(due + 500, EndTransition)]" "clock ?s2 = due"
        "currentTimeline (store ?s2) = t"
        by (simp_all add: fire_def Let_def store_ops)
      show ?thesis
      proof (cases "?a < due + 500")
        case True
        then have "elapse eff d s = ?s2\<lparr>clock := ?a\<rparr>"
          using a1 s2 CommitTimeline by (simp add: advance_single)
        with True late le q tm CommitTimeline s2 show ?thesis
          by (simp add: absSeq_def specWait_def enterDuration_def)
      next
        case False
        let ?s3 = "fire eff (due + 500) EndTransition [] ?s2"
        have s3: "timers ?s3 = []" "currentTimeline (store ?s3) = t"
          using s2 by (simp_all add: fire_def Let_def store_ops)
        have "elapse eff d s = ?s3\<lparr>clock := ?a\<rparr>"
          using a1 s2 s3 False CommitTimeline by (simp add: advance_single advance_Nil)
        with False late le q tm CommitTimeline s3 show ?thesis
          by (simp add: absSeq_def specWait_def enterDuration_def)
      qed
    next
      case EndTransition
      let ?s2 = "fire eff due EndTransition [] s"
      have s2: "timers ?s2 = []" "currentTimeline (store ?s2) = currentTimeline (store s)"
        by (simp_all add: fire_def Let_def store_ops)
      have "elapse eff d s = ?s2\<lparr>clock := ?a\<rparr>"
        using a1 s2 EndTransition by (simp add: advance_Nil)
      with late le q tm EndTransition s2 show ?thesis
        by (simp add: absSeq_def specWait_def)
    qed
  qed
qed

lemma coherent_flag: "coherent s \<Longrightarrow> isTransitioning (store s) \<longleftrightarrow> specPhase (absSeq s) \<noteq> Idle"
  by (auto simp: coherent_def absSeq_def split: list.splits prod.splits callback.splits)

section \<open>Refinement\<close>

text \<open>
  C3: with clicks only while nothing is pending, the event loop refines the spec's
  machine: from a coherent, well-formed state, the abstraction of the state after any run
  is the machine's state after the same events, and the transition flag is up exactly
  when the machine is not Idle.
\<close>

theorem seq_run_refines_spec:
  assumes "coherent s" and "timers_wf s" and "clicks_when_idle eff evs s"
  shows "absSeq (seq_run eff evs s) = specRun evs (absSeq s) \<and>
         (isTransitioning (store (seq_run eff evs s)) \<longleftrightarrow> specPhase (specRun evs (absSeq s)) \<noteq> Idle)"
  using assms
proof (induction evs arbitrary: s)
  case Nil
  then show ?case by (simp add: coherent_flag)
next
  case (Cons ev evs)
  show ?case
  proof (cases ev)
    case (Click t)
    with Cons.prems have idle: "timers s = []" by simp
    then have "absSeq (handleTimelineSwitch t s) = specRequest t (absSeq s)"
      by (simp add: handleTimelineSwitch_def absSeq_def specRequest_def leaveDuration_def store_ops)
    with idle Cons.prems Click show ?thesis
      using Cons.IH [of "handleTimelineSwitch t s"]
      by (simp add: coherent_click handleTimelineSwitch_wf)
  next
    case (Wait d)
    have "coherent (elapse eff d s)" "timers_wf (elapse eff d s)"
      using Cons.prems by (simp_all add: elapse_def coherent_advance advance_wf)
    with Cons.prems Wait show ?thesis
      using Cons.IH [of "elapse eff d s"] by (simp add: absSeq_elapse)
  qed
qed


text \<open>
  C4: the handler does not guard against a click during a transition. Committed to
  \<open>data\<close>, a click on \<open>comic\<close>, 500 ms, a click on \<open>web3\<close>, 300 ms: at 800 ms the
  end of the first transition lowers the flag and then the second commit switches to
  \<open>web3\<close> with the flag down, so that scene change is shown without a transition; the
  spec's machine, which rejects the second request, ends on \<open>comic\<close>.
\<close>

theorem reentrant_switch_commits_without_flag:
  "let evs = [Click Comic, Wait 500, Click Web3, Wait 300];
       s = seq_run log_hook evs (committed_state Data)
   in currentTimeline (store s) = Web3 \<and> \<not> isTransitioning (store s) \<and>
      timers s = [(1300, EndTransition)] \<and> \<not> commits_under_flag (loop_state.more s) \<and>
      specTimeline (specRun evs (absSeq (committed_state Data))) = Comic"
  by (simp add: committed_state_def initial_store_def elapse_def advance.simps handleTimelineSwitch_def
      fire_def log_hook_def commits_under_flag_def store_ops absSeq_def specRequest_def specWait_def
      leaveDuration_def enterDuration_def)

section \<open>Witnesses\<close>

theorem seq_run_refines_spec_witness:
  "coherent (committed_state Data) \<and> timers_wf (committed_state Data) \<and>
   clicks_when_idle log_hook [Click Comic, Wait 900] (committed_state Data) \<and>
   currentTimeline (store (seq_run log_hook [Click Comic, Wait 900] (committed_state Data))) = Comic"
proof -
  have h: "coherent (committed_state Data)" "timers_wf (committed_state Data)"
    "clicks_when_idle log_hook [Click Comic, Wait 900] (committed_state Data)"
    by (simp_all add: coherent_def timers_wf_def committed_state_def initial_store_def)
  have spec: "specTimeline (specRun [Click Comic, Wait 900] (absSeq (committed_state Data))) = Comic"
    by (simp add: absSeq_def committed_state_def initial_store_def specRequest_def specWait_def
        leaveDuration_def enterDuration_def)
  have "absSeq (seq_run log_hook [Click Comic, Wait 900] (committed_state Data)) =
        specRun [Click Comic, Wait 900] (absSeq (committed_state Data))"
    using seq_run_refines_spec [OF h] by blast
  then have "specTimeline (absSeq (seq_run log_hook [Click Comic, Wait 900] (committed_state Data))) = Comic"
    using spec by simp
  with h show ?thesis by (simp only: specTimeline_absSeq simp_thms)
qed

end
