(* ===== verification/Pointer.thy ===== *)
theory Pointer
  imports Store
begin

text \<open>
  The pointer tracker of \<open>src/src/App.tsx\<close> (lines 17--27): a window-level
  \<open>mousemove\<close> listener that maps the client position in pixels to the normalised
  square, with the origin at the viewport's centre and y pointing up, and writes it into
  the store with \<open>setMousePosition\<close>. The code divides by \<open>window.innerWidth\<close> and
  \<open>window.innerHeight\<close> and clamps nothing.
\<close>

section \<open>Viewport and events\<close>

record viewport =
  innerWidth :: real
  innerHeight :: real

record mouse_event =
  clientX :: real
  clientY :: real

text \<open>
  \<open>x = (clientX / innerWidth) * 2 - 1\<close> and \<open>y = -(clientY / innerHeight) * 2 + 1\<close>. A
  zero width or height makes JavaScript produce an infinite or NaN coordinate, which no
  real number stands for: that case is \<^term>\<open>None\<close>.
\<close>

definition normalizePointer :: "viewport \<Rightarrow> mouse_event \<Rightarrow> vec2 option" where
  "normalizePointer w e =
     (if innerWidth w = 0 \<or> innerHeight w = 0 then None
      else Some \<lparr>vx = clientX e / innerWidth w * 2 - 1,
                 vy = - (clientY e / innerHeight w) * 2 + 1\<rparr>)"

definition handleMouseMove :: "viewport \<Rightarrow> mouse_event \<Rightarrow> multiverse_state \<Rightarrow> multiverse_state option" where
  "handleMouseMove w e s = map_option (\<lambda>p. setMousePosition (vx p) (vy p) s) (normalizePointer w e)"

text \<open>The pixel position a normalised pointer came from: the inverse of the normalisation.\<close>

definition pixelOf :: "viewport \<Rightarrow> vec2 \<Rightarrow> mouse_event" where
  "pixelOf w p = \<lparr>clientX = (vx p + 1) / 2 * innerWidth w, clientY = (1 - vy p) / 2 * innerHeight w\<rparr>"

definition inViewport :: "viewport \<Rightarrow> mouse_event \<Rightarrow> bool" where
  "inViewport w e \<longleftrightarrow>
     0 \<le> clientX e \<and> clientX e \<le> innerWidth w \<and> 0 \<le> clientY e \<and> clientY e \<le> innerHeight w"

definition inUnitSquare :: "vec2 \<Rightarrow> bool" where
  "inUnitSquare p \<longleftrightarrow> -1 \<le> vx p \<and> vx p \<le> 1 \<and> -1 \<le> vy p \<and> vy p \<le> 1"

section \<open>Lemmas\<close>

lemma normalizePointer_Some:
  "0 < innerWidth w \<Longrightarrow> 0 < innerHeight w \<Longrightarrow>
   normalizePointer w e = Some \<lparr>vx = clientX e / innerWidth w * 2 - 1,
                               vy = - (clientY e / innerHeight w) * 2 + 1\<rparr>"
  by (simp add: normalizePointer_def)

lemma unit_coord_iff:
  fixes c W :: real
  assumes "0 < W"
  shows "(-1 \<le> c / W * 2 - 1 \<and> c / W * 2 - 1 \<le> 1) \<longleftrightarrow> 0 \<le> c \<and> c \<le> W"
proof -
  define a where "a = c / W"
  have "(-1 \<le> a * 2 - 1 \<and> a * 2 - 1 \<le> 1) \<longleftrightarrow> 0 \<le> a \<and> a \<le> 1" by auto
  moreover have "0 \<le> a \<longleftrightarrow> 0 \<le> c" using assms by (simp add: a_def zero_le_divide_iff)
  moreover have "a \<le> 1 \<longleftrightarrow> c \<le> W" using assms by (simp add: a_def divide_le_eq_1)
  ultimately show ?thesis by (simp add: a_def)
qed

lemma flip_coord_iff:
  fixes a :: real
  shows "(-1 \<le> - a * 2 + 1 \<and> - a * 2 + 1 \<le> 1) \<longleftrightarrow> (-1 \<le> a * 2 - 1 \<and> a * 2 - 1 \<le> 1)"
  by auto

text \<open>
  C17: with a non-degenerate viewport the handler always produces a pointer, and the
  pointer lies in the unit square exactly when the mouse is inside the viewport: the
  normalisation clamps nothing.
\<close>

theorem normalizePointer_unit_square_iff:
  assumes "0 < innerWidth w" and "0 < innerHeight w"
  shows "\<exists>p. normalizePointer w e = Some p \<and> (inUnitSquare p \<longleftrightarrow> inViewport w e)"
proof -
  have x: "(-1 \<le> clientX e / innerWidth w * 2 - 1 \<and> clientX e / innerWidth w * 2 - 1 \<le> 1)
           \<longleftrightarrow> 0 \<le> clientX e \<and> clientX e \<le> innerWidth w"
    using assms(1) by (rule unit_coord_iff)
  have y: "(-1 \<le> clientY e / innerHeight w * 2 - 1 \<and> clientY e / innerHeight w * 2 - 1 \<le> 1)
           \<longleftrightarrow> 0 \<le> clientY e \<and> clientY e \<le> innerHeight w"
    using assms(2) by (rule unit_coord_iff)
  note flip_coord_iff [of "clientY e / innerHeight w"]
  with x y assms show ?thesis
    by (auto simp: normalizePointer_Some inUnitSquare_def inViewport_def)
qed

text \<open>
  C18: normalisation loses nothing: the pixel position is recovered from the pointer the
  handler stores, so two different mouse positions never give the same pointer.
\<close>

theorem normalizePointer_roundtrip:
  "normalizePointer w e = Some p \<Longrightarrow> pixelOf w p = e"
  by (cases e) (auto simp: normalizePointer_def pixelOf_def field_simps split: if_splits)

section \<open>Witnesses\<close>

theorem normalizePointer_unit_square_iff_witness:
  "(0::real) < innerWidth \<lparr>innerWidth = 1280, innerHeight = 720\<rparr> \<and>
   (0::real) < innerHeight \<lparr>innerWidth = 1280, innerHeight = 720\<rparr> \<and>
   normalizePointer \<lparr>innerWidth = 1280, innerHeight = 720\<rparr> \<lparr>clientX = 320, clientY = 180\<rparr>
     = Some \<lparr>vx = - 1 / 2, vy = 1 / 2\<rparr> \<and>
   inUnitSquare \<lparr>vx = - 1 / 2, vy = 1 / 2\<rparr>"
proof -
  let ?w = "\<lparr>innerWidth = 1280, innerHeight = 720\<rparr> :: viewport"
  let ?e = "\<lparr>clientX = 320, clientY = 180\<rparr> :: mouse_event"
  have w: "0 < innerWidth ?w" "0 < innerHeight ?w" by simp_all
  obtain p where p: "normalizePointer ?w ?e = Some p" "inUnitSquare p \<longleftrightarrow> inViewport ?w ?e"
    using normalizePointer_unit_square_iff [OF w] by blast
  have "p = \<lparr>vx = - 1 / 2, vy = 1 / 2\<rparr>" using p(1) by (simp add: normalizePointer_def)
  moreover have "inViewport ?w ?e" by (simp add: inViewport_def)
  ultimately show ?thesis using p by simp
qed

theorem normalizePointer_roundtrip_witness:
  "normalizePointer \<lparr>innerWidth = 1280, innerHeight = 720\<rparr> \<lparr>clientX = 320, clientY = 180\<rparr>
     = Some \<lparr>vx = - 1 / 2, vy = 1 / 2\<rparr> \<and>
   pixelOf \<lparr>innerWidth = 1280, innerHeight = 720\<rparr> \<lparr>vx = - 1 / 2, vy = 1 / 2\<rparr>
     = \<lparr>clientX = 320, clientY = 180\<rparr>"
proof -
  have n: "normalizePointer \<lparr>innerWidth = 1280, innerHeight = 720\<rparr> \<lparr>clientX = 320, clientY = 180\<rparr>
     = Some \<lparr>vx = - 1 / 2, vy = 1 / 2\<rparr>"
    by (simp add: normalizePointer_def)
  show ?thesis using n normalizePointer_roundtrip [OF n] by simp
qed

end
