(* ===== verification/SingularityScene.thy ===== *)
theory SingularityScene
  imports Classifier Pointer
begin

text \<open>
  The singularity scene, shown while no timeline is committed:
  \<^item> \<open>Singularity\<close> (\<open>src/src/components/Singularity.tsx\<close>): its per-frame update of the
    store's cursor influence, the commit on a click of the hero object, the three
    directional lights and the props it passes to its children;
  \<^item> \<open>HeroObject\<close> (\<open>src/src/components/HeroObject.tsx\<close>): the deformation of the bust's
    vertices and the per-frame update of the shader uniforms;
  \<^item> \<open>DebrisField\<close> (\<open>src/src/components/DebrisField.tsx\<close>): the opacity of each kind of
    debris;
  \<^item> \<open>GlitchEffect\<close> (\<open>src/src/components/Effects/GlitchEffect.tsx\<close>): the
    post-processing parameters derived from one intensity.
  React refs are assumed attached (the \<open>if (ref.current)\<close> guards hold once mounted).
\<close>

section \<open>Singularity\<close>

record singularity_refs =
  timeRef :: seconds
  groupRotY :: real
  groupRotX :: real

text \<open>
  The \<open>useFrame\<close> callback (lines 26--40): count the time, tilt the group with the
  pointer, and store the cursor influence as \<open>lerp(x, x, 0.1)\<close>, \<open>lerp(y, y, 0.1)\<close>.
\<close>

definition singularityFrame ::
  "seconds \<Rightarrow> singularity_refs \<Rightarrow> multiverse_state \<Rightarrow> singularity_refs \<times> multiverse_state" where
  "singularityFrame delta r s =
     (let m = mousePosition s
      in (r\<lparr>timeRef := timeRef r + delta, groupRotY := vx m * (3 / 10), groupRotX := vy m * (2 / 10)\<rparr>,
          setCursorInfluence (lerp (vx m) (vx m) (1 / 10)) (lerp (vy m) (vy m) (1 / 10)) s))"

text \<open>\<open>handleCommit\<close> (lines 42--46), the hero object's \<open>onClick\<close>.\<close>

definition handleCommit :: "multiverse_state \<Rightarrow> multiverse_state" where
  "handleCommit s =
     (let d = dominantTimeline (mousePosition s)
      in if d \<noteq> Singularity then setTimeline d s else s)"

text \<open>The three directional lights (lines 54--68): colour and intensity.\<close>

definition directionalLights :: "vec2 \<Rightarrow> (string \<times> real) list" where
  "directionalLights m =
     [(''#00ff41'', max 0 (- vx m)), (''#7B2CBF'', max 0 (vx m)), (''#FF6B35'', max 0 (vy m))]"

record influence =
  infData :: real
  infComic :: real
  infWeb3 :: real

text \<open>The \<open>timelineInfluence\<close> prop of the hero object (lines 72--76).\<close>

definition timelineInfluence :: "vec2 \<Rightarrow> influence" where
  "timelineInfluence m = \<lparr>infData = max 0 (- vx m), infComic = max 0 (vy m), infWeb3 = max 0 (vx m)\<rparr>"

text \<open>The \<open>intensity\<close> prop of the glitch effect (line 82).\<close>

definition glitchIntensityOf :: "timeline \<Rightarrow> real" where
  "glitchIntensityOf d = (if d \<noteq> Singularity then 1 / 2 else 1 / 5)"

section \<open>HeroObject\<close>

type_synonym vertex = "real \<times> real \<times> real"

text \<open>
  The loop over the icosahedron's vertices (lines 26--42): both tests read the original
  \<open>y\<close>; the top is stretched by 1.2, the part below -0.5 narrowed to 0.6 in x and z.
\<close>

definition deformVertex :: "vertex \<Rightarrow> vertex" where
  "deformVertex v =
     (case v of (x, y, z) \<Rightarrow>
        (if y < - (1 / 2) then x * (3 / 5) else x,
         if y > 0 then y * (6 / 5) else y,
         if y < - (1 / 2) then z * (3 / 5) else z))"

definition deformGeometry :: "vertex list \<Rightarrow> vertex list" where
  "deformGeometry vs = map deformVertex vs"

record hero_state =
  heroTime :: seconds
  uTime :: real
  uDataInfluence :: real
  uComicInfluence :: real
  uWeb3Influence :: real
  uGlitchIntensity :: real
  meshRotY :: real

text \<open>\<open>timeRef\<close> and the uniforms as created by \<open>useMemo\<close> (lines 18, 48--60).\<close>

definition initialHero :: hero_state where
  "initialHero =
     \<lparr>heroTime = 0, uTime = 0, uDataInfluence = 0, uComicInfluence = 0, uWeb3Influence = 0,
      uGlitchIntensity = 1 / 10, meshRotY = 0\<rparr>"

text \<open>The \<open>useFrame\<close> callback (lines 62--96).\<close>

definition heroFrame :: "seconds \<Rightarrow> influence \<Rightarrow> hero_state \<Rightarrow> hero_state" where
  "heroFrame delta tgt h =
     (let t = heroTime h + delta
      in h\<lparr>heroTime := t, uTime := t,
           uDataInfluence := lerp (uDataInfluence h) (infData tgt) (1 / 10),
           uComicInfluence := lerp (uComicInfluence h) (infComic tgt) (1 / 10),
           uWeb3Influence := lerp (uWeb3Influence h) (infWeb3 tgt) (1 / 10),
           uGlitchIntensity := 1 / 10 + max (infData tgt) (max (infComic tgt) (infWeb3 tgt)) * (4 / 10),
           meshRotY := meshRotY h + delta * (1 / 10)\<rparr>)"

text \<open>Frames with the pointer of each frame: the scene passes the current pointer's influence.\<close>

fun heroRun :: "(seconds \<times> vec2) list \<Rightarrow> hero_state \<Rightarrow> hero_state" where
  "heroRun [] h = h"
| "heroRun ((delta, m) # fs) h = heroRun fs (heroFrame delta (timelineInfluence m) h)"

definition hero_bounded :: "hero_state \<Rightarrow> bool" where
  "hero_bounded h \<longleftrightarrow>
     0 \<le> uDataInfluence h \<and> uDataInfluence h \<le> 1 \<and>
     0 \<le> uComicInfluence h \<and> uComicInfluence h \<le> 1 \<and>
     0 \<le> uWeb3Influence h \<and> uWeb3Influence h \<le> 1 \<and>
     1 / 10 \<le> uGlitchIntensity h \<and> uGlitchIntensity h \<le> 1 / 2"

section \<open>DebrisField and GlitchEffect\<close>

text \<open>\<open>getOpacity\<close> (DebrisField, lines 82--85) for the debris kind of timeline \<open>t\<close>.\<close>

definition getOpacity :: "timeline \<Rightarrow> timeline \<Rightarrow> real" where
  "getOpacity dominant t =
     (if dominant = Singularity then 3 / 10 else if dominant = t then 4 / 5 else 1 / 10)"

record glitch_params =
  strength :: "real \<times> real"
  aberrationOffset :: "real \<times> real"
  bloomIntensity :: real

text \<open>The intensity-dependent props of \<open>Glitch\<close>, \<open>ChromaticAberration\<close> and \<open>Bloom\<close>.\<close>

definition glitchEffect :: "real \<Rightarrow> glitch_params" where
  "glitchEffect i =
     \<lparr>strength = (i * (3 / 10), i * (1 / 2)),
      aberrationOffset = (i * (2 / 1000), i * (2 / 1000)),
      bloomIntensity = i * (1 / 2)\<rparr>"

section \<open>Lemmas\<close>

text \<open>
  C24: the cursor influence the Singularity scene stores every frame is exactly the
  pointer: \<open>lerp(x, x, 0.1)\<close> interpolates a value with itself, so the smoothing the
  comment announces never happens. Nothing else of the store changes.
\<close>

theorem singularityFrame_influence_is_pointer:
  "snd (singularityFrame delta r s) = s\<lparr>cursorInfluence := mousePosition s\<rparr>"
  by (simp add: singularityFrame_def setCursorInfluence_def Let_def)

lemma lerp_tenth_dist: "lerp u v (1 / 10) - v = (9 / 10) * (u - v)"
  by (simp add: lerp_dist)

text \<open>
  C25: with the pointer held still, each shader influence approaches its target
  geometrically: after \<open>n\<close> frames its distance to the target is \<open>0.9^n\<close> times the
  initial distance, whatever the frame times.
\<close>

theorem heroRun_converges:
  assumes "\<forall>f \<in> set fs. snd f = m"
  shows "uDataInfluence (heroRun fs h) - infData (timelineInfluence m) =
           (9 / 10) ^ length fs * (uDataInfluence h - infData (timelineInfluence m)) \<and>
         uComicInfluence (heroRun fs h) - infComic (timelineInfluence m) =
           (9 / 10) ^ length fs * (uComicInfluence h - infComic (timelineInfluence m)) \<and>
         uWeb3Influence (heroRun fs h) - infWeb3 (timelineInfluence m) =
           (9 / 10) ^ length fs * (uWeb3Influence h - infWeb3 (timelineInfluence m))"
  using assms
proof (induction fs arbitrary: h)
  case Nil
  then show ?case by simp
next
  case (Cons f fs)
  obtain delta where f: "f = (delta, m)" using Cons.prems by (cases f) auto
  have "\<forall>f \<in> set fs. snd f = m" using Cons.prems by simp
  with Cons.IH [of "heroFrame delta (timelineInfluence m) h"] f show ?case
    by (simp add: heroFrame_def Let_def lerp_tenth_dist)
qed

lemma influence_bounded:
  assumes "inUnitSquare m"
  shows "0 \<le> infData (timelineInfluence m) \<and> infData (timelineInfluence m) \<le> 1 \<and>
         0 \<le> infComic (timelineInfluence m) \<and> infComic (timelineInfluence m) \<le> 1 \<and>
         0 \<le> infWeb3 (timelineInfluence m) \<and> infWeb3 (timelineInfluence m) \<le> 1"
  using assms by (simp add: timelineInfluence_def inUnitSquare_def)

lemma glitch_range:
  fixes a b c :: real
  assumes "0 \<le> a" "a \<le> 1" "0 \<le> b" "b \<le> 1" "0 \<le> c" "c \<le> 1"
  shows "1 / 10 \<le> 1 / 10 + max a (max b c) * (4 / 10) \<and> 1 / 10 + max a (max b c) * (4 / 10) \<le> 1 / 2"
  using assms by (auto simp: max_def)

lemma heroFrame_bounded:
  assumes "inUnitSquare m" and "hero_bounded h"
  shows "hero_bounded (heroFrame delta (timelineInfluence m) h)"
proof -
  note i = influence_bounded [OF assms(1)]
  have tenth: "(0::real) \<le> 1 / 10" "(1::real) / 10 \<le> 1" by simp_all
  have d: "0 \<le> lerp (uDataInfluence h) (infData (timelineInfluence m)) (1 / 10) \<and>
           lerp (uDataInfluence h) (infData (timelineInfluence m)) (1 / 10) \<le> 1"
    using assms(2) i by (intro lerp_between tenth) (simp_all add: hero_bounded_def)
  have c: "0 \<le> lerp (uComicInfluence h) (infComic (timelineInfluence m)) (1 / 10) \<and>
           lerp (uComicInfluence h) (infComic (timelineInfluence m)) (1 / 10) \<le> 1"
    using assms(2) i by (intro lerp_between tenth) (simp_all add: hero_bounded_def)
  have w: "0 \<le> lerp (uWeb3Influence h) (infWeb3 (timelineInfluence m)) (1 / 10) \<and>
           lerp (uWeb3Influence h) (infWeb3 (timelineInfluence m)) (1 / 10) \<le> 1"
    using assms(2) i by (intro lerp_between tenth) (simp_all add: hero_bounded_def)
  have g: "1 / 10 \<le> 1 / 10 + max (infData (timelineInfluence m)) (max (infComic (timelineInfluence m))
             (infWeb3 (timelineInfluence m))) * (4 / 10) \<and>
           1 / 10 + max (infData (timelineInfluence m)) (max (infComic (timelineInfluence m))
             (infWeb3 (timelineInfluence m))) * (4 / 10) \<le> 1 / 2"
    using i by (intro glitch_range) simp_all
  show ?thesis using d c w g
    by (simp add: hero_bounded_def heroFrame_def Let_def)
qed

text \<open>
  A property of the uniforms that every frame keeps, for pointers of a given region,
  holds after any run of frames whose pointers stay in that region.
\<close>

lemma heroRun_invariant:
  assumes step: "\<And>delta m h. Q m \<Longrightarrow> P h \<Longrightarrow> P (heroFrame delta (timelineInfluence m) h)"
    and fs: "\<forall>f \<in> set fs. Q (snd f)" and h: "P h"
  shows "P (heroRun fs h)"
  using fs h
proof (induction fs arbitrary: h)
  case Nil
  then show ?case by simp
next
  case (Cons f fs)
  then show ?case by (cases f) (simp add: step)
qed

text \<open>
  C26: as long as the pointer stays in the unit square, every shader influence stays in
  [0, 1] and the glitch intensity in [0.1, 0.5], from the initial uniforms on.
\<close>

theorem heroRun_bounded:
  "\<forall>f \<in> set fs. inUnitSquare (snd f) \<Longrightarrow> hero_bounded (heroRun fs initialHero)"
  by (rule heroRun_invariant [where Q = inUnitSquare], rule heroFrame_bounded)
    (simp_all add: hero_bounded_def initialHero_def)

text \<open>
  Outside the unit square the bound fails: the unclamped pointer (2, 2) that a mouse
  past the viewport's corner produces drives the glitch intensity to 0.9.
\<close>

lemma heroFrame_unclamped_glitch:
  "uGlitchIntensity (heroFrame delta (timelineInfluence \<lparr>vx = 2, vy = 2\<rparr>) initialHero) = 9 / 10 \<and>
   \<not> hero_bounded (heroFrame delta (timelineInfluence \<lparr>vx = 2, vy = 2\<rparr>) initialHero)"
  by (simp add: heroFrame_def timelineInfluence_def initialHero_def hero_bounded_def Let_def lerp_def)

lemma deform_y_mono: "(y1::real) < y2 \<Longrightarrow>
  (if y1 > 0 then y1 * (6 / 5) else y1) < (if y2 > 0 then y2 * (6 / 5) else y2)"
  by auto

text \<open>
  The deformation of the bust keeps vertices apart and keeps their heights in
  order: no two vertices of the icosahedron are merged, and what was above stays above.
\<close>

lemma deformVertex_inj_mono:
  "inj deformVertex \<and>
   (\<forall>v w. fst (snd v) < fst (snd w) \<longrightarrow> fst (snd (deformVertex v)) < fst (snd (deformVertex w)))"
proof
  show "inj deformVertex"
  proof (rule injI)
    fix v w assume eq: "deformVertex v = deformVertex w"
    obtain x1 y1 z1 x2 y2 z2 where v: "v = (x1, y1, z1)" and w: "w = (x2, y2, z2)"
      by (cases v, cases w) auto
    have y: "y1 = y2"
    proof (rule ccontr)
      assume "y1 \<noteq> y2"
      then consider "y1 < y2" | "y2 < y1" by linarith
      then show False
        using eq v w deform_y_mono [of y1 y2] deform_y_mono [of y2 y1]
        by cases (simp_all add: deformVertex_def)
    qed
    with eq v w show "v = w" by (auto simp: deformVertex_def split: if_splits)
  qed
next
  show "\<forall>v w. fst (snd v) < fst (snd w) \<longrightarrow> fst (snd (deformVertex v)) < fst (snd (deformVertex w))"
    by (auto simp: deformVertex_def deform_y_mono split: prod.splits)
qed

text \<open>
  The debris opacities: in the singularity every kind is at 0.3; otherwise the kind
  of the dominant timeline is at 0.8 and the two others at 0.1.
\<close>

lemma getOpacity_spotlight:
  "(getOpacity Singularity t = 3 / 10) \<and>
   (d \<noteq> Singularity \<longrightarrow> getOpacity d d = 4 / 5 \<and> (t \<noteq> d \<longrightarrow> getOpacity d t = 1 / 10))"
  by (simp add: getOpacity_def)

section \<open>Witnesses\<close>

theorem heroRun_converges_witness:
  "uDataInfluence (heroRun [(1 / 60, \<lparr>vx = -1, vy = 0\<rparr>), (1 / 60, \<lparr>vx = -1, vy = 0\<rparr>)] initialHero) - 1
     = (9 / 10) ^ 2 * (0 - 1)"
proof -
  let ?m = "\<lparr>vx = -1, vy = 0\<rparr> :: vec2"
  let ?fs = "[(1 / 60, ?m), (1 / 60, ?m)] :: (seconds \<times> vec2) list"
  have h: "\<forall>f \<in> set ?fs. snd f = ?m" by simp
  have "infData (timelineInfluence ?m) = 1" by (simp add: timelineInfluence_def)
  then show ?thesis using h heroRun_converges [OF h, of initialHero]
    by (simp add: initialHero_def power2_eq_square)
qed

theorem heroRun_bounded_witness:
  "inUnitSquare \<lparr>vx = -1, vy = 1\<rparr> \<and>
   hero_bounded (heroRun [(1 / 60, \<lparr>vx = -1, vy = 1\<rparr>)] initialHero)"
proof -
  have h: "\<forall>f \<in> set [(1 / 60, \<lparr>vx = -1, vy = 1\<rparr>)]. inUnitSquare (snd f)"
    by (simp add: inUnitSquare_def)
  show ?thesis using h heroRun_bounded [OF h] by (simp add: inUnitSquare_def)
qed

theorem getOpacity_spotlight_witness:
  "Web3 \<noteq> Singularity \<and> getOpacity Web3 Web3 = 4 / 5 \<and> Data \<noteq> Web3 \<and> getOpacity Web3 Data = 1 / 10"
  using getOpacity_spotlight [of Data Web3] by simp

theorem deformVertex_inj_mono_witness:
  "fst (snd ((0, -1, 0) :: vertex)) < fst (snd ((0, 1, 0) :: vertex)) \<and>
   fst (snd (deformVertex (0, -1, 0))) < fst (snd (deformVertex (0, 1, 0)))"
  using deformVertex_inj_mono by simp

end
