(* ===== verification/HeroShader.thy ===== *)
theory HeroShader
  imports SingularityScene
begin

text \<open>
  The GLSL programs of \<open>src/src/shaders/heroShader.ts\<close>, run by the hero object's
  \<open>shaderMaterial\<close> with the uniforms that \<open>HeroObject\<close> writes every frame
  (\<^typ>\<open>hero_state\<close> of \<open>SingularityScene\<close>). GLSL floats are reals; \<open>fract\<close>,
  \<open>mod\<close>, \<open>step\<close> and the shader's \<open>random\<close> are written out. Each block of a shader's
  \<open>main\<close> is one definition, composed in the shader's order: \<open>vertexMain\<close> is the
  displaced object-space position, \<open>fragmentMain\<close> the colour written to
  \<open>gl_FragColor\<close> (with alpha 1) from the varyings, and the three colour uniforms are a
  parameter. The last section adds the uniforms three.js supplies (projection, model-view and
  normal matrix, camera position) as inputs: \<open>vertexShader\<close> is the whole vertex
  \<open>main\<close> with its varyings and \<open>gl_Position\<close>, and \<open>shadeVertex\<close> runs the
  fragment shader on a vertex's outputs. How three.js derives the matrices from the scene
  graph is not modelled; the matrices are parameters.
\<close>

section \<open>GLSL built-ins\<close>

text \<open>\<open>fract(x) = x - floor(x)\<close>, \<open>mod(x, y) = x - y * floor(x / y)\<close>, \<open>step(edge, x)\<close>.\<close>

definition fract :: "real \<Rightarrow> real" where
  "fract x = x - of_int \<lfloor>x\<rfloor>"

definition glslMod :: "real \<Rightarrow> real \<Rightarrow> real" where
  "glslMod x y = x - y * of_int \<lfloor>x / y\<rfloor>"

definition glslStep :: "real \<Rightarrow> real \<Rightarrow> real" where
  "glslStep edge x = (if x < edge then 0 else 1)"

text \<open>The pseudo-random function both shaders declare (lines 13--15 and 66--68).\<close>

definition random_glsl :: "real \<times> real \<Rightarrow> real" where
  "random_glsl st =
     fract (sin (fst st * (129898 / 10000) + snd st * (78233 / 1000)) * (437585453123 / 10000000))"

section \<open>Vertex shader\<close>

text \<open>The glitch (lines 25--29): in the last tenth of every 0.1 s, x and z are displaced.\<close>

definition glitchDisplace :: "hero_state \<Rightarrow> vec3 \<Rightarrow> vec3" where
  "glitchDisplace u position =
     (let glitch = random_glsl (uTime u * 10, fst (snd position)) * uGlitchIntensity u
      in if glslMod (uTime u * 10) 1 > 9 / 10
         then vadd position (glitch * (3 / 10), 0, glitch * (2 / 10)) else position)"

text \<open>The data influence (lines 32--35): a ripple along the normal.\<close>

definition dataDisplace :: "hero_state \<Rightarrow> vec3 \<Rightarrow> vec3 \<Rightarrow> vec3 \<Rightarrow> vec3" where
  "dataDisplace u position normal pos =
     (if uDataInfluence u > 3 / 10
      then vadd pos (vscale (sin (fst (snd position) * 10 + uTime u * 2) * (2 / 100) * uDataInfluence u) normal)
      else pos)"

text \<open>The comic influence (lines 38--40): a step along the normal.\<close>

definition comicDisplace :: "hero_state \<Rightarrow> vec3 \<Rightarrow> vec3 \<Rightarrow> vec3 \<Rightarrow> vec3" where
  "comicDisplace u position normal pos =
     (if uComicInfluence u > 3 / 10
      then vadd pos (vscale (glslStep (1 / 2) (fract (uTime u + fst (snd position) * 5)) * (5 / 100) *
                             uComicInfluence u) normal)
      else pos)"

text \<open>The web3 influence (lines 43--46): a wave along the normal.\<close>

definition web3Displace :: "hero_state \<Rightarrow> vec3 \<Rightarrow> vec3 \<Rightarrow> vec3 \<Rightarrow> vec3" where
  "web3Displace u position normal pos =
     (if uWeb3Influence u > 3 / 10
      then (let wave = sin (fst (snd position) * 3 + uTime u * 2) * cos (fst position * 3 + uTime u * (3 / 2))
            in vadd pos (vscale (wave * (1 / 10) * uWeb3Influence u) normal))
      else pos)"

text \<open>\<open>main\<close> (lines 17--49): the displaced position \<open>pos\<close>.\<close>

definition vertexMain :: "hero_state \<Rightarrow> vec3 \<Rightarrow> vec3 \<Rightarrow> vec3" where
  "vertexMain u position normal =
     web3Displace u position normal
       (comicDisplace u position normal
         (dataDisplace u position normal (glitchDisplace u position)))"

section \<open>Fragment shader\<close>

record hero_colors =
  uDataColor :: vec3
  uComicColor :: vec3
  uWeb3Color :: vec3

text \<open>The base colour (lines 75--78): grey mixed towards each timeline's colour.\<close>

definition baseColor :: "hero_state \<Rightarrow> hero_colors \<Rightarrow> vec3" where
  "baseColor u c =
     vmix (vmix (vmix (1 / 2, 1 / 2, 1 / 2) (uDataColor c) (uDataInfluence u))
                (uComicColor c) (uComicInfluence u))
          (uWeb3Color c) (uWeb3Influence u)"

text \<open>
  The lighting terms (lines 81--82). \<open>pow(x, 3.0)\<close> is \<open>x ^ 3\<close> for the \<open>x \<ge> 0\<close> that
  unit vectors give; GLSL leaves it undefined for negative \<open>x\<close>.
\<close>

definition fresnelOf :: "vec3 \<Rightarrow> vec3 \<Rightarrow> real" where
  "fresnelOf viewDirection normal = (1 - vdot viewDirection normal) ^ 3"

definition diffuseOf :: "vec3 \<Rightarrow> real" where
  "diffuseOf normal = max (vdot normal (0, 1, 0)) 0"

text \<open>The data style (lines 87--93): wireframe edges and a fresnel glow.\<close>

definition dataStyle :: "hero_state \<Rightarrow> hero_colors \<Rightarrow> vec3 \<Rightarrow> real \<Rightarrow> vec3 \<Rightarrow> vec3" where
  "dataStyle u c vPosition fresnel color =
     (if uDataInfluence u > 3 / 10
      then (let edge = \<bar>sin (fst vPosition * 20)\<bar> * \<bar>sin (fst (snd vPosition) * 20)\<bar> *
                       \<bar>sin (snd (snd vPosition) * 20)\<bar>;
                color1 = (if edge < 1 / 10 then uDataColor c else color)
            in vadd color1 (vscale (fresnel * (1 / 2)) (uDataColor c)))
      else color)"

text \<open>The comic style (lines 96--108): quantised light, halftone dots, black outline.\<close>

definition comicStyle :: "hero_state \<Rightarrow> real \<times> real \<Rightarrow> real \<Rightarrow> real \<Rightarrow> vec3 \<Rightarrow> vec3" where
  "comicStyle u vUv diffuse fresnel color =
     (if uComicInfluence u > 3 / 10
      then (let quantize = of_int \<lfloor>diffuse * 4\<rfloor> / 4;
                color1 = vscale (quantize + 3 / 10) color;
                dots = glslStep (1 / 2) (random_glsl (of_int \<lfloor>fst vUv * 40\<rfloor>, of_int \<lfloor>snd vUv * 40\<rfloor>));
                color2 = vscale (8 / 10 + dots * (2 / 10) * uComicInfluence u) color1
            in if fresnel > 7 / 10 then (0, 0, 0) else color2)
      else color)"

text \<open>
  The web3 style (lines 111--118): chrome and golden highlights; the vector
  \<open>reflected\<close> the code computes is never used.
\<close>

definition web3Style :: "hero_state \<Rightarrow> hero_colors \<Rightarrow> real \<Rightarrow> vec3 \<Rightarrow> vec3" where
  "web3Style u c fresnel color =
     (if uWeb3Influence u > 3 / 10
      then vadd (vmix color (vscale 2 (uWeb3Color c)) (fresnel * uWeb3Influence u))
                (vscale (fresnel ^ 5 * uWeb3Influence u) (1, 84 / 100, 0))
      else color)"

text \<open>
  The RGB split (lines 121--125): the two assignments run in order, so the blue channel
  is mixed with the red channel already mixed with the green one.
\<close>

definition rgbSplit :: "hero_state \<Rightarrow> vec3 \<Rightarrow> vec3" where
  "rgbSplit u color =
     (let glitchAmount = max (max (uDataInfluence u) (uComicInfluence u)) (uWeb3Influence u)
      in if glslMod (uTime u * 10) 1 > 95 / 100 \<and> glitchAmount > 1 / 2
         then (case color of (r, g, b) \<Rightarrow> let r' = lerp r g (1 / 2) in (r', g, lerp b r' (1 / 2)))
         else color)"

text \<open>\<open>main\<close> (lines 70--128): the colour written to \<open>gl_FragColor\<close>.\<close>

definition fragmentMain :: "hero_state \<Rightarrow> hero_colors \<Rightarrow> vec3 \<Rightarrow> vec3 \<Rightarrow> vec3 \<Rightarrow> real \<times> real \<Rightarrow> vec3" where
  "fragmentMain u c cameraPosition vNormal vPosition vUv =
     (let normal = vnormalize vNormal;
          viewDirection = vnormalize (vsub cameraPosition vPosition);
          fresnel = fresnelOf viewDirection normal;
          diffuse = diffuseOf normal
      in rgbSplit u (web3Style u c fresnel (comicStyle u vUv diffuse fresnel
           (dataStyle u c vPosition fresnel (baseColor u c)))))"

text \<open>The influences are at most the styles' threshold 0.3.\<close>

definition hero_calm :: "hero_state \<Rightarrow> bool" where
  "hero_calm h \<longleftrightarrow>
     0 \<le> uDataInfluence h \<and> uDataInfluence h \<le> 3 / 10 \<and>
     0 \<le> uComicInfluence h \<and> uComicInfluence h \<le> 3 / 10 \<and>
     0 \<le> uWeb3Influence h \<and> uWeb3Influence h \<le> 3 / 10"

section \<open>The pipeline: three.js's built-in uniforms and the vertex shader's outputs\<close>

text \<open>
  GLSL's \<open>vec4\<close>, and \<open>mat3\<close>, \<open>mat4\<close> as triples and quadruples of rows; \<open>M * v\<close> and
  \<open>M * N\<close> are the matrix products (the storage order of GLSL does not change them).
\<close>

type_synonym vec4 = "real \<times> real \<times> real \<times> real"
type_synonym mat3 = "vec3 \<times> vec3 \<times> vec3"
type_synonym mat4 = "vec4 \<times> vec4 \<times> vec4 \<times> vec4"

definition vdot4 :: "vec4 \<Rightarrow> vec4 \<Rightarrow> real" where
  "vdot4 a b =
     (case a of (a1, a2, a3, a4) \<Rightarrow> case b of (b1, b2, b3, b4) \<Rightarrow> a1 * b1 + a2 * b2 + a3 * b3 + a4 * b4)"

definition mat3MulVec :: "mat3 \<Rightarrow> vec3 \<Rightarrow> vec3" where
  "mat3MulVec m v = (case m of (r1, r2, r3) \<Rightarrow> (vdot r1 v, vdot r2 v, vdot r3 v))"

definition mat4MulVec :: "mat4 \<Rightarrow> vec4 \<Rightarrow> vec4" where
  "mat4MulVec m v = (case m of (r1, r2, r3, r4) \<Rightarrow> (vdot4 r1 v, vdot4 r2 v, vdot4 r3 v, vdot4 r4 v))"

definition mat4Columns :: "mat4 \<Rightarrow> mat4" where
  "mat4Columns m =
     (case m of ((a1, a2, a3, a4), (b1, b2, b3, b4), (c1, c2, c3, c4), (d1, d2, d3, d4)) \<Rightarrow>
        ((a1, b1, c1, d1), (a2, b2, c2, d2), (a3, b3, c3, d3), (a4, b4, c4, d4)))"

definition mat4Mul :: "mat4 \<Rightarrow> mat4 \<Rightarrow> mat4" where
  "mat4Mul m n = (case m of (r1, r2, r3, r4) \<Rightarrow>
     (mat4MulVec (mat4Columns n) r1, mat4MulVec (mat4Columns n) r2,
      mat4MulVec (mat4Columns n) r3, mat4MulVec (mat4Columns n) r4))"

text \<open>
  The uniforms three.js prepends to a \<open>ShaderMaterial\<close>'s programs: the camera's projection,
  the object's model-view matrix, its normal matrix (the inverse transpose of the model-view
  matrix's upper left 3x3) and the camera's position in world coordinates.
\<close>

record three_uniforms =
  projectionMatrix :: mat4
  modelViewMatrix :: mat4
  normalMatrix :: mat3
  cameraPosition :: vec3

text \<open>What the vertex shader writes (lines 2--4 and 48): the varyings and \<open>gl_Position\<close>.\<close>

record vertex_out =
  glPosition :: vec4
  varNormal :: vec3
  varPosition :: vec3
  varUv :: "real \<times> real"

text \<open>
  The vertex shader's \<open>main\<close> (lines 17--49): the varyings from the attributes, the
  displaced position \<^const>\<open>vertexMain\<close>, and \<open>projectionMatrix * modelViewMatrix *
  vec4(pos, 1.0)\<close>, evaluated left to right as GLSL does.
\<close>

definition vertexShader :: "hero_state \<Rightarrow> three_uniforms \<Rightarrow> vec3 \<Rightarrow> vec3 \<Rightarrow> real \<times> real \<Rightarrow> vertex_out" where
  "vertexShader u m position normal uv =
     \<lparr>glPosition = mat4MulVec (mat4Mul (projectionMatrix m) (modelViewMatrix m))
                    (case vertexMain u position normal of (x, y, z) \<Rightarrow> (x, y, z, 1)),
      varNormal = vnormalize (mat3MulVec (normalMatrix m) normal),
      varPosition = position, varUv = uv\<rparr>"

text \<open>
  The colour of the fragment at a vertex: the fragment shader run on that vertex's
  varyings (at a vertex the interpolated varyings are the vertex's own).
\<close>

definition shadeVertex ::
  "hero_state \<Rightarrow> hero_colors \<Rightarrow> three_uniforms \<Rightarrow> vec3 \<Rightarrow> vec3 \<Rightarrow> real \<times> real \<Rightarrow> vec3" where
  "shadeVertex u c m position normal uv =
     (let out = vertexShader u m position normal uv
      in fragmentMain u c (cameraPosition m) (varNormal out) (varPosition out) (varUv out))"

text \<open>
  The hero seen from the camera three.js's default scene uses, at distance 5 on the z axis
  looking at the hero at the origin, and the same scene turned by 180 degrees about the
  y axis: the camera at (0, 0, -5) and the hero turned with it. The turn cancels in the
  model-view and normal matrices; only \<open>cameraPosition\<close> differs.
\<close>

definition frontView :: "mat4 \<Rightarrow> three_uniforms" where
  "frontView p =
     \<lparr>projectionMatrix = p,
      modelViewMatrix = ((1, 0, 0, 0), (0, 1, 0, 0), (0, 0, 1, -5), (0, 0, 0, 1)),
      normalMatrix = ((1, 0, 0), (0, 1, 0), (0, 0, 1)),
      cameraPosition = (0, 0, 5)\<rparr>"

definition turnedView :: "mat4 \<Rightarrow> three_uniforms" where
  "turnedView p = (frontView p)\<lparr>cameraPosition := (0, 0, -5)\<rparr>"

section \<open>Lemmas\<close>

lemma vnormalize_z:
  "0 < z \<Longrightarrow> vnormalize (0, 0, z) = (0, 0, 1)" "z < 0 \<Longrightarrow> vnormalize (0, 0, z) = (0, 0, -1)"
  by (simp_all add: vnormalize_def vlength_def vdot_def vscale_def real_sqrt_mult_self)

lemma fract_range: "0 \<le> fract x \<and> fract x < 1"
  by (simp add: fract_def) linarith

lemma random_glsl_range: "0 \<le> random_glsl st \<and> random_glsl st < 1"
  by (simp add: random_glsl_def fract_range)

lemma calm_styles:
  assumes "hero_calm u"
  shows "dataDisplace u p n q = q" "comicDisplace u p n q = q" "web3Displace u p n q = q"
    "dataStyle u c vp fr col = col" "comicStyle u uv df fr col = col" "web3Style u c fr col = col"
    "rgbSplit u col = col"
  using assms by (simp_all add: hero_calm_def dataDisplace_def comicDisplace_def web3Displace_def
      dataStyle_def comicStyle_def web3Style_def rgbSplit_def Let_def max_def)

lemma heroFrame_calm:
  assumes "dominantTimeline m = Singularity" and "hero_calm h"
  shows "hero_calm (heroFrame delta (timelineInfluence m) h)"
proof -
  have i: "0 \<le> infData (timelineInfluence m) \<and> infData (timelineInfluence m) \<le> 3 / 10"
    "0 \<le> infComic (timelineInfluence m) \<and> infComic (timelineInfluence m) \<le> 3 / 10"
    "0 \<le> infWeb3 (timelineInfluence m) \<and> infWeb3 (timelineInfluence m) \<le> 3 / 10"
    using assms(1) by (simp_all add: dominantTimeline_def threshold_def timelineInfluence_def split: if_splits)
  have tenth: "(0::real) \<le> 1 / 10" "(1::real) / 10 \<le> 1" by simp_all
  have "0 \<le> lerp (uDataInfluence h) (infData (timelineInfluence m)) (1 / 10) \<and>
        lerp (uDataInfluence h) (infData (timelineInfluence m)) (1 / 10) \<le> 3 / 10"
       "0 \<le> lerp (uComicInfluence h) (infComic (timelineInfluence m)) (1 / 10) \<and>
        lerp (uComicInfluence h) (infComic (timelineInfluence m)) (1 / 10) \<le> 3 / 10"
       "0 \<le> lerp (uWeb3Influence h) (infWeb3 (timelineInfluence m)) (1 / 10) \<and>
        lerp (uWeb3Influence h) (infWeb3 (timelineInfluence m)) (1 / 10) \<le> 3 / 10"
    using assms(2) i by (intro lerp_between tenth; simp add: hero_calm_def)+
  then show ?thesis by (simp add: hero_calm_def heroFrame_def Let_def)
qed

lemma glitchDisplace_shape:
  assumes "0 \<le> uGlitchIntensity u"
  obtains gx gz where "glitchDisplace u p = vadd p (gx, 0, gz)"
    "\<bar>gx\<bar> \<le> 3 / 10 * uGlitchIntensity u" "\<bar>gz\<bar> \<le> 2 / 10 * uGlitchIntensity u"
proof -
  define r where "r = random_glsl (uTime u * 10, fst (snd p))"
  have r: "0 \<le> r" "r \<le> 1" using random_glsl_range [of "(uTime u * 10, fst (snd p))"] by (simp_all add: r_def)
  have g: "0 \<le> r * uGlitchIntensity u" "uGlitchIntensity u * r \<le> uGlitchIntensity u"
    using r assms by (simp_all add: mult_right_le_one_le)
  show ?thesis
  proof (cases "glslMod (uTime u * 10) 1 > 9 / 10")
    case True
    then show ?thesis using g
      by (intro that [of "r * uGlitchIntensity u * (3 / 10)" "r * uGlitchIntensity u * (2 / 10)"])
        (simp_all add: glitchDisplace_def Let_def r_def [symmetric] mult.commute)
  next
    case False
    obtain x y z where "p = (x, y, z)" by (cases p) auto
    then show ?thesis using False assms
      by (intro that [of 0 0]) (simp_all add: glitchDisplace_def Let_def)
  qed
qed

lemma along_normal_shape:
  "\<exists>k. dataDisplace u p n q = vadd q (vscale k n) \<and> \<bar>k\<bar> \<le> 2 / 100 * \<bar>uDataInfluence u\<bar>"
  "\<exists>k. comicDisplace u p n q = vadd q (vscale k n) \<and> \<bar>k\<bar> \<le> 5 / 100 * \<bar>uComicInfluence u\<bar>"
  "\<exists>k. web3Displace u p n q = vadd q (vscale k n) \<and> \<bar>k\<bar> \<le> 1 / 10 * \<bar>uWeb3Influence u\<bar>"
proof -
  obtain x y z where q: "q = (x, y, z)" by (cases q) auto
  obtain a b d where n: "n = (a, b, d)" by (cases n) auto
  have zero: "q = vadd q (vscale 0 n)" by (simp add: q n)
  show "\<exists>k. dataDisplace u p n q = vadd q (vscale k n) \<and> \<bar>k\<bar> \<le> 2 / 100 * \<bar>uDataInfluence u\<bar>"
  proof (cases "uDataInfluence u > 3 / 10")
    case True
    let ?k = "sin (fst (snd p) * 10 + uTime u * 2) * (2 / 100) * uDataInfluence u"
    have "\<bar>?k\<bar> \<le> 2 / 100 * \<bar>uDataInfluence u\<bar>"
      by (simp add: abs_mult mult_left_le_one_le abs_sin_le_one)
    with True show ?thesis by (auto simp: dataDisplace_def)
  qed (use zero in \<open>auto simp: dataDisplace_def\<close>)
  show "\<exists>k. comicDisplace u p n q = vadd q (vscale k n) \<and> \<bar>k\<bar> \<le> 5 / 100 * \<bar>uComicInfluence u\<bar>"
  proof (cases "uComicInfluence u > 3 / 10")
    case True
    let ?k = "glslStep (1 / 2) (fract (uTime u + fst (snd p) * 5)) * (5 / 100) * uComicInfluence u"
    have "\<bar>?k\<bar> \<le> 5 / 100 * \<bar>uComicInfluence u\<bar>"
      by (simp add: glslStep_def abs_mult)
    with True show ?thesis by (auto simp: comicDisplace_def)
  qed (use zero in \<open>auto simp: comicDisplace_def\<close>)
  show "\<exists>k. web3Displace u p n q = vadd q (vscale k n) \<and> \<bar>k\<bar> \<le> 1 / 10 * \<bar>uWeb3Influence u\<bar>"
  proof (cases "uWeb3Influence u > 3 / 10")
    case True
    let ?w = "sin (fst (snd p) * 3 + uTime u * 2) * cos (fst p * 3 + uTime u * (3 / 2))"
    have "\<bar>?w\<bar> \<le> 1" by (simp add: abs_mult mult_le_one)
    then have "\<bar>?w\<bar> * \<bar>uWeb3Influence u\<bar> \<le> \<bar>uWeb3Influence u\<bar>"
      by (intro mult_left_le_one_le) simp_all
    then have "\<bar>?w * (1 / 10) * uWeb3Influence u\<bar> \<le> 1 / 10 * \<bar>uWeb3Influence u\<bar>"
      by (simp add: abs_mult)
    with True show ?thesis by (auto simp: web3Displace_def Let_def)
  qed (use zero in \<open>auto simp: web3Displace_def\<close>)
qed

lemma vertexMain_shape:
  assumes "0 \<le> uGlitchIntensity u"
  obtains gx gz k where "vertexMain u p n = vadd p (vadd (gx, 0, gz) (vscale k n))"
    "\<bar>gx\<bar> \<le> 3 / 10 * uGlitchIntensity u" "\<bar>gz\<bar> \<le> 2 / 10 * uGlitchIntensity u"
    "\<bar>k\<bar> \<le> 2 / 100 * \<bar>uDataInfluence u\<bar> + 5 / 100 * \<bar>uComicInfluence u\<bar> +
           1 / 10 * \<bar>uWeb3Influence u\<bar>"
proof -
  obtain gx gz where g: "glitchDisplace u p = vadd p (gx, 0, gz)"
    "\<bar>gx\<bar> \<le> 3 / 10 * uGlitchIntensity u" "\<bar>gz\<bar> \<le> 2 / 10 * uGlitchIntensity u"
    using glitchDisplace_shape [OF assms] by blast
  obtain k1 where k1: "dataDisplace u p n (glitchDisplace u p) = vadd (glitchDisplace u p) (vscale k1 n)"
    "\<bar>k1\<bar> \<le> 2 / 100 * \<bar>uDataInfluence u\<bar>"
    using along_normal_shape(1) by blast
  obtain k2 where k2: "comicDisplace u p n (vadd (glitchDisplace u p) (vscale k1 n)) =
      vadd (vadd (glitchDisplace u p) (vscale k1 n)) (vscale k2 n)" "\<bar>k2\<bar> \<le> 5 / 100 * \<bar>uComicInfluence u\<bar>"
    using along_normal_shape(2) by blast
  obtain k3 where k3: "web3Displace u p n (vadd (vadd (glitchDisplace u p) (vscale k1 n)) (vscale k2 n)) =
      vadd (vadd (vadd (glitchDisplace u p) (vscale k1 n)) (vscale k2 n)) (vscale k3 n)"
    "\<bar>k3\<bar> \<le> 1 / 10 * \<bar>uWeb3Influence u\<bar>"
    using along_normal_shape(3) by blast
  obtain x y z where p: "p = (x, y, z)" by (cases p) auto
  obtain a b d where n: "n = (a, b, d)" by (cases n) auto
  have "vertexMain u p n = vadd (vadd (vadd (glitchDisplace u p) (vscale k1 n)) (vscale k2 n)) (vscale k3 n)"
    by (simp only: vertexMain_def k1(1) k2(1) k3(1))
  also have "\<dots> = vadd p (vadd (gx, 0, gz) (vscale (k1 + k2 + k3) n))"
    unfolding g(1) by (simp add: p n algebra_simps)
  finally have "vertexMain u p n = vadd p (vadd (gx, 0, gz) (vscale (k1 + k2 + k3) n))" .
  moreover have "\<bar>k1 + k2 + k3\<bar> \<le> 2 / 100 * \<bar>uDataInfluence u\<bar> + 5 / 100 * \<bar>uComicInfluence u\<bar> +
           1 / 10 * \<bar>uWeb3Influence u\<bar>"
    using k1(2) k2(2) k3(2) by linarith
  ultimately show ?thesis using g(2,3) that by blast
qed

lemma abs_mult_le_unit:
  fixes a k :: real
  assumes "\<bar>a\<bar> \<le> 1" shows "\<bar>k * a\<bar> \<le> \<bar>k\<bar>"
proof -
  have "\<bar>k\<bar> * \<bar>a\<bar> \<le> \<bar>k\<bar> * 1" using assms by (intro mult_left_mono) simp_all
  then show ?thesis by (simp add: abs_mult)
qed

section \<open>Properties of the shaders\<close>

text \<open>
  C27: the shader styles switch on only past the classifier's threshold. While the pointer
  stays where a click on the hero would commit nothing (the singularity region of
  \<^const>\<open>dominantTimeline\<close>), every influence uniform stays at most 0.3 from load on, so
  the vertex shader moves a vertex by the glitch alone and the fragment shader draws the
  base colour, with no style and no RGB split.
\<close>

theorem heroShader_plain_in_center:
  assumes "\<forall>f \<in> set fs. dominantTimeline (snd f) = Singularity"
  shows "vertexMain (heroRun fs initialHero) position normal = glitchDisplace (heroRun fs initialHero) position \<and>
         fragmentMain (heroRun fs initialHero) c cam vNormal vPosition vUv = baseColor (heroRun fs initialHero) c"
proof -
  have "hero_calm (heroRun fs initialHero)"
    by (rule heroRun_invariant [where Q = "\<lambda>m. dominantTimeline m = Singularity"], rule heroFrame_calm)
      (simp_all add: assms hero_calm_def initialHero_def)
  then show ?thesis by (simp add: vertexMain_def fragmentMain_def calm_styles)
qed

text \<open>
  C28: while the pointer stays in the unit square, the vertex shader, run with the uniforms
  HeroObject has written, moves a vertex whose normal has coordinates in [-1, 1] by at
  most 0.32 in x, 0.17 in y and 0.27 in z: the glitch (at most 0.15 and 0.1, with an
  intensity of at most 0.5) plus the three ripples along the normal (0.02 + 0.05 + 0.1).
\<close>

theorem vertexMain_displacement_bounded:
  assumes "\<forall>f \<in> set fs. inUnitSquare (snd f)" and "\<bar>a\<bar> \<le> 1" "\<bar>b\<bar> \<le> 1" "\<bar>d\<bar> \<le> 1"
  shows "case vsub (vertexMain (heroRun fs initialHero) p (a, b, d)) p of
           (dx, dy, dz) \<Rightarrow> \<bar>dx\<bar> \<le> 8 / 25 \<and> \<bar>dy\<bar> \<le> 17 / 100 \<and> \<bar>dz\<bar> \<le> 27 / 100"
proof -
  let ?u = "heroRun fs initialHero"
  have hb: "hero_bounded ?u"
    by (rule heroRun_invariant [where Q = inUnitSquare], rule heroFrame_bounded)
      (simp_all add: assms(1) hero_bounded_def initialHero_def)
  then have "0 \<le> uGlitchIntensity ?u" by (simp add: hero_bounded_def)
  then obtain gx gz k where v: "vertexMain ?u p (a, b, d) = vadd p (vadd (gx, 0, gz) (vscale k (a, b, d)))"
    "\<bar>gx\<bar> \<le> 3 / 10 * uGlitchIntensity ?u" "\<bar>gz\<bar> \<le> 2 / 10 * uGlitchIntensity ?u"
    "\<bar>k\<bar> \<le> 2 / 100 * \<bar>uDataInfluence ?u\<bar> + 5 / 100 * \<bar>uComicInfluence ?u\<bar> +
           1 / 10 * \<bar>uWeb3Influence ?u\<bar>"
    by (rule vertexMain_shape)
  have gx: "\<bar>gx\<bar> \<le> 3 / 20" and gz: "\<bar>gz\<bar> \<le> 1 / 10" and k: "\<bar>k\<bar> \<le> 17 / 100"
    using v(2-4) hb by (auto simp: hero_bounded_def)
  have "\<bar>k * a\<bar> \<le> 17 / 100" "\<bar>k * b\<bar> \<le> 17 / 100" "\<bar>k * d\<bar> \<le> 17 / 100"
    using k abs_mult_le_unit assms(2-4) by (meson order_trans)+
  moreover obtain x y z where "p = (x, y, z)" by (cases p) auto
  moreover have "\<bar>gx + k * a\<bar> \<le> \<bar>gx\<bar> + \<bar>k * a\<bar>" "\<bar>gz + k * d\<bar> \<le> \<bar>gz\<bar> + \<bar>k * d\<bar>"
    by (rule abs_triangle_ineq)+
  ultimately show ?thesis using v(1) gx gz by simp
qed

text \<open>
  C29: the comic outline: with the comic style on and the web3 style off, a fragment whose
  fresnel term exceeds 0.7 is drawn black, whatever the data style did before it and
  whether or not the RGB split runs after it.
\<close>

theorem comic_outline_black:
  assumes "3 / 10 < uComicInfluence u" and "uWeb3Influence u \<le> 3 / 10"
    and "7 / 10 < fresnelOf (vnormalize (vsub cam vPosition)) (vnormalize vNormal)"
  shows "fragmentMain u c cam vNormal vPosition vUv = (0, 0, 0)"
  using assms by (simp add: fragmentMain_def comicStyle_def web3Style_def rgbSplit_def lerp_def Let_def)

text \<open>
  C30: the shading depends on where the world is, not only on what the camera sees: at the
  front vertex of the hero, (0, 0, 1.5) with normal (0, 0, 1), the vertex shader writes the
  same clip position and varyings in the front view and in the turned view, yet with the
  comic style on (and the web3 style off) the vertex is shaded as a grazing outline, black,
  in the turned view, while in the front view its fresnel term is 0 and it gets the cel
  shading of a lit face. The fragment shader mixes the view-space normal with the world-space
  camera position and the object-space vertex position.
\<close>

theorem outline_depends_on_world_turn:
  assumes "3 / 10 < uComicInfluence u" and "uWeb3Influence u \<le> 3 / 10"
  shows "vertexShader u (turnedView p) (0, 0, 3 / 2) (0, 0, 1) uv =
           vertexShader u (frontView p) (0, 0, 3 / 2) (0, 0, 1) uv \<and>
         shadeVertex u c (turnedView p) (0, 0, 3 / 2) (0, 0, 1) uv = (0, 0, 0) \<and>
         shadeVertex u c (frontView p) (0, 0, 3 / 2) (0, 0, 1) uv =
           rgbSplit u (comicStyle u uv 0 0 (dataStyle u c (0, 0, 3 / 2) 0 (baseColor u c)))"
proof -
  have n: "vnormalize (mat3MulVec ((1, 0, 0), (0, 1, 0), (0, 0, 1)) (0, 0, 1)) = (0, 0, 1)"
    by (simp add: mat3MulVec_def vdot_def vnormalize_z)
  have f0: "fresnelOf (0, 0, 1) (0, 0, 1) = 0" and f8: "fresnelOf (0, 0, -1) (0, 0, 1) = 8"
    and d0: "diffuseOf (0, 0, 1) = 0"
    by (simp_all add: fresnelOf_def diffuseOf_def vdot_def)
  have "vertexShader u (turnedView p) (0, 0, 3 / 2) (0, 0, 1) uv =
        vertexShader u (frontView p) (0, 0, 3 / 2) (0, 0, 1) uv"
    by (simp add: vertexShader_def turnedView_def)
  moreover have "shadeVertex u c (turnedView p) (0, 0, 3 / 2) (0, 0, 1) uv = (0, 0, 0)"
    using assms by (simp add: shadeVertex_def vertexShader_def turnedView_def frontView_def n vsub_def vnormalize_z f8
        fragmentMain_def comicStyle_def web3Style_def rgbSplit_def lerp_def Let_def)
  moreover have "shadeVertex u c (frontView p) (0, 0, 3 / 2) (0, 0, 1) uv =
           rgbSplit u (comicStyle u uv 0 0 (dataStyle u c (0, 0, 3 / 2) 0 (baseColor u c)))"
    using assms by (simp add: shadeVertex_def vertexShader_def frontView_def n vsub_def vnormalize_z f0 d0
        fragmentMain_def web3Style_def)
  ultimately show ?thesis by blast
qed

section \<open>Witnesses\<close>

theorem heroShader_plain_in_center_witness:
  "dominantTimeline \<lparr>vx = 0, vy = 0\<rparr> = Singularity \<and>
   fragmentMain (heroRun [(1 / 60, \<lparr>vx = 0, vy = 0\<rparr>)] initialHero) \<lparr>uDataColor = (0, 1, 0), uComicColor = (1, 0, 0), uWeb3Color = (0, 0, 1)\<rparr> (0, 0, 1) (1, 0, 0) (0, 0, 0) (0, 0) =
     baseColor (heroRun [(1 / 60, \<lparr>vx = 0, vy = 0\<rparr>)] initialHero) \<lparr>uDataColor = (0, 1, 0), uComicColor = (1, 0, 0), uWeb3Color = (0, 0, 1)\<rparr>"
proof -
  have h: "\<forall>f \<in> set [(1 / 60 :: real, \<lparr>vx = 0 :: real, vy = 0\<rparr>)]. dominantTimeline (snd f) = Singularity"
    by (simp add: dominantTimeline_def threshold_def)
  show ?thesis using heroShader_plain_in_center [OF h] h by simp
qed

theorem vertexMain_displacement_bounded_witness:
  "inUnitSquare \<lparr>vx = 1, vy = 1\<rparr> \<and>
   (case vsub (vertexMain (heroRun [(1 / 60, \<lparr>vx = 1, vy = 1\<rparr>)] initialHero) (0, 1, 0) (0, 1, 0)) (0, 1, 0) of
      (dx, dy, dz) \<Rightarrow> \<bar>dx\<bar> \<le> 8 / 25 \<and> \<bar>dy\<bar> \<le> 17 / 100 \<and> \<bar>dz\<bar> \<le> 27 / 100)"
proof -
  have h: "\<forall>f \<in> set [(1 / 60 :: real, \<lparr>vx = 1 :: real, vy = 1\<rparr>)]. inUnitSquare (snd f)"
    by (simp add: inUnitSquare_def)
  show ?thesis using vertexMain_displacement_bounded [OF h, of 0 1 0 "(0, 1, 0)"] h by simp
qed

theorem comic_outline_black_witness:
  "3 / 10 < uComicInfluence (initialHero\<lparr>uComicInfluence := 1 / 2\<rparr>) \<and>
   uWeb3Influence (initialHero\<lparr>uComicInfluence := 1 / 2\<rparr>) \<le> 3 / 10 \<and>
   7 / 10 < fresnelOf (vnormalize (vsub (0, 0, 1) (0, 0, 0))) (vnormalize (1, 0, 0)) \<and>
   fragmentMain (initialHero\<lparr>uComicInfluence := 1 / 2\<rparr>) \<lparr>uDataColor = (0, 1, 0), uComicColor = (1, 0, 0), uWeb3Color = (0, 0, 1)\<rparr> (0, 0, 1) (1, 0, 0) (0, 0, 0) (0, 0) =
     (0, 0, 0)"
proof -
  have h: "3 / 10 < uComicInfluence (initialHero\<lparr>uComicInfluence := 1 / 2\<rparr>)"
    "uWeb3Influence (initialHero\<lparr>uComicInfluence := 1 / 2\<rparr>) \<le> 3 / 10"
    "7 / 10 < fresnelOf (vnormalize (vsub (0, 0, 1) (0, 0, 0))) (vnormalize (1, 0, 0))"
    by (simp_all add: initialHero_def fresnelOf_def vnormalize_def vlength_def)
  show ?thesis using h comic_outline_black [OF h] by simp
qed

theorem outline_depends_on_world_turn_witness:
  "3 / 10 < uComicInfluence (initialHero\<lparr>uComicInfluence := 1 / 2\<rparr>) \<and>
   uWeb3Influence (initialHero\<lparr>uComicInfluence := 1 / 2\<rparr>) \<le> 3 / 10 \<and>
   shadeVertex (initialHero\<lparr>uComicInfluence := 1 / 2\<rparr>) \<lparr>uDataColor = (0, 1, 0), uComicColor = (1, 0, 0), uWeb3Color = (0, 0, 1)\<rparr>
     (turnedView ((1, 0, 0, 0), (0, 1, 0, 0), (0, 0, 1, 0), (0, 0, 0, 1))) (0, 0, 3 / 2) (0, 0, 1) (0, 0) = (0, 0, 0) \<and>
   shadeVertex (initialHero\<lparr>uComicInfluence := 1 / 2\<rparr>) \<lparr>uDataColor = (0, 1, 0), uComicColor = (1, 0, 0), uWeb3Color = (0, 0, 1)\<rparr>
     (frontView ((1, 0, 0, 0), (0, 1, 0, 0), (0, 0, 1, 0), (0, 0, 0, 1))) (0, 0, 3 / 2) (0, 0, 1) (0, 0) \<noteq> (0, 0, 0)"
proof -
  have h: "3 / 10 < uComicInfluence (initialHero\<lparr>uComicInfluence := 1 / 2\<rparr>)"
    "uWeb3Influence (initialHero\<lparr>uComicInfluence := 1 / 2\<rparr>) \<le> 3 / 10"
    by (simp_all add: initialHero_def)
  have r: "random_glsl (0, 0) = 0" by (simp add: random_glsl_def fract_def)
  show ?thesis
    using outline_depends_on_world_turn [OF h, of "((1, 0, 0, 0), (0, 1, 0, 0), (0, 0, 1, 0), (0, 0, 0, 1))"
        "(0, 0)" "\<lparr>uDataColor = (0, 1, 0), uComicColor = (1, 0, 0), uWeb3Color = (0, 0, 1)\<rparr>"] h
    by (simp add: initialHero_def rgbSplit_def comicStyle_def dataStyle_def baseColor_def glslMod_def
        glslStep_def r Let_def vmix_def vscale_def)
qed

end
