(* ===== verification/Portal.thy ===== *)
theory Portal
  imports Store
begin

text \<open>
  The portal overlay of \<open>src/src/components/PortalTransition.tsx\<close>: a component state
  \<open>portalStyle\<close> (a string, initially \<open>''\<close>), an effect on
  \<open>[isTransitioning, currentTimeline]\<close> that sets the style from the timeline active
  when it runs, and a render that shows nothing unless a transition is in progress.
  React runs the effect after a render whose dependencies differ from the previous
  render's; \<open>portalEffect\<close> takes the store before and after a change for that reason.
\<close>

section \<open>Component state and effect\<close>

text \<open>The values \<open>portalStyle\<close> takes: \<open>''\<close>, \<open>'data'\<close>, \<open>'comic'\<close>, \<open>'web3'\<close>, \<open>'default'\<close>.\<close>

datatype portal_style = StyleEmpty | StyleData | StyleComic | StyleWeb3 | StyleDefault

text \<open>The \<open>switch\<close> of the effect (lines 12--24).\<close>

definition styleForTimeline :: "timeline \<Rightarrow> portal_style" where
  "styleForTimeline t =
     (case t of Data \<Rightarrow> StyleData | Comic \<Rightarrow> StyleComic | Web3 \<Rightarrow> StyleWeb3 | Singularity \<Rightarrow> StyleDefault)"

text \<open>The effect of lines 9--26, run when a dependency changed.\<close>

definition portalEffect :: "multiverse_state \<Rightarrow> multiverse_state \<Rightarrow> portal_style \<Rightarrow> portal_style" where
  "portalEffect old new ps =
     (if (isTransitioning old, currentTimeline old) \<noteq> (isTransitioning new, currentTimeline new)
         \<and> isTransitioning new
      then styleForTimeline (currentTimeline new) else ps)"

section \<open>Rendering\<close>

definition getPortalClass :: "portal_style \<Rightarrow> string" where
  "getPortalClass ps =
     (case ps of
        StyleData \<Rightarrow> ''border-data-primary bg-data-primary''
      | StyleComic \<Rightarrow> ''border-comic-primary bg-comic-primary''
      | StyleWeb3 \<Rightarrow> ''border-web3-primary bg-web3-primary''
      | _ \<Rightarrow> ''border-white bg-white'')"

definition getPortalAnimation :: "portal_style \<Rightarrow> string" where
  "getPortalAnimation ps =
     (case ps of
        StyleData \<Rightarrow> ''portal-data''
      | StyleComic \<Rightarrow> ''portal-comic''
      | StyleWeb3 \<Rightarrow> ''portal-web3''
      | _ \<Rightarrow> ''portal-default'')"

text \<open>One pane of the web3 mirror fold: rotation in degrees, scale, opacity, delay in seconds.\<close>

record fold_pane =
  paneAngle :: real
  paneScale :: real
  paneOpacity :: real
  paneDelay :: real

definition foldPanes :: "fold_pane list" where
  "foldPanes =
     map (\<lambda>i. \<lparr>paneAngle = real i / 8 * 360, paneScale = 1 - real i * (1 / 10),
               paneOpacity = 1 - real i * (1 / 10), paneDelay = real i * (5 / 100)\<rparr>) [0..<8]"

datatype portal_content = GridExpansion | ComicRift | MirrorFold "fold_pane list" | NoContent

definition portalContent :: "portal_style \<Rightarrow> portal_content" where
  "portalContent ps =
     (case ps of
        StyleData \<Rightarrow> GridExpansion
      | StyleComic \<Rightarrow> ComicRift
      | StyleWeb3 \<Rightarrow> MirrorFold foldPanes
      | _ \<Rightarrow> NoContent)"

record portal_view =
  animationClass :: string
  content :: portal_content
  flashClass :: string

text \<open>The render (lines 28--135): \<open>null\<close> outside a transition.\<close>

definition portalView :: "multiverse_state \<Rightarrow> portal_style \<Rightarrow> portal_view option" where
  "portalView s ps =
     (if \<not> isTransitioning s then None
      else Some \<lparr>animationClass = getPortalAnimation ps, content = portalContent ps,
                 flashClass = getPortalClass ps\<rparr>)"

text \<open>The style a portal view shows, read back from its flash class.\<close>

definition viewStyle :: "portal_view \<Rightarrow> timeline option" where
  "viewStyle v =
     (if flashClass v = ''border-data-primary bg-data-primary'' then Some Data
      else if flashClass v = ''border-comic-primary bg-comic-primary'' then Some Comic
      else if flashClass v = ''border-web3-primary bg-web3-primary'' then Some Web3
      else None)"

section \<open>The component's stylesheet\<close>

text \<open>
  The \<open><style>\<close> element the component renders (lines 137--240): its class rules and
  keyframes. Every animation of the sheet runs \<open>ease-out\<close> with fill mode
  \<open>forwards\<close>; an animation is its name, its duration and its delay in seconds. A
  keyframe is its offset in percent and the scale, rotation (degrees) and opacity it
  sets, \<^const>\<open>None\<close> for a property it leaves out.
\<close>

record keyframe =
  kfOffset :: nat
  kfScale :: "real option"
  kfRotate :: "real option"
  kfOpacity :: "real option"

record css_animation =
  animName :: string
  animDuration :: seconds
  animDelay :: seconds

record css_rule =
  ruleClass :: string
  ruleAnimation :: "css_animation option"

text \<open>The class rules (lines 139--162 and 228--230), in the sheet's order.\<close>

definition portalStylesheet :: "css_rule list" where
  "portalStylesheet =
     [\<lparr>ruleClass = ''portal-container'', ruleAnimation = None\<rparr>,
      \<lparr>ruleClass = ''portal-grid'',
        ruleAnimation = Some \<lparr>animName = ''expand-grid'', animDuration = 6 / 10, animDelay = 0\<rparr>\<rparr>,
      \<lparr>ruleClass = ''portal-comic-rift'',
        ruleAnimation = Some \<lparr>animName = ''expand-rift'', animDuration = 5 / 10, animDelay = 0\<rparr>\<rparr>,
      \<lparr>ruleClass = ''portal-web3-fold'',
        ruleAnimation = Some \<lparr>animName = ''expand-fold'', animDuration = 7 / 10, animDelay = 0\<rparr>\<rparr>,
      \<lparr>ruleClass = ''portal-flash'',
        ruleAnimation = Some \<lparr>animName = ''flash'', animDuration = 6 / 10, animDelay = 0\<rparr>\<rparr>,
      \<lparr>ruleClass = ''animate-portal-expand'',
        ruleAnimation = Some \<lparr>animName = ''portal-expand'', animDuration = 5 / 10, animDelay = 0\<rparr>\<rparr>]"

text \<open>The \<open>@keyframes\<close> rules (lines 164--226 and 232--239).\<close>

definition portalKeyframes :: "(string \<times> keyframe list) list" where
  "portalKeyframes =
     [(''expand-grid'',
        [\<lparr>kfOffset = 0, kfScale = Some 0, kfRotate = None, kfOpacity = Some 0\<rparr>,
         \<lparr>kfOffset = 50, kfScale = None, kfRotate = None, kfOpacity = Some 1\<rparr>,
         \<lparr>kfOffset = 100, kfScale = Some 3, kfRotate = None, kfOpacity = Some 0\<rparr>]),
      (''expand-rift'',
        [\<lparr>kfOffset = 0, kfScale = Some 0, kfRotate = Some 0, kfOpacity = Some 0\<rparr>,
         \<lparr>kfOffset = 50, kfScale = None, kfRotate = None, kfOpacity = Some 1\<rparr>,
         \<lparr>kfOffset = 100, kfScale = Some 2, kfRotate = Some 10, kfOpacity = Some 0\<rparr>]),
      (''expand-fold'',
        [\<lparr>kfOffset = 0, kfScale = Some 0, kfRotate = None, kfOpacity = Some 0\<rparr>,
         \<lparr>kfOffset = 50, kfScale = None, kfRotate = None, kfOpacity = Some 1\<rparr>,
         \<lparr>kfOffset = 100, kfScale = Some 2, kfRotate = None, kfOpacity = Some 0\<rparr>]),
      (''portal-fold'',
        [\<lparr>kfOffset = 0, kfScale = Some 1, kfRotate = Some 0, kfOpacity = None\<rparr>,
         \<lparr>kfOffset = 100, kfScale = Some 2, kfRotate = Some 45, kfOpacity = Some 0\<rparr>]),
      (''flash'',
        [\<lparr>kfOffset = 0, kfScale = None, kfRotate = None, kfOpacity = Some 0\<rparr>,
         \<lparr>kfOffset = 50, kfScale = None, kfRotate = None, kfOpacity = Some (8 / 10)\<rparr>,
         \<lparr>kfOffset = 100, kfScale = None, kfRotate = None, kfOpacity = Some 0\<rparr>]),
      (''portal-expand'',
        [\<lparr>kfOffset = 0, kfScale = Some 0, kfRotate = None, kfOpacity = None\<rparr>,
         \<lparr>kfOffset = 100, kfScale = Some (3 / 2), kfRotate = None, kfOpacity = None\<rparr>])]"

text \<open>A \<open>className\<close> string as its list of classes (split at spaces).\<close>

fun classWords :: "string \<Rightarrow> string \<Rightarrow> string list" where
  "classWords acc [] = (if acc = [] then [] else [rev acc])"
| "classWords acc (c # cs) =
     (if c = CHR '' '' then (if acc = [] then classWords [] cs else rev acc # classWords [] cs)
      else classWords (c # acc) cs)"

text \<open>The animation the sheet gives a class: that of the first rule for it, if any.\<close>

definition classAnimation :: "string \<Rightarrow> css_animation option" where
  "classAnimation c = (case find (\<lambda>r. ruleClass r = c) portalStylesheet of None \<Rightarrow> None | Some r \<Rightarrow> ruleAnimation r)"

definition elementAnimations :: "string \<Rightarrow> css_animation list" where
  "elementAnimations className = List.map_filter classAnimation (classWords [] className)"

text \<open>
  The animations of a content's elements from the component's sheet: the grid's \<open>div\<close>
  (line 64); the rift's \<open>div\<close> and its path (lines 89 and 99); the fold's \<open>div\<close> (line
  114) and, per pane, the inline \<open>portal-fold 0.6s ease-out ${i * 0.05}s forwards\<close> (line
  124). Tailwind's own \<open>animate-pulse\<close> on the rift's words (line 105) is not in the sheet.
\<close>

definition contentAnimations :: "portal_content \<Rightarrow> css_animation list" where
  "contentAnimations c =
     (case c of
        GridExpansion \<Rightarrow> elementAnimations ''portal-grid''
      | ComicRift \<Rightarrow> elementAnimations ''portal-comic-rift'' @ elementAnimations ''text-comic-primary animate-portal-expand''
      | MirrorFold ps \<Rightarrow> elementAnimations ''portal-web3-fold'' @
          map (\<lambda>p. \<lparr>animName = ''portal-fold'', animDuration = 6 / 10, animDelay = paneDelay p\<rparr>) ps
      | NoContent \<Rightarrow> [])"

text \<open>The animations of a painted portal: container, content and flash (lines 61, 134).\<close>

definition viewAnimations :: "portal_view \<Rightarrow> css_animation list" where
  "viewAnimations v =
     elementAnimations (''portal-container '' @ animationClass v) @ contentAnimations (content v) @
     elementAnimations (''portal-flash '' @ flashClass v)"

text \<open>An animation has reached its last keyframe once its delay and duration have passed.\<close>

definition animDone :: "css_animation \<Rightarrow> seconds \<Rightarrow> bool" where
  "animDone a age \<longleftrightarrow> animDelay a + animDuration a \<le> age"

section \<open>Lemmas\<close>

lemma portalView_down: "\<not> isTransitioning s \<Longrightarrow> portalView s ps = None"
  by (simp add: portalView_def)

lemma portalEffect_same:
  "isTransitioning old = isTransitioning new \<Longrightarrow> currentTimeline old = currentTimeline new \<Longrightarrow>
   portalEffect old new ps = ps"
  by (simp add: portalEffect_def)

text \<open>
  No rule of the sheet matches the class \<^const>\<open>getPortalAnimation\<close> gives the
  container, so the container is never animated.
\<close>

lemma container_unanimated: "elementAnimations (''portal-container '' @ getPortalAnimation ps) = []"
  by (cases ps) (simp_all add: elementAnimations_def getPortalAnimation_def classAnimation_def
      portalStylesheet_def List.map_filter_def)

text \<open>
  Whenever the portal is shown after its effect has run, its flash, its animation and
  its content all belong to one style, and that style is the one of the timeline active
  when the effect last ran: a data, comic or web3 portal for those timelines.
\<close>

lemma portalView_consistent:
  "portalView s (styleForTimeline t) = Some v \<Longrightarrow>
   isTransitioning s \<and>
   viewStyle v = (if t = Singularity then None else Some t) \<and>
   animationClass v = (case t of Data \<Rightarrow> ''portal-data'' | Comic \<Rightarrow> ''portal-comic''
                         | Web3 \<Rightarrow> ''portal-web3'' | Singularity \<Rightarrow> ''portal-default'') \<and>
   content v = (case t of Data \<Rightarrow> GridExpansion | Comic \<Rightarrow> ComicRift
                  | Web3 \<Rightarrow> MirrorFold foldPanes | Singularity \<Rightarrow> NoContent)"
  by (cases t) (auto simp: portalView_def styleForTimeline_def getPortalClass_def
      getPortalAnimation_def portalContent_def viewStyle_def split: if_splits)

section \<open>Witnesses\<close>

theorem portalView_consistent_witness:
  "portalView (initial_store\<lparr>isTransitioning := True\<rparr>) (styleForTimeline Comic) =
     Some \<lparr>animationClass = ''portal-comic'', content = ComicRift,
           flashClass = ''border-comic-primary bg-comic-primary''\<rparr> \<and>
   viewStyle \<lparr>animationClass = ''portal-comic'', content = ComicRift,
              flashClass = ''border-comic-primary bg-comic-primary''\<rparr> = Some Comic"
proof -
  have v: "portalView (initial_store\<lparr>isTransitioning := True\<rparr>) (styleForTimeline Comic) =
     Some \<lparr>animationClass = ''portal-comic'', content = ComicRift,
           flashClass = ''border-comic-primary bg-comic-primary''\<rparr>"
    by (simp add: portalView_def styleForTimeline_def getPortalClass_def getPortalAnimation_def
        portalContent_def)
  show ?thesis using v portalView_consistent [OF v] by simp
qed

end
