(* ===== verification/Sound.thy ===== *)
theory Sound
  imports Store "HOL-Library.AList"
begin

text \<open>
  The sound controller of \<open>src/src/components/Sound/SoundController.tsx\<close>: an effect on
  \<open>[currentTimeline, soundEnabled]\<close> that stops the oscillators it registered, builds
  the soundscape of the active timeline and returns a cleanup that stops the registered
  oscillators again. The model follows the oscillators: which are created, started,
  registered in \<open>oscillatorsRef\<close> and stopped. The gain nodes and the gain automation
  (the pulse and fade schedules) only shape the volume and are not modelled.
\<close>

section \<open>Oscillators and the component state\<close>

datatype waveform = Sine | Square | Sawtooth | Triangle

record oscillator =
  oscId :: nat
  wave :: waveform
  freq :: real

text \<open>
  \<open>audioContext\<close> stands for \<open>audioContextRef.current !== null\<close>; \<open>running\<close> are the
  oscillators started and not stopped, in start order; \<open>oscRefs\<close> is
  \<open>oscillatorsRef.current\<close>; \<open>hasCleanup\<close> records whether the last run of the effect
  returned a cleanup.
\<close>

record sound_state =
  audioContext :: bool
  nextOsc :: nat
  running :: "oscillator list"
  oscRefs :: "(string \<times> oscillator) list"
  isPlaying :: bool
  hasCleanup :: bool

definition initialSound :: sound_state where
  "initialSound =
     \<lparr>audioContext = False, nextOsc = 0, running = [], oscRefs = [], isPlaying = False,
      hasCleanup = False\<rparr>"

text \<open>\<open>audioContext.createOscillator()\<close> with its \<open>type\<close> and \<open>frequency.value\<close> set.\<close>

definition createOscillator :: "waveform \<Rightarrow> real \<Rightarrow> sound_state \<Rightarrow> oscillator \<times> sound_state" where
  "createOscillator w f s = (\<lparr>oscId = nextOsc s, wave = w, freq = f\<rparr>, s\<lparr>nextOsc := Suc (nextOsc s)\<rparr>)"

definition startOsc :: "oscillator \<Rightarrow> sound_state \<Rightarrow> sound_state" where
  "startOsc osc s = s\<lparr>running := running s @ [osc]\<rparr>"

text \<open>\<open>osc.stop()\<close> in a \<open>try\<close>: stopping an oscillator that is not running throws, and the \<open>catch\<close> ignores it.\<close>

definition stopOsc :: "oscillator \<Rightarrow> sound_state \<Rightarrow> sound_state" where
  "stopOsc osc s = s\<lparr>running := filter (\<lambda>r. oscId r \<noteq> oscId osc) (running s)\<rparr>"

definition registerOsc :: "string \<Rightarrow> oscillator \<Rightarrow> sound_state \<Rightarrow> sound_state" where
  "registerOsc k osc s = s\<lparr>oscRefs := AList.update k osc (oscRefs s)\<rparr>"

text \<open>\<open>Object.values(oscillatorsRef.current).forEach(osc => { try { osc.stop() } catch (e) {} })\<close>\<close>

definition stopRegistered :: "sound_state \<Rightarrow> sound_state" where
  "stopRegistered s = fold stopOsc (map snd (oscRefs s)) s"

definition keyIndex :: "nat \<Rightarrow> string" where
  "keyIndex i = [''0123456789'' ! i]"

section \<open>Soundscapes\<close>

text \<open>\<open>createDataSoundscape\<close> (lines 65--91): four sine oscillators, \<open>data-0\<close> to \<open>data-3\<close>.\<close>

fun dataLoop :: "nat \<Rightarrow> real list \<Rightarrow> sound_state \<Rightarrow> sound_state" where
  "dataLoop i [] s = s"
| "dataLoop i (f # fs) s =
     (let (osc, s1) = createOscillator Sine f s
      in dataLoop (Suc i) fs (registerOsc (''data-'' @ keyIndex i) osc (startOsc osc s1)))"

definition createDataSoundscape :: "sound_state \<Rightarrow> sound_state" where
  "createDataSoundscape s = dataLoop 0 [220, 440, 880, 1760] s"

text \<open>\<open>createComicSoundscape\<close> (lines 93--134): a triangle bass and a square click.\<close>

definition createComicSoundscape :: "sound_state \<Rightarrow> sound_state" where
  "createComicSoundscape s =
     (let (bass, s1) = createOscillator Triangle 110 s;
          s2 = registerOsc ''comic-bass'' bass (startOsc bass s1);
          (click, s3) = createOscillator Square 2000 s2
      in registerOsc ''comic-click'' click (startOsc click s3))"

text \<open>
  \<open>createWeb3Soundscape\<close> (lines 136--167): per pad a sine oscillator and a vibrato LFO
  (a sine at 0.5 Hz); the LFO is started first and is never registered.
\<close>

fun web3Loop :: "nat \<Rightarrow> real list \<Rightarrow> sound_state \<Rightarrow> sound_state" where
  "web3Loop i [] s = s"
| "web3Loop i (f # fs) s =
     (let (osc, s1) = createOscillator Sine f s;
          (lfo, s2) = createOscillator Sine (1 / 2) s1;
          s3 = startOsc osc (startOsc lfo s2)
      in web3Loop (Suc i) fs (registerOsc (''web3-'' @ keyIndex i) osc s3))"

definition createWeb3Soundscape :: "sound_state \<Rightarrow> sound_state" where
  "createWeb3Soundscape s = web3Loop 0 [13081 / 100, 16481 / 100, 196, 24694 / 100] s"

text \<open>\<open>createSingularitySoundscape\<close> (lines 169--185): one sawtooth rumble.\<close>

definition createSingularitySoundscape :: "sound_state \<Rightarrow> sound_state" where
  "createSingularitySoundscape s =
     (let (rumble, s1) = createOscillator Sawtooth 40 s
      in registerOsc ''singularity-rumble'' rumble (startOsc rumble s1))"

section \<open>The effect\<close>

text \<open>The effect's body (lines 14--52); a disabled sound returns early with no cleanup.\<close>

definition soundBody :: "timeline \<Rightarrow> bool \<Rightarrow> sound_state \<Rightarrow> sound_state" where
  "soundBody t enabled s =
     (if \<not> enabled then s\<lparr>hasCleanup := False\<rparr>
      else
        (let s1 = stopRegistered (s\<lparr>audioContext := True\<rparr>);
             s2 = s1\<lparr>oscRefs := []\<rparr>;
             s3 = (case t of
                     Data \<Rightarrow> createDataSoundscape s2
                   | Comic \<Rightarrow> createComicSoundscape s2
                   | Web3 \<Rightarrow> createWeb3Soundscape s2
                   | Singularity \<Rightarrow> createSingularitySoundscape s2)
         in s3\<lparr>isPlaying := True, hasCleanup := True\<rparr>))"

text \<open>The returned cleanup (lines 53--62), run before the next run of the effect.\<close>

definition soundCleanup :: "sound_state \<Rightarrow> sound_state" where
  "soundCleanup s = (if hasCleanup s then stopRegistered s else s)"

text \<open>React's rule: when a dependency changed, the previous cleanup runs, then the body.\<close>

definition soundEffect :: "multiverse_state \<Rightarrow> multiverse_state \<Rightarrow> sound_state \<Rightarrow> sound_state" where
  "soundEffect old new s =
     (if (currentTimeline old, soundEnabled old) \<noteq> (currentTimeline new, soundEnabled new)
      then soundBody (currentTimeline new) (soundEnabled new) (soundCleanup s)
      else s)"

text \<open>The soundscape of each timeline as the controller registers it: key, waveform, frequency.\<close>

definition soundscape :: "timeline \<Rightarrow> (string \<times> waveform \<times> real) list" where
  "soundscape t =
     (case t of
        Data \<Rightarrow> [(''data-0'', Sine, 220), (''data-1'', Sine, 440), (''data-2'', Sine, 880),
                 (''data-3'', Sine, 1760)]
      | Comic \<Rightarrow> [(''comic-bass'', Triangle, 110), (''comic-click'', Square, 2000)]
      | Web3 \<Rightarrow> [(''web3-0'', Sine, 13081 / 100), (''web3-1'', Sine, 16481 / 100),
                 (''web3-2'', Sine, 196), (''web3-3'', Sine, 24694 / 100)]
      | Singularity \<Rightarrow> [(''singularity-rumble'', Sawtooth, 40)])"

text \<open>A store on the web3 timeline with the sound on.\<close>

definition web3_on :: multiverse_state where
  "web3_on = initial_store\<lparr>currentTimeline := Web3, soundEnabled := True\<rparr>"

text \<open>
  The controller agrees with the store: with the sound on, the registered oscillators are
  the soundscape of the active timeline, every one of them is running and a cleanup is
  installed; with the sound off, none of them is running.
\<close>

definition sound_ok :: "multiverse_state \<Rightarrow> sound_state \<Rightarrow> bool" where
  "sound_ok st c \<longleftrightarrow>
     (soundEnabled st \<longrightarrow>
        map (\<lambda>(k, osc). (k, wave osc, freq osc)) (oscRefs c) = soundscape (currentTimeline st) \<and>
        set (map snd (oscRefs c)) \<subseteq> set (running c) \<and> hasCleanup c) \<and>
     (\<not> soundEnabled st \<longrightarrow> set (map snd (oscRefs c)) \<inter> set (running c) = {})"

section \<open>The button\<close>

datatype sound_icon = SpeakerIcon | MutedIcon

record sound_button =
  soundButtonClasses :: "string list"
  soundButtonTitle :: string
  soundButtonIcon :: sound_icon

text \<open>The rendered button (lines 187--212); its \<open>onClick\<close> is the store's \<open>toggleSound\<close>.\<close>

definition soundButtonView :: "bool \<Rightarrow> sound_button" where
  "soundButtonView enabled =
     \<lparr>soundButtonClasses = [''fixed'', ''top-8'', ''right-8'', ''z-50'', ''w-12'', ''h-12'', ''rounded-full'',
        ''flex'', ''items-center'', ''justify-center'', ''border-2'', ''border-white'',
        ''border-opacity-20'', ''bg-black'', ''bg-opacity-80'', ''backdrop-blur-md'',
        ''transition-all'', ''duration-300'', ''hover:scale-110'',
        if enabled then ''text-white'' else ''text-gray-500''],
      soundButtonTitle = (if enabled then ''Mute Sound'' else ''Enable Sound''),
      soundButtonIcon = (if enabled then SpeakerIcon else MutedIcon)\<rparr>"

section \<open>Lemmas\<close>

lemma fold_stopOsc:
  "running (fold stopOsc os s) = filter (\<lambda>r. oscId r \<notin> oscId ` set os) (running s) \<and>
   oscRefs (fold stopOsc os s) = oscRefs s \<and> nextOsc (fold stopOsc os s) = nextOsc s \<and>
   hasCleanup (fold stopOsc os s) = hasCleanup s"
  by (induction os arbitrary: s) (auto simp: stopOsc_def intro: filter_cong)

lemmas build_defs = soundBody_def createDataSoundscape_def createComicSoundscape_def
  createWeb3Soundscape_def createSingularitySoundscape_def createOscillator_def startOsc_def
  registerOsc_def keyIndex_def Let_def

lemma soundBody_registers:
  "map (\<lambda>(k, osc). (k, wave osc, freq osc)) (oscRefs (soundBody t True s)) = soundscape t \<and>
   set (map snd (oscRefs (soundBody t True s))) \<subseteq> set (running (soundBody t True s)) \<and>
   hasCleanup (soundBody t True s)"
  by (cases t) (auto simp: soundscape_def build_defs)

lemma soundCleanup_quiet:
  assumes "hasCleanup c \<or> set (map snd (oscRefs c)) \<inter> set (running c) = {}"
  shows "set (map snd (oscRefs (soundCleanup c))) \<inter> set (running (soundCleanup c)) = {}"
  using assms fold_stopOsc [of "map snd (oscRefs c)" c]
  by (auto simp: soundCleanup_def stopRegistered_def)

lemma sound_ok_effect:
  assumes ok: "sound_ok old c"
  shows "sound_ok new (soundEffect old new c)"
proof (cases "(currentTimeline old, soundEnabled old) = (currentTimeline new, soundEnabled new)")
  case True
  with ok show ?thesis by (simp add: sound_ok_def soundEffect_def)
next
  case False
  have q: "set (map snd (oscRefs (soundCleanup c))) \<inter> set (running (soundCleanup c)) = {}"
    using ok by (intro soundCleanup_quiet) (auto simp: sound_ok_def)
  show ?thesis
    using False soundBody_registers [of "currentTimeline new" "soundCleanup c"] q
    by (cases "soundEnabled new") (simp_all add: sound_ok_def soundEffect_def soundBody_def)
qed

section \<open>Properties of the controller\<close>

text \<open>
  C19: when the timeline or the sound switch changes and the sound is on, the controller
  registers exactly the soundscape of the new timeline, in order, every registered
  oscillator is running, and a cleanup is installed.
\<close>

theorem soundEffect_registers:
  assumes "soundEnabled new"
    and "(currentTimeline old, soundEnabled old) \<noteq> (currentTimeline new, soundEnabled new)"
  shows "map (\<lambda>(k, osc). (k, wave osc, freq osc)) (oscRefs (soundEffect old new s)) =
           soundscape (currentTimeline new) \<and>
         set (map snd (oscRefs (soundEffect old new s))) \<subseteq> set (running (soundEffect old new s)) \<and>
         hasCleanup (soundEffect old new s)"
  using assms soundBody_registers [of "currentTimeline new" "soundCleanup s"]
  by (simp add: soundEffect_def)

text \<open>
  C20: turning the sound off runs the cleanup of the last run: every registered oscillator
  is stopped, nothing else running is touched, and no cleanup is left installed.
\<close>

theorem mute_stops_registered:
  assumes "hasCleanup s" and "soundEnabled old" and "\<not> soundEnabled new"
  shows "running (soundEffect old new s) =
           filter (\<lambda>r. oscId r \<notin> oscId ` snd ` set (oscRefs s)) (running s) \<and>
         \<not> hasCleanup (soundEffect old new s)"
  using assms fold_stopOsc [of "map snd (oscRefs s)" s]
  by (simp add: soundEffect_def soundBody_def soundCleanup_def stopRegistered_def image_image)

text \<open>
  C21: the web3 soundscape starts four vibrato oscillators it never registers: they are
  running after the build, are not in \<open>oscillatorsRef\<close>, and the cleanup leaves them
  running.
\<close>

theorem web3_lfos_survive_cleanup:
  assumes "soundEnabled new" and "currentTimeline new = Web3"
    and "(currentTimeline old, soundEnabled old) \<noteq> (currentTimeline new, soundEnabled new)"
  shows "set (map (\<lambda>i. \<lparr>oscId = nextOsc s + i, wave = Sine, freq = 1 / 2\<rparr>) [1, 3, 5, 7])
           \<subseteq> set (running (soundCleanup (soundEffect old new s))) -
              set (map snd (oscRefs (soundEffect old new s)))"
proof -
  have "nextOsc (stopRegistered ((soundCleanup s)\<lparr>audioContext := True\<rparr>)) = nextOsc s"
    by (simp add: stopRegistered_def soundCleanup_def fold_stopOsc)
  then show ?thesis using assms
    by (auto simp: soundEffect_def build_defs soundCleanup_def stopRegistered_def fold_stopOsc stopOsc_def)
qed

section \<open>Witnesses\<close>

theorem soundEffect_registers_witness:
  "soundEnabled web3_on \<and> (currentTimeline initial_store, soundEnabled initial_store) \<noteq>
     (currentTimeline web3_on, soundEnabled web3_on) \<and>
   map (\<lambda>(k, osc). (k, wave osc, freq osc)) (oscRefs (soundEffect initial_store web3_on initialSound)) =
     soundscape Web3"
proof -
  have h: "soundEnabled web3_on" "(currentTimeline initial_store, soundEnabled initial_store) \<noteq>
     (currentTimeline web3_on, soundEnabled web3_on)"
    by (simp_all add: web3_on_def initial_store_def)
  show ?thesis using h soundEffect_registers [OF h] by (simp add: web3_on_def)
qed

theorem mute_stops_registered_witness:
  "hasCleanup (soundEffect initial_store web3_on initialSound) \<and> soundEnabled web3_on \<and>
   \<not> soundEnabled (web3_on\<lparr>soundEnabled := False\<rparr>) \<and>
   \<not> hasCleanup (soundEffect web3_on (web3_on\<lparr>soundEnabled := False\<rparr>)
                   (soundEffect initial_store web3_on initialSound))"
proof -
  have h: "hasCleanup (soundEffect initial_store web3_on initialSound)" "soundEnabled web3_on"
    "\<not> soundEnabled (web3_on\<lparr>soundEnabled := False\<rparr>)"
    by (simp_all add: web3_on_def initial_store_def soundEffect_def build_defs)
  show ?thesis using h mute_stops_registered [OF h] by simp
qed

theorem web3_lfos_survive_cleanup_witness:
  "soundEnabled web3_on \<and> currentTimeline web3_on = Web3 \<and>
   (currentTimeline initial_store, soundEnabled initial_store) \<noteq> (currentTimeline web3_on, soundEnabled web3_on) \<and>
   \<lparr>oscId = 1, wave = Sine, freq = 1 / 2\<rparr>
     \<in> set (running (soundCleanup (soundEffect initial_store web3_on initialSound)))"
proof -
  have h: "soundEnabled web3_on" "currentTimeline web3_on = Web3"
    "(currentTimeline initial_store, soundEnabled initial_store) \<noteq> (currentTimeline web3_on, soundEnabled web3_on)"
    by (simp_all add: web3_on_def initial_store_def)
  show ?thesis using h web3_lfos_survive_cleanup [OF h, of initialSound] by (auto simp: initialSound_def)
qed

end
