(* ===== verification/App.thy ===== *)
theory App
  imports Sequencer SingularityScene Portal Sound
begin

text \<open>
  The application of \<open>src/src/App.tsx\<close> put together: the scene selector, the watch of
  \<open>src/src/components/UI/MultiverseWatch.tsx\<close>, and one state for the page: the event
  loop of \<open>Sequencer\<close> (store, clock, timers) whose extension holds the components' own
  state (the portal's style, the sound controller, the cursor's position, the singularity
  scene's refs and the hero's uniforms). A step takes one user or browser event; every
  change of the store is followed by the React effects that depend on it, through the
  hook \<open>syncEffects\<close>, also for the changes made by timer callbacks.
\<close>

section \<open>Scene selector\<close>

datatype scene = SingularityScene | TimelineDataScene | TimelineComicScene | TimelineWeb3Scene

text \<open>\<open>renderTimeline\<close> (lines 29--42); its \<open>default\<close> branch is unreachable for a \<open>Timeline\<close>.\<close>

definition renderTimeline :: "timeline \<Rightarrow> scene" where
  "renderTimeline t =
     (case t of
        Singularity \<Rightarrow> SingularityScene
      | Data \<Rightarrow> TimelineDataScene
      | Comic \<Rightarrow> TimelineComicScene
      | Web3 \<Rightarrow> TimelineWeb3Scene)"

section \<open>The watch\<close>

text \<open>The \<open>timelines\<close> table (lines 8--12); the icons are left out.\<close>

record watch_entry =
  entryId :: timeline
  entryLabel :: string
  entryColor :: string

definition watchTimelines :: "watch_entry list" where
  "watchTimelines =
     [\<lparr>entryId = Data, entryLabel = ''The Architect'', entryColor = ''data''\<rparr>,
      \<lparr>entryId = Comic, entryLabel = ''The Anomaly'', entryColor = ''comic''\<rparr>,
      \<lparr>entryId = Web3, entryLabel = ''The Mirror'', entryColor = ''web3''\<rparr>]"

definition watchColorClass :: "string \<Rightarrow> string" where
  "watchColorClass c =
     (if c = ''data'' then ''text-data-primary border-data-primary''
      else if c = ''comic'' then ''text-comic-primary border-comic-primary''
      else ''text-web3-primary border-web3-primary'')"

record watch_button =
  buttonFor :: timeline
  buttonActive :: bool
  buttonClass :: string
  buttonShadow :: string
  buttonTitle :: string

record watch_view =
  buttons :: "watch_button list"
  labelClass :: string
  labelText :: "string option"

text \<open>The render (lines 24--85): nothing in the singularity.\<close>

definition watchView :: "timeline \<Rightarrow> watch_view option" where
  "watchView cur =
     (if cur = Singularity then None
      else Some
        \<lparr>buttons =
           map (\<lambda>e. let act = (entryId e = cur) in
                  \<lparr>buttonFor = entryId e, buttonActive = act,
                   buttonClass = (if act then watchColorClass (entryColor e) @ '' shadow-lg''
                                  else ''text-gray-500 border-gray-700 hover:border-gray-500''),
                   buttonShadow = (if act then ''0 0 20px currentColor'' else ''none''),
                   buttonTitle = entryLabel e\<rparr>) watchTimelines,
         labelClass = (if cur = Data then ''timeline-data''
                       else if cur = Comic then ''timeline-comic'' else ''timeline-web3''),
         labelText = map_option entryLabel (find (\<lambda>e. entryId e = cur) watchTimelines)\<rparr>)"

section \<open>The page\<close>

record components =
  portalStyle :: portal_style
  sound :: sound_state
  anchorPos :: vec2
  singRefs :: singularity_refs
  hero :: hero_state

type_synonym app_state = "components loop_state_scheme"

definition initialComponents :: components where
  "initialComponents =
     \<lparr>portalStyle = StyleEmpty, sound = initialSound, anchorPos = origin,
      singRefs = \<lparr>timeRef = 0, groupRotY = 0, groupRotX = 0\<rparr>, hero = initialHero\<rparr>"

definition initialApp :: app_state where
  "initialApp = \<lparr>store = initial_store, clock = 0, timers = [], \<dots> = initialComponents\<rparr>"

text \<open>The effects that depend on the store: the portal's and the sound controller's.\<close>

definition syncEffects :: "multiverse_state \<Rightarrow> multiverse_state \<Rightarrow> components \<Rightarrow> components" where
  "syncEffects old new c =
     c\<lparr>portalStyle := portalEffect old new (portalStyle c), sound := soundEffect old new (sound c)\<rparr>"

text \<open>Run the effects after a step that took the page from \<open>s\<close> to \<open>s'\<close>.\<close>

definition react :: "app_state \<Rightarrow> app_state \<Rightarrow> app_state" where
  "react s s' = loop_state.more_update (syncEffects (store s) (store s')) s'"

text \<open>
  RealityAnchor's own \<open>mousemove\<close> listener (lines 9--16): it keeps the raw client
  position, where the cursor ring is drawn.
\<close>

definition anchorMouseMove :: "mouse_event \<Rightarrow> components \<Rightarrow> components" where
  "anchorMouseMove e c = c\<lparr>anchorPos := \<lparr>vx = clientX e, vy = clientY e\<rparr>\<rparr>"

datatype ui_event =
    MouseMove mouse_event
  | HeroClick
  | WatchClick timeline
  | SoundButton
  | Frame seconds
  | Wait ms

text \<open>
  One event. The mouse move runs App's listener and RealityAnchor's (which keeps the raw
  client position); it is \<^term>\<open>None\<close> for a viewport of size zero, where the store would
  receive a non-finite number. The hero object and the watch only exist while their
  component is rendered: the hero in the singularity scene, the watch outside it, with
  one button per entry of its table. A frame advances the singularity scene and the
  hero while they are mounted.
\<close>

fun appStep :: "viewport \<Rightarrow> app_state \<Rightarrow> ui_event \<Rightarrow> app_state option" where
  "appStep w s (MouseMove e) =
     map_option
       (\<lambda>st. react s (loop_state.more_update (anchorMouseMove e) (s\<lparr>store := st\<rparr>)))
       (handleMouseMove w e (store s))"
| "appStep w s HeroClick =
     Some (if renderTimeline (currentTimeline (store s)) = SingularityScene
           then react s (s\<lparr>store := handleCommit (store s)\<rparr>) else s)"
| "appStep w s (WatchClick t) =
     Some (if watchView (currentTimeline (store s)) \<noteq> None \<and> t \<in> entryId ` set watchTimelines
           then react s (handleTimelineSwitch t s) else s)"
| "appStep w s SoundButton = Some (react s (s\<lparr>store := toggleSound (store s)\<rparr>))"
| "appStep w s (Frame delta) =
     Some (if renderTimeline (currentTimeline (store s)) = SingularityScene
           then (let c = loop_state.more s;
                     (r', st') = singularityFrame delta (singRefs c) (store s);
                     h' = heroFrame delta (timelineInfluence (mousePosition (store s))) (hero c)
                 in react s (loop_state.more_update (\<lambda>_. c\<lparr>singRefs := r', hero := h'\<rparr>)
                               (s\<lparr>store := st'\<rparr>)))
           else s)"
| "appStep w s (Wait d) = Some (elapse syncEffects d s)"

fun appRun :: "viewport \<Rightarrow> ui_event list \<Rightarrow> app_state \<Rightarrow> app_state option" where
  "appRun w [] s = Some s"
| "appRun w (e # es) s = (case appStep w s e of None \<Rightarrow> None | Some s' \<Rightarrow> appRun w es s')"

inductive reachable :: "viewport \<Rightarrow> app_state \<Rightarrow> bool" for w where
  start: "reachable w initialApp"
| step: "reachable w s \<Longrightarrow> appStep w s e = Some s' \<Longrightarrow> reachable w s'"

text \<open>The portal as painted once its effect has run.\<close>

definition portalOf :: "app_state \<Rightarrow> portal_view option" where
  "portalOf s = portalView (store s) (portalStyle (loop_state.more s))"


text \<open>
  The invariant of the page: no commit to the singularity is pending, the queue is empty
  while the singularity is active, and during a transition the portal holds the style of a
  committed timeline. Together with \<open>timers_wf\<close> it holds in every reachable state.
\<close>

definition app_inv :: "app_state \<Rightarrow> bool" where
  "app_inv s \<longleftrightarrow>
     (\<forall>tm \<in> set (timers s). snd tm \<noteq> CommitTimeline Singularity) \<and>
     (currentTimeline (store s) = Singularity \<longrightarrow> timers s = []) \<and>
     (isTransitioning (store s) \<longrightarrow> portalStyle (loop_state.more s) \<in> {StyleData, StyleComic, StyleWeb3})"

text \<open>A 100 by 100 viewport; the page after a mouse move to the left edge, then after a click on the hero object.\<close>

definition demoViewport :: viewport where
  "demoViewport = \<lparr>innerWidth = 100, innerHeight = 100\<rparr>"

definition pointedPage :: app_state where
  "pointedPage = the (appStep demoViewport initialApp (MouseMove \<lparr>clientX = 10, clientY = 50\<rparr>))"

definition dataPage :: app_state where
  "dataPage = the (appStep demoViewport pointedPage HeroClick)"

section \<open>Lemmas\<close>

lemma anchorMouseMove_fields [simp]:
  "portalStyle (anchorMouseMove e c) = portalStyle c" "sound (anchorMouseMove e c) = sound c"
  "singRefs (anchorMouseMove e c) = singRefs c" "hero (anchorMouseMove e c) = hero c"
  by (simp_all add: anchorMouseMove_def)

lemma anchorMouseMove_pos [simp]: "anchorPos (anchorMouseMove e c) = \<lparr>vx = clientX e, vy = clientY e\<rparr>"
  by (simp add: anchorMouseMove_def)

lemma syncEffects_same [simp]: "syncEffects st st = (\<lambda>c. c)"
  by (simp add: fun_eq_iff syncEffects_def portalEffect_def soundEffect_def)

lemma react_same [simp]: "react s s = s"
  by (cases s) (simp add: react_def)

lemma portalStyle_react:
  "portalStyle (loop_state.more (react s s')) =
     portalEffect (store s) (store s') (portalStyle (loop_state.more s'))"
  by (simp add: react_def syncEffects_def)

lemma react_loop [simp]:
  "store (react s s') = store s'" "clock (react s s') = clock s'" "timers (react s s') = timers s'"
  by (simp_all add: react_def)

lemma timers_wf_react [simp]: "timers_wf (react s s') = timers_wf s'"
  by (simp add: timers_wf_def)

lemma timers_wf_quiet:
  "timers_wf s \<Longrightarrow> timers s' = timers s \<Longrightarrow> clock s' = clock s \<Longrightarrow>
   isTransitioning (store s') = isTransitioning (store s) \<Longrightarrow> timers_wf s'"
  by (simp add: timers_wf_def)

lemma app_inv_quiet:
  assumes "app_inv s" "timers s' = timers s"
    "isTransitioning (store s') = isTransitioning (store s)"
    "currentTimeline (store s') = currentTimeline (store s)"
    "portalStyle (loop_state.more s') = portalStyle (loop_state.more s)"
  shows "app_inv (react s s')"
  using assms by (simp add: app_inv_def portalStyle_react portalEffect_same)

lemma app_inv_initial: "app_inv initialApp"
  by (simp add: app_inv_def initialApp_def initial_store_def)

lemma timers_wf_initial: "timers_wf initialApp"
  by (simp add: timers_wf_def initialApp_def initial_store_def)

lemma fire_sync:
  "store (fire syncEffects due cb rest s) = store (run_callback cb (s\<lparr>clock := due, timers := rest\<rparr>))"
  "timers (fire syncEffects due cb rest s) = timers (run_callback cb (s\<lparr>clock := due, timers := rest\<rparr>))"
  "portalStyle (loop_state.more (fire syncEffects due cb rest s)) =
     portalEffect (store s) (store (run_callback cb (s\<lparr>clock := due, timers := rest\<rparr>)))
       (portalStyle (loop_state.more s))"
  by (cases cb; simp add: fire_def Let_def syncEffects_def)+

lemma app_inv_fire:
  assumes inv: "app_inv s" and q: "timers s = (due, cb) # rest"
  shows "app_inv (fire syncEffects due cb rest s)"
proof (cases cb)
  case (CommitTimeline t)
  from inv q CommitTimeline have t: "t \<noteq> Singularity" by (auto simp: app_inv_def)
  from inv q CommitTimeline show ?thesis
    by (auto simp: app_inv_def fire_sync store_ops portalEffect_def styleForTimeline_def t
        split: timeline.splits)
next
  case EndTransition
  from inv q have "currentTimeline (store s) \<noteq> Singularity" by (auto simp: app_inv_def)
  with inv q EndTransition show ?thesis
    by (auto simp: app_inv_def fire_sync store_ops)
qed

lemma app_inv_clock [simp]: "app_inv (s\<lparr>clock := c\<rparr>) = app_inv s"
  by (simp add: app_inv_def)

lemma app_inv_advance: "app_inv s \<Longrightarrow> app_inv (advance syncEffects target s)"
  by (rule advance_invariant [where P = app_inv]) (simp_all add: app_inv_fire)

lemma handleMouseMove_Some:
  "handleMouseMove w e st = Some st' \<Longrightarrow>
   isTransitioning st' = isTransitioning st \<and> currentTimeline st' = currentTimeline st"
  by (auto simp: handleMouseMove_def store_ops)

lemma singularityFrame_store:
  "singularityFrame dt r st = (r', st') \<Longrightarrow>
   isTransitioning st' = isTransitioning st \<and> currentTimeline st' = currentTimeline st"
  by (auto simp: singularityFrame_def Let_def store_ops)

lemma watch_entries: "entryId ` set watchTimelines = {Data, Comic, Web3}"
  by (auto simp: watchTimelines_def)

lemma app_inv_switch:
  assumes "timers_wf s" "app_inv s" "currentTimeline (store s) \<noteq> Singularity" "t \<noteq> Singularity"
  shows "app_inv (react s (handleTimelineSwitch t s))"
  using assms by (auto simp: app_inv_def timers_wf_def handleTimelineSwitch_def store_ops
      portalStyle_react portalEffect_def styleForTimeline_def split: timeline.splits)

lemma handleCommit_flag [simp]: "isTransitioning (handleCommit st) = isTransitioning st"
  by (simp add: handleCommit_def Let_def store_ops)

lemma app_inv_commit:
  assumes "timers_wf s" "app_inv s" "currentTimeline (store s) = Singularity"
  shows "timers_wf (s\<lparr>store := handleCommit (store s)\<rparr>) \<and>
         app_inv (react s (s\<lparr>store := handleCommit (store s)\<rparr>))"
  using assms by (simp add: app_inv_def timers_wf_def)

lemma appStep_inv:
  assumes wf: "timers_wf s" and inv: "app_inv s" and st: "appStep w s e = Some s'"
  shows "timers_wf s' \<and> app_inv s'"
proof (cases e)
  case (MouseMove m)
  with st obtain st' where "handleMouseMove w m (store s) = Some st'"
    and s': "s' = react s (loop_state.more_update (anchorMouseMove m) (s\<lparr>store := st'\<rparr>))" by auto
  then have "isTransitioning st' = isTransitioning (store s)" "currentTimeline st' = currentTimeline (store s)"
    by (auto dest: handleMouseMove_Some)
  with wf inv s' show ?thesis by (auto intro: app_inv_quiet timers_wf_quiet)
next
  case HeroClick
  with wf inv st show ?thesis
    by (auto simp: renderTimeline_def app_inv_commit split: timeline.splits if_splits)
next
  case (WatchClick t)
  with wf inv st show ?thesis
    by (auto simp: watchView_def watch_entries app_inv_switch handleTimelineSwitch_wf split: if_splits)
next
  case SoundButton
  with wf inv st show ?thesis by (auto intro: app_inv_quiet timers_wf_quiet simp: store_ops)
next
  case (Frame dt)
  show ?thesis
  proof (cases "renderTimeline (currentTimeline (store s)) = SingularityScene")
    case True
    obtain r' st' where sf: "singularityFrame dt (singRefs (loop_state.more s)) (store s) = (r', st')"
      by fastforce
    with True Frame st have s': "s' = react s (loop_state.more_update
        (\<lambda>_. (loop_state.more s)\<lparr>singRefs := r',
              hero := heroFrame dt (timelineInfluence (mousePosition (store s))) (hero (loop_state.more s))\<rparr>)
        (s\<lparr>store := st'\<rparr>))" by (simp add: Let_def)
    from singularityFrame_store [OF sf] wf inv s' show ?thesis
      by (auto intro: app_inv_quiet timers_wf_quiet)
  next
    case False
    with Frame st wf inv show ?thesis by simp
  qed
next
  case (Wait d)
  with st have "s' = advance syncEffects (clock s + d) s" by (simp add: elapse_def)
  with wf inv show ?thesis by (simp add: advance_wf app_inv_advance)
qed

lemma reachable_inv: "reachable w s \<Longrightarrow> timers_wf s \<and> app_inv s"
  by (induction rule: reachable.induct) (auto simp: timers_wf_initial app_inv_initial dest: appStep_inv)

lemma clock_handleTimelineSwitch [simp]: "clock (handleTimelineSwitch t s) = clock s"
  by (simp add: handleTimelineSwitch_def)

lemma styleForTimeline_view:
  "t \<noteq> Singularity \<Longrightarrow> isTransitioning st \<Longrightarrow>
   map_option viewStyle (portalView st (styleForTimeline t)) = Some (Some t)"
  by (cases t) (simp_all add: portalView_def styleForTimeline_def getPortalClass_def viewStyle_def)

lemma renderTimeline_singularity [simp]:
  "renderTimeline t = SingularityScene \<longleftrightarrow> t = Singularity"
  by (cases t) (simp_all add: renderTimeline_def)

lemma advance_keeps_committed:
  assumes "app_inv s" "currentTimeline (store s) \<noteq> Singularity"
  shows "currentTimeline (store (advance syncEffects target s)) \<noteq> Singularity"
proof -
  have "app_inv (advance syncEffects target s) \<and>
        currentTimeline (store (advance syncEffects target s)) \<noteq> Singularity"
  proof (rule advance_invariant [where P = "\<lambda>s. app_inv s \<and> currentTimeline (store s) \<noteq> Singularity"])
    fix s due cb rest
    assume "app_inv s \<and> currentTimeline (store s) \<noteq> Singularity" "timers s = (due, cb) # rest"
    moreover from this have "cb \<noteq> CommitTimeline Singularity" by (auto simp: app_inv_def)
    ultimately show "app_inv (fire syncEffects due cb rest s) \<and>
               currentTimeline (store (fire syncEffects due cb rest s)) \<noteq> Singularity"
      by (cases cb) (auto simp: app_inv_fire fire_sync store_ops)
  qed (use assms in simp_all)
  then show ?thesis ..
qed

lemmas demo_defs = demoViewport_def pointedPage_def dataPage_def handleMouseMove_def normalizePointer_def
  initialApp_def initial_store_def store_ops react_def handleCommit_def dominantTimeline_def threshold_def

lemma demo_steps:
  "appStep demoViewport initialApp (MouseMove \<lparr>clientX = 10, clientY = 50\<rparr>) = Some pointedPage"
  "appStep demoViewport pointedPage HeroClick = Some dataPage"
proof -
  have "appStep demoViewport initialApp (MouseMove \<lparr>clientX = 10, clientY = 50\<rparr>) \<noteq> None"
    by (simp add: demoViewport_def handleMouseMove_def normalizePointer_def)
  then show "appStep demoViewport initialApp (MouseMove \<lparr>clientX = 10, clientY = 50\<rparr>) = Some pointedPage"
    by (auto simp: pointedPage_def)
  show "appStep demoViewport pointedPage HeroClick = Some dataPage"
    by (simp add: dataPage_def)
qed

lemma demo_facts:
  "reachable demoViewport pointedPage" "reachable demoViewport dataPage"
  "timers dataPage = []" "currentTimeline (store dataPage) = Data"
  "currentTimeline (store pointedPage) = Singularity"
proof -
  show p: "reachable demoViewport pointedPage"
    using reachable.step [OF reachable.start demo_steps(1)] .
  show "reachable demoViewport dataPage"
    using reachable.step [OF p demo_steps(2)] .
  show "timers dataPage = []" "currentTimeline (store dataPage) = Data"
    "currentTimeline (store pointedPage) = Singularity"
    by (simp_all add: demo_defs)
qed

lemma sound_react: "sound (loop_state.more (react s s')) = soundEffect (store s) (store s') (sound (loop_state.more s'))"
  by (simp add: react_def syncEffects_def)

lemma sound_fire:
  "sound (loop_state.more (fire syncEffects due cb rest s)) =
     soundEffect (store s) (store (run_callback cb (s\<lparr>clock := due, timers := rest\<rparr>))) (sound (loop_state.more s))"
  by (cases cb) (simp_all add: fire_def Let_def syncEffects_def)

lemma sound_ok_advance:
  "sound_ok (store s) (sound (loop_state.more s)) \<Longrightarrow>
   sound_ok (store (advance syncEffects target s)) (sound (loop_state.more (advance syncEffects target s)))"
  by (rule advance_invariant [where P = "\<lambda>s. sound_ok (store s) (sound (loop_state.more s))"])
    (auto simp: sound_fire fire_sync intro: sound_ok_effect)

lemma sound_ok_react:
  "sound_ok (store s) (sound (loop_state.more s)) \<Longrightarrow> sound (loop_state.more s') = sound (loop_state.more s) \<Longrightarrow>
   sound_ok (store (react s s')) (sound (loop_state.more (react s s')))"
  by (simp add: sound_react sound_ok_effect)

lemma appStep_sound_ok:
  assumes ok: "sound_ok (store s) (sound (loop_state.more s))" and st: "appStep w s e = Some s'"
  shows "sound_ok (store s') (sound (loop_state.more s'))"
proof (cases e)
  case (Wait d)
  with st have "s' = advance syncEffects (clock s + d) s" by (simp add: elapse_def)
  with ok show ?thesis by (simp add: sound_ok_advance)
next
  case (Frame dt)
  with ok st show ?thesis
    by (auto simp: Let_def intro!: sound_ok_react split: prod.splits if_splits)
qed (use ok st in \<open>auto simp: handleTimelineSwitch_def intro!: sound_ok_react split: if_splits\<close>)

lemma reachable_sound_ok:
  assumes "reachable w s"
  shows "sound_ok (store s) (sound (loop_state.more s))"
  using assms
proof (induction rule: reachable.induct)
  case start
  then show ?case by (simp add: sound_ok_def initialApp_def initial_store_def initialComponents_def initialSound_def)
next
  case (step s e s')
  from step.IH step.hyps(2) show ?case by (rule appStep_sound_ok)
qed

section \<open>Properties of the page\<close>

text \<open>
  C6: a click on a watch button for another timeline on an idle page, followed by a wait
  of \<open>d\<close> ms: for the first 300 ms the portal is painted in the colours of the timeline
  being left, from 300 ms to 800 ms in those of the target, and from 800 ms on it is gone.
  The portal's effect reads the timeline active when it runs, and the commit happens only
  after 300 ms.
\<close>

theorem portal_timed_sequence:
  assumes r: "reachable w s" and idle: "timers s = []"
    and c: "currentTimeline (store s) \<noteq> Singularity"
    and t: "t \<in> {Data, Comic, Web3}" and new: "t \<noteq> currentTimeline (store s)"
    and run: "appRun w [WatchClick t, Wait d] s = Some s'"
  shows "map_option viewStyle (portalOf s') =
           (if d < 300 then Some (Some (currentTimeline (store s)))
            else if d < 800 then Some (Some t) else None)"
proof -
  have down: "\<not> isTransitioning (store s)"
    using reachable_inv [OF r] idle by (simp add: timers_wf_def)
  let ?s1 = "react s (handleTimelineSwitch t s)"
  have s1: "timers ?s1 = [(clock s + 300, CommitTimeline t)]" "clock ?s1 = clock s"
    "store ?s1 = setTransitioning True (store s)"
    "portalStyle (loop_state.more ?s1) = styleForTimeline (currentTimeline (store s))"
    using idle new down by (simp_all add: handleTimelineSwitch_def portalStyle_react portalEffect_def store_ops)
  have "s' = advance syncEffects (clock s + d) ?s1"
    using run t c by (auto simp: watchView_def watch_entries elapse_def)
  moreover have "t \<noteq> Singularity" using t by auto
  ultimately show ?thesis
    using advance_commit_cases [OF s1(1,2), of syncEffects d] s1 c new
    by (simp add: fire_sync portalEffect_def store_ops portalOf_def styleForTimeline_view portalView_down
        split: if_split_asm)
qed

text \<open>
  C7: the portal's content is cut off before its entrance animation ends. After a watch
  click on an idle page, the content of the timeline being left is shown until 300 ms,
  that of the target from 300 ms (the commit) until 800 ms, when the overlay is removed.
  Every animation of the target's content needs at least 0.5 s from its mount, so none
  reaches its last keyframe while shown; the data grid, the web3 fold and its panes need
  longer, and only the comic rift ends exactly at the removal.
\<close>

theorem portal_content_cut_short:
  assumes r: "reachable w s" and idle: "timers s = []"
    and c: "currentTimeline (store s) \<noteq> Singularity"
    and t: "t \<in> {Data, Comic, Web3}" and new: "t \<noteq> currentTimeline (store s)"
    and run: "appRun w [WatchClick t, Wait d] s = Some s'"
  shows "map_option content (portalOf s') =
           (if d < 300 then Some (portalContent (styleForTimeline (currentTimeline (store s))))
            else if d < 800 then Some (portalContent (styleForTimeline t)) else None) \<and>
         list_all (\<lambda>a. 1 / 2 \<le> animDelay a + animDuration a) (contentAnimations (portalContent (styleForTimeline t))) \<and>
         (list_ex (\<lambda>a. 1 / 2 < animDelay a + animDuration a) (contentAnimations (portalContent (styleForTimeline t)))
            \<longleftrightarrow> t \<noteq> Comic)"
proof -
  have down: "\<not> isTransitioning (store s)"
    using reachable_inv [OF r] idle by (simp add: timers_wf_def)
  let ?s1 = "react s (handleTimelineSwitch t s)"
  have s1: "timers ?s1 = [(clock s + 300, CommitTimeline t)]" "clock ?s1 = clock s"
    "store ?s1 = setTransitioning True (store s)"
    "portalStyle (loop_state.more ?s1) = styleForTimeline (currentTimeline (store s))"
    using idle new down by (simp_all add: handleTimelineSwitch_def portalStyle_react portalEffect_def store_ops)
  have "s' = advance syncEffects (clock s + d) ?s1"
    using run t c by (auto simp: watchView_def watch_entries elapse_def)
  moreover have "t \<noteq> Singularity" using t by auto
  ultimately have "map_option content (portalOf s') =
           (if d < 300 then Some (portalContent (styleForTimeline (currentTimeline (store s))))
            else if d < 800 then Some (portalContent (styleForTimeline t)) else None)"
    using advance_commit_cases [OF s1(1,2), of syncEffects d] s1 c new
    by (simp add: fire_sync portalEffect_def store_ops portalOf_def portalView_def split: if_split_asm)
  moreover have "list_all (\<lambda>a. 1 / 2 \<le> animDelay a + animDuration a) (contentAnimations (portalContent (styleForTimeline t))) \<and>
         (list_ex (\<lambda>a. 1 / 2 < animDelay a + animDuration a) (contentAnimations (portalContent (styleForTimeline t)))
            \<longleftrightarrow> t \<noteq> Comic)"
    using t by (auto simp: styleForTimeline_def portalContent_def contentAnimations_def elementAnimations_def
        classAnimation_def portalStylesheet_def List.map_filter_def foldPanes_def upt_rec)
  ultimately show ?thesis by blast
qed

text \<open>
  C8: once a timeline other than the singularity is active, no event of the page (mouse,
  frames, clicks, the sound button, time passing) brings the singularity back.
\<close>

theorem committed_is_sticky:
  assumes "reachable w s" and "currentTimeline (store s) \<noteq> Singularity"
    and "appStep w s e = Some s'"
  shows "currentTimeline (store s') \<noteq> Singularity"
  using assms reachable_inv [OF assms(1)]
  by (cases e) (auto simp: handleMouseMove_def handleTimelineSwitch_def store_ops
      Let_def elapse_def advance_keeps_committed split: prod.splits if_splits
      dest: singularityFrame_store)

text \<open>
  C9: the page leaves the singularity only through a click on the hero object, and that
  change is made without a transition: no portal is shown for it.
\<close>

theorem leaving_singularity_without_portal:
  assumes "reachable w s" and "currentTimeline (store s) = Singularity"
    and "appStep w s e = Some s'" and "currentTimeline (store s') \<noteq> Singularity"
  shows "e = HeroClick \<and> portalOf s' = None"
proof -
  have idle: "timers s = []" and down: "\<not> isTransitioning (store s)"
    using reachable_inv [OF assms(1)] assms(2) by (auto simp: app_inv_def timers_wf_def)
  show ?thesis
    using assms idle down
    by (cases e) (auto simp: handleMouseMove_def store_ops watchView_def Let_def elapse_def
        advance_Nil portalOf_def portalView_def split: prod.splits if_splits
        dest: singularityFrame_store)
qed

text \<open>
  C10: in every reachable state, a portal that is shown is a data, comic or web3 portal,
  never the default white one.
\<close>

theorem reachable_portal_styled:
  assumes "reachable w s" and "portalOf s = Some v"
  shows "viewStyle v \<in> {Some Data, Some Comic, Some Web3}"
  using assms reachable_inv [OF assms(1)]
  by (auto simp: portalOf_def portalView_def app_inv_def getPortalClass_def viewStyle_def
      split: if_splits)

text \<open>
  C11: in every reachable state with the sound on, the sound controller holds exactly the
  soundscape of the active timeline, and every oscillator it holds is running: the
  effect runs after every store change, those made by timer callbacks included.
\<close>

theorem reachable_sound_matches_timeline:
  assumes "reachable w s" and "soundEnabled (store s)"
  shows "map (\<lambda>(k, osc). (k, wave osc, freq osc)) (oscRefs (sound (loop_state.more s))) =
           soundscape (currentTimeline (store s)) \<and>
         set (map snd (oscRefs (sound (loop_state.more s)))) \<subseteq> set (running (sound (loop_state.more s)))"
  using reachable_sound_ok [OF assms(1)] assms(2) by (simp add: sound_ok_def)

text \<open>
  C13: the sound button tells the truth: in every reachable state it offers to mute the
  sound exactly when the controller holds a soundscape whose registered oscillators are
  all running, and it offers to enable the sound exactly when no registered oscillator
  runs.
\<close>

theorem reachable_sound_button_truthful:
  assumes "reachable w s"
  shows "(soundButtonTitle (soundButtonView (soundEnabled (store s))) = ''Mute Sound'' \<longleftrightarrow>
          oscRefs (sound (loop_state.more s)) \<noteq> [] \<and>
          set (map snd (oscRefs (sound (loop_state.more s)))) \<subseteq> set (running (sound (loop_state.more s)))) \<and>
         (soundButtonTitle (soundButtonView (soundEnabled (store s))) = ''Enable Sound'' \<longleftrightarrow>
          set (map snd (oscRefs (sound (loop_state.more s)))) \<inter> set (running (sound (loop_state.more s))) = {})"
proof -
  note ok = reachable_sound_ok [OF assms]
  show ?thesis
  proof (cases "soundEnabled (store s)")
    case True
    then have "map (\<lambda>(k, osc). (k, wave osc, freq osc)) (oscRefs (sound (loop_state.more s))) =
        soundscape (currentTimeline (store s))"
      using ok by (simp add: sound_ok_def)
    moreover have "soundscape (currentTimeline (store s)) \<noteq> []"
      by (cases "currentTimeline (store s)") (simp_all add: soundscape_def)
    ultimately have "oscRefs (sound (loop_state.more s)) \<noteq> []" by auto
    with True ok show ?thesis by (auto simp: sound_ok_def soundButtonView_def neq_Nil_conv)
  next
    case False
    then show ?thesis using ok by (auto simp: sound_ok_def soundButtonView_def neq_Nil_conv)
  qed
qed

text \<open>
  The watch shows one button per committed timeline, in table order, exactly one of
  them active, the one of the active timeline, and that timeline's label.
\<close>

lemma watchView_one_active:
  assumes "watchView cur = Some v"
  shows "map buttonFor (filter buttonActive (buttons v)) = [cur] \<and>
         map buttonFor (buttons v) = [Data, Comic, Web3] \<and>
         labelText v = Some (case cur of Data \<Rightarrow> ''The Architect'' | Comic \<Rightarrow> ''The Anomaly''
                                | _ \<Rightarrow> ''The Mirror'')"
  using assms by (cases cur) (auto simp: watchView_def watchTimelines_def)

section \<open>Witnesses\<close>

theorem portal_timed_sequence_witness:
  "map_option viewStyle (portalOf (the (appRun demoViewport [WatchClick Comic, Wait 100] dataPage))) =
     Some (Some Data)"
proof -
  obtain s' where run: "appRun demoViewport [WatchClick Comic, Wait 100] dataPage = Some s'"
    by (simp add: watchView_def watch_entries demo_facts)
  have "map_option viewStyle (portalOf s') = Some (Some Data)"
    using portal_timed_sequence [OF demo_facts(2,3) _ _ _ run] demo_facts(4) by simp
  with run show ?thesis by simp
qed

theorem portal_content_cut_short_witness:
  "map_option content (portalOf (the (appRun demoViewport [WatchClick Comic, Wait 500] dataPage))) =
     Some ComicRift"
proof -
  obtain s' where run: "appRun demoViewport [WatchClick Comic, Wait 500] dataPage = Some s'"
    by (simp add: watchView_def watch_entries demo_facts)
  have "map_option content (portalOf s') = Some ComicRift"
    using portal_content_cut_short [OF demo_facts(2,3) _ _ _ run] demo_facts(4)
    by (simp add: styleForTimeline_def portalContent_def)
  with run show ?thesis by simp
qed

theorem committed_is_sticky_witness:
  "currentTimeline (store (the (appStep demoViewport dataPage (Wait 1000)))) \<noteq> Singularity"
proof -
  have st: "appStep demoViewport dataPage (Wait 1000) = Some (the (appStep demoViewport dataPage (Wait 1000)))"
    by simp
  show ?thesis using committed_is_sticky [OF demo_facts(2) _ st] demo_facts(4) by simp
qed

theorem leaving_singularity_without_portal_witness: "portalOf dataPage = None"
  using leaving_singularity_without_portal [OF demo_facts(1,5) demo_steps(2)] demo_facts(4) by simp

theorem reachable_portal_styled_witness:
  "\<exists>v. portalOf (the (appStep demoViewport dataPage (WatchClick Comic))) = Some v \<and>
       viewStyle v \<in> {Some Data, Some Comic, Some Web3}"
proof -
  let ?s = "the (appStep demoViewport dataPage (WatchClick Comic))"
  have st: "appStep demoViewport dataPage (WatchClick Comic) = Some ?s" by simp
  have "isTransitioning (store ?s)"
    using demo_facts(4) by (simp add: watchView_def watch_entries handleTimelineSwitch_def store_ops)
  then obtain v where v: "portalOf ?s = Some v" by (simp add: portalOf_def portalView_def)
  show ?thesis using reachable_portal_styled [OF reachable.step [OF demo_facts(2) st] v] v by blast
qed

theorem reachable_sound_matches_timeline_witness:
  "map (\<lambda>(k, osc). (k, wave osc, freq osc))
     (oscRefs (sound (loop_state.more (the (appStep demoViewport dataPage SoundButton))))) = soundscape Data"
proof -
  let ?s = "the (appStep demoViewport dataPage SoundButton)"
  have st: "appStep demoViewport dataPage SoundButton = Some ?s" by simp
  have r: "reachable demoViewport ?s" by (rule reachable.step [OF demo_facts(2) st])
  have on: "soundEnabled (store ?s)" and cur: "currentTimeline (store ?s) = Data"
    by (simp_all add: demo_defs)
  show ?thesis using reachable_sound_matches_timeline [OF r on] cur by simp
qed

theorem reachable_sound_button_truthful_witness:
  "soundButtonTitle (soundButtonView (soundEnabled (store (the (appStep demoViewport dataPage SoundButton))))) =
     ''Mute Sound'' \<and>
   oscRefs (sound (loop_state.more (the (appStep demoViewport dataPage SoundButton)))) \<noteq> []"
proof -
  let ?s = "the (appStep demoViewport dataPage SoundButton)"
  have st: "appStep demoViewport dataPage SoundButton = Some ?s" by simp
  have r: "reachable demoViewport ?s" by (rule reachable.step [OF demo_facts(2) st])
  have on: "soundEnabled (store ?s)" by (simp add: demo_defs)
  show ?thesis using reachable_sound_button_truthful [OF r] on by (simp add: soundButtonView_def)
qed

lemma watchView_one_active_witness:
  "watchView Comic \<noteq> None \<and> labelText (the (watchView Comic)) = Some ''The Anomaly''"
proof -
  have v: "watchView Comic = Some (the (watchView Comic))" by (simp add: watchView_def)
  have n: "watchView Comic \<noteq> None" using v by (cases "watchView Comic") simp_all
  show ?thesis using watchView_one_active [OF v] n by simp
qed

end
