(* ===== verification/TimelineScenes.thy ===== *)
theory TimelineScenes
  imports Prelude
begin

text \<open>
  The three committed scenes of \<open>src/src/components/timelines/\<close>: the per-frame
  callbacks of \<open>TimelineData\<close>, \<open>TimelineComic\<close> and \<open>TimelineWeb3\<close> and the layout
  values they start from. The state of a scene is a record of the numbers the callbacks
  read and write on the three.js objects (rotations, positions, the particle buffer);
  \<open>state.clock.elapsedTime\<close> and \<open>delta\<close> are arguments of each frame. The
  \<open>Float32Array\<close> of the particles holds reals here: no rounding is modelled.
\<close>

section \<open>TimelineData\<close>

text \<open>
  The initial particle buffer (lines 12--19): three coordinates per particle, each
  \<open>(Math.random() - 0.5) * 20\<close>; the random numbers are the argument.
\<close>

definition particleCount :: nat where
  "particleCount = 5000"

definition dataLayout :: "real list \<Rightarrow> real list" where
  "dataLayout rs = map (\<lambda>r. (r - 1 / 2) * 20) rs"

text \<open>
  The particle loop of the frame (lines 27--30): for every \<open>i\<close> stepping by 3, the
  coordinate \<open>i + 1\<close> moves by \<open>sin(time + positions[i]) * 0.01\<close>. A write past
  the end of a typed array is ignored.
\<close>

function dataParticleLoop :: "real \<Rightarrow> nat \<Rightarrow> real list \<Rightarrow> real list" where
  "dataParticleLoop time i ps =
     (if i < length ps then
        dataParticleLoop time (i + 3)
          (if i + 1 < length ps then ps[i + 1 := ps ! (i + 1) + sin (time + ps ! i) * (1 / 100)] else ps)
      else ps)"
  by pat_completeness auto
termination
  by (relation "measure (\<lambda>(time, i, ps). length ps - i)") auto

declare dataParticleLoop.simps [simp del]

text \<open>The same loop over the particles as triples, the reference for the index loop.\<close>

fun dataDrift :: "real \<Rightarrow> real list \<Rightarrow> real list" where
  "dataDrift time (x # y # z # rest) = x # (y + sin (time + x) * (1 / 100)) # z # dataDrift time rest"
| "dataDrift time [x, y] = [x, y + sin (time + x) * (1 / 100)]"
| "dataDrift time ps = ps"

record data_scene =
  particleRotY :: real
  particles :: "real list"
  gridRotY :: real

definition initialDataScene :: "real list \<Rightarrow> data_scene" where
  "initialDataScene rs = \<lparr>particleRotY = 0, particles = dataLayout rs, gridRotY = 0\<rparr>"

text \<open>The frame callback (lines 21--37).\<close>

definition dataFrame :: "real \<Rightarrow> real \<Rightarrow> data_scene \<Rightarrow> data_scene" where
  "dataFrame time delta st =
     \<lparr>particleRotY = particleRotY st + delta * (5 / 100),
      particles = dataParticleLoop time 0 (particles st),
      gridRotY = gridRotY st + delta * (1 / 10)\<rparr>"

text \<open>A run of frames, each with its elapsed time and its \<open>delta\<close>.\<close>

fun dataRun :: "(real \<times> real) list \<Rightarrow> data_scene \<Rightarrow> data_scene" where
  "dataRun [] st = st"
| "dataRun ((time, delta) # fs) st = dataRun fs (dataFrame time delta st)"


section \<open>TimelineComic\<close>

text \<open>The panels table (lines 36--40): title, subtitle and layout position.\<close>

record comic_panel =
  panelTitle :: string
  panelSubtitle :: string
  layoutPos :: "real \<times> real \<times> real"

definition comicPanels :: "comic_panel list" where
  "comicPanels =
     [\<lparr>panelTitle = ''POW!'', panelSubtitle = ''Frontend Mastery'', layoutPos = (-3, 1, 0)\<rparr>,
      \<lparr>panelTitle = ''WHAM!'', panelSubtitle = ''Creative Dev'', layoutPos = (0, 1 / 2, -1)\<rparr>,
      \<lparr>panelTitle = ''ZAP!'', panelSubtitle = ''UI/UX Design'', layoutPos = (3, 1, 0)\<rparr>]"

text \<open>\<open>frameInterval = 1 / targetFPS\<close> with \<open>targetFPS = 12\<close> (lines 12--13).\<close>

definition frameInterval :: real where
  "frameInterval = 1 / 12"

text \<open>What the frame writes on a panel group: \<open>position.y\<close> and \<open>rotation.z\<close>.\<close>

record panel_tf =
  panelY :: real
  panelRotZ :: real

record comic_scene =
  frameAcc :: real
  comicRotY :: real
  panelTfs :: "panel_tf list"

text \<open>On mount: \<open>frameCount\<close> is 0 and every panel group sits at its layout position (line 84).\<close>

definition initialComicScene :: comic_scene where
  "initialComicScene =
     \<lparr>frameAcc = 0, comicRotY = 0,
      panelTfs = map (\<lambda>p. \<lparr>panelY = fst (snd (layoutPos p)), panelRotZ = 0\<rparr>) comicPanels\<rparr>"

text \<open>
  The frame callback (lines 15--33): the time accumulates, and once it reaches the frame
  interval the group turns by 0.02, every panel is placed by the clock, and the
  accumulator is reset to 0, dropping the excess.
\<close>

definition comicFrame :: "real \<Rightarrow> real \<Rightarrow> comic_scene \<Rightarrow> comic_scene" where
  "comicFrame elapsed delta st =
     (let acc = frameAcc st + delta in
      if frameInterval \<le> acc then
        \<lparr>frameAcc = 0, comicRotY = comicRotY st + 1 / 50,
         panelTfs = map (\<lambda>(i, _). \<lparr>panelY = sin (elapsed * (1 / 2) + real i) * (1 / 2),
                                   panelRotZ = sin (elapsed + real i) * (1 / 10)\<rparr>)
                      (enumerate 0 (panelTfs st))\<rparr>
      else st\<lparr>frameAcc := acc\<rparr>)"

fun comicRun :: "(real \<times> real) list \<Rightarrow> comic_scene \<Rightarrow> comic_scene" where
  "comicRun [] st = st"
| "comicRun ((elapsed, delta) # fs) st = comicRun fs (comicFrame elapsed delta st)"

section \<open>TimelineWeb3\<close>

text \<open>The crystals table (lines 129--134), positions only.\<close>

definition crystalLayout :: "(real \<times> real \<times> real) list" where
  "crystalLayout = [(-4, 0, -2), (4, 1 / 2, -2), (-3, -1, 2), (3, -1 / 2, 2)]"

text \<open>What the frame writes on a crystal: \<open>rotation.x\<close>, \<open>rotation.y\<close>, \<open>position.y\<close>.\<close>

record crystal_tf =
  crystalRotX :: real
  crystalRotY :: real
  crystalY :: real

text \<open>The angle of mirror panel \<open>i\<close> around the centre (line 100).\<close>

definition mirrorAngle :: "nat \<Rightarrow> real" where
  "mirrorAngle i = real i / 5 * pi * 2"

record web3_scene =
  crystals :: "crystal_tf list"
  fractalRotX :: real
  fractalRotY :: real
  fractalRotZ :: real
  mirrorRotY :: "real list"

text \<open>On mount: crystals at their layout, mirror panels turned by \<open>-angle\<close> to face the centre (line 110).\<close>

definition initialWeb3Scene :: web3_scene where
  "initialWeb3Scene =
     \<lparr>crystals = map (\<lambda>(x, y, z). \<lparr>crystalRotX = 0, crystalRotY = 0, crystalY = y\<rparr>) crystalLayout,
      fractalRotX = 0, fractalRotY = 0, fractalRotZ = 0,
      mirrorRotY = map (\<lambda>i. - mirrorAngle i) [0..<5]\<rparr>"

text \<open>The frame callback (lines 11--37).\<close>

definition web3Frame :: "real \<Rightarrow> real \<Rightarrow> web3_scene \<Rightarrow> web3_scene" where
  "web3Frame time delta st =
     \<lparr>crystals = map (\<lambda>(i, c). \<lparr>crystalRotX = crystalRotX c + delta * (3 / 10) * (if i mod 2 = 0 then 1 else -1),
                                crystalRotY = crystalRotY c + delta * (1 / 2),
                                crystalY = sin (time + real i) * (1 / 5)\<rparr>)
                 (enumerate 0 (crystals st)),
      fractalRotX = sin (time * (3 / 10)) * (1 / 5),
      fractalRotY = fractalRotY st + delta * (1 / 5),
      fractalRotZ = cos (time * (2 / 5)) * (1 / 10),
      mirrorRotY = map (\<lambda>(i, _). sin (time * (1 / 2) + real i * pi * (2 / 5)) * (1 / 2))
                     (enumerate 0 (mirrorRotY st))\<rparr>"

fun web3Run :: "(real \<times> real) list \<Rightarrow> web3_scene \<Rightarrow> web3_scene" where
  "web3Run [] st = st"
| "web3Run ((time, delta) # fs) st = web3Run fs (web3Frame time delta st)"


section \<open>Lemmas\<close>

lemma dataParticleLoop_append:
  "dataParticleLoop time (length pre) (pre @ qs) = pre @ dataDrift time qs"
proof (induction time qs arbitrary: pre rule: dataDrift.induct)
  case (1 time x y z rest)
  have "dataParticleLoop time (length pre) (pre @ x # y # z # rest) =
        dataParticleLoop time (length (pre @ [x, y + sin (time + x) * (1 / 100), z]))
          ((pre @ [x, y + sin (time + x) * (1 / 100), z]) @ rest)"
    by (subst dataParticleLoop.simps) (simp add: nth_append list_update_append numeral_3_eq_3)
  also have "\<dots> = pre @ dataDrift time (x # y # z # rest)"
    using "1.IH" [of "pre @ [x, y + sin (time + x) * (1 / 100), z]"] by simp
  finally show ?case .
next
  case (2 time x y)
  show ?case
    by (subst dataParticleLoop.simps) (simp add: nth_append list_update_append dataParticleLoop.simps)
qed (simp_all add: dataParticleLoop.simps)

lemma dataParticleLoop_0: "dataParticleLoop time 0 ps = dataDrift time ps"
  using dataParticleLoop_append [of time "[]" ps] by simp

lemma length_dataDrift [simp]: "length (dataDrift time ps) = length ps"
  by (induction time ps rule: dataDrift.induct) auto

lemma nth_dataDrift:
  "i < length ps \<Longrightarrow>
   dataDrift time ps ! i =
     (if i mod 3 = 1 then ps ! i + sin (time + ps ! (i - 1)) * (1 / 100) else ps ! i)"
proof (induction time ps arbitrary: i rule: dataDrift.induct)
  case (1 time x y z rest)
  show ?case
  proof (cases "i < 3")
    case True
    then consider "i = 0" | "i = 1" | "i = 2" by linarith
    then show ?thesis by cases simp_all
  next
    case False
    define j where "j = i - 3"
    with False have i: "i = Suc (Suc (Suc j))" by simp
    with "1.prems" have "j < length rest" by simp
    with "1.IH" [of j] i show ?thesis by (cases j) (auto simp: mod_Suc)
  qed
next
  case (2 time x y)
  then have "i < 2" by simp
  then consider "i = 0" | "i = 1" by linarith
  then show ?case by cases simp_all
qed simp_all

lemma dataDrift_step:
  "i < length ps \<Longrightarrow> \<bar>dataDrift time ps ! i - ps ! i\<bar> \<le> 1 / 100 \<and>
   (i mod 3 \<noteq> 1 \<longrightarrow> dataDrift time ps ! i = ps ! i)"
  by (simp add: nth_dataDrift abs_sin_le_one)

lemma dataDrift_bound:
  assumes "\<forall>p \<in> set ps. \<bar>p\<bar> \<le> b"
  shows "\<forall>p \<in> set (dataDrift time ps). \<bar>p\<bar> \<le> b + 1 / 100"
proof
  fix p assume "p \<in> set (dataDrift time ps)"
  then obtain i where i: "i < length ps" "p = dataDrift time ps ! i" by (auto simp: in_set_conv_nth)
  then have "\<bar>p - ps ! i\<bar> \<le> 1 / 100" using dataDrift_step by blast
  moreover have "\<bar>ps ! i\<bar> \<le> b" using assms i(1) by auto
  ultimately show "\<bar>p\<bar> \<le> b + 1 / 100" by linarith
qed

lemma dataRun_bound:
  "\<forall>p \<in> set (particles st). \<bar>p\<bar> \<le> b \<Longrightarrow>
   \<forall>p \<in> set (particles (dataRun fs st)). \<bar>p\<bar> \<le> b + real (length fs) / 100"
proof (induction fs arbitrary: st b)
  case Nil
  then show ?case by simp
next
  case (Cons f fs)
  obtain t d where f: "f = (t, d)" by fastforce
  have "\<forall>p \<in> set (particles (dataFrame t d st)). \<bar>p\<bar> \<le> b + 1 / 100"
    using dataDrift_bound [OF Cons.prems] by (simp add: dataFrame_def dataParticleLoop_0)
  from Cons.IH [OF this] f show ?case by (simp add: add_divide_distrib add.assoc)
qed

lemma comicFrame_step:
  assumes "0 \<le> delta" "0 \<le> frameAcc st" "frameAcc st < frameInterval"
  shows "(comicRotY (comicFrame e delta st) - comicRotY st) * (25 / 6) + frameAcc (comicFrame e delta st)
           \<le> frameAcc st + delta \<and>
         0 \<le> frameAcc (comicFrame e delta st) \<and> frameAcc (comicFrame e delta st) < frameInterval"
  using assms by (auto simp: comicFrame_def Let_def frameInterval_def)

lemma abs_sin_scaled: "0 \<le> c \<Longrightarrow> \<bar>sin (x::real) * c\<bar> \<le> c"
  using abs_sin_le_one [of x] by (simp add: abs_mult mult_left_le_one_le)

lemma web3Frame_crystal:
  "i < length (crystals st) \<Longrightarrow>
   crystals (web3Frame time delta st) ! i =
     \<lparr>crystalRotX = crystalRotX (crystals st ! i) + delta * (3 / 10) * (if i mod 2 = 0 then 1 else -1),
      crystalRotY = crystalRotY (crystals st ! i) + delta * (1 / 2),
      crystalY = sin (time + real i) * (1 / 5)\<rparr>"
  by (simp add: web3Frame_def nth_enumerate_eq)

section \<open>Properties of the scenes\<close>

text \<open>
  C31: the index loop of the data scene's frame, stepping by 3 over the flat buffer, computes the triple-wise drift: every particle's y moves by \<open>sin(time + x) * 0.01\<close>, a trailing pair included.
\<close>

theorem dataParticleLoop_eq_drift: "dataParticleLoop time 0 ps = dataDrift time ps"
  by (rule dataParticleLoop_0)

text \<open>
  A data frame keeps the buffer's length, moves only y coordinates, each by at most 0.01, and turns the grid exactly twice as far as the particles.
\<close>

lemma dataFrame_moves_heights:
  "length (particles (dataFrame time delta st)) = length (particles st) \<and>
   (\<forall>i < length (particles st).
      \<bar>particles (dataFrame time delta st) ! i - particles st ! i\<bar> \<le> 1 / 100 \<and>
      (i mod 3 \<noteq> 1 \<longrightarrow> particles (dataFrame time delta st) ! i = particles st ! i)) \<and>
   gridRotY (dataFrame time delta st) - gridRotY st =
     2 * (particleRotY (dataFrame time delta st) - particleRotY st)"
  using dataDrift_step [of _ "particles st" time] by (simp add: dataFrame_def dataParticleLoop_0)

text \<open>
  C32: starting from random numbers in [0, 1], every particle coordinate stays within 10 + n/100 after n frames: the drift is bounded per frame but not over time.
\<close>

theorem dataRun_bounded:
  assumes "\<forall>r \<in> set rs. 0 \<le> r \<and> r \<le> 1"
  shows "\<forall>p \<in> set (particles (dataRun fs (initialDataScene rs))). \<bar>p\<bar> \<le> 10 + real (length fs) / 100"
proof -
  have "\<forall>p \<in> set (particles (initialDataScene rs)). \<bar>p\<bar> \<le> 10"
    using assms by (auto simp: initialDataScene_def dataLayout_def abs_le_iff)
  then show ?thesis by (rule dataRun_bound)
qed

text \<open>
  C33: the comic scene's throttle: with non-negative frame times the accumulator stays in [0, 1/12), and each update (a turn of 0.02) consumes at least 1/12 s, so the group turns at most 0.24 rad per second of frames.
\<close>

theorem comic_rate_bound:
  assumes "\<forall>f \<in> set fs. 0 \<le> snd f" and "0 \<le> frameAcc st" and "frameAcc st < frameInterval"
  shows "(comicRotY (comicRun fs st) - comicRotY st) * (25 / 6) + frameAcc (comicRun fs st)
           \<le> frameAcc st + sum_list (map snd fs) \<and>
         0 \<le> frameAcc (comicRun fs st) \<and> frameAcc (comicRun fs st) < frameInterval"
  using assms
proof (induction fs arbitrary: st)
  case Nil
  then show ?case by simp
next
  case (Cons f fs)
  obtain e d where f: "f = (e, d)" by fastforce
  let ?st1 = "comicFrame e d st"
  from Cons.prems f have step: "(comicRotY ?st1 - comicRotY st) * (25 / 6) + frameAcc ?st1 \<le> frameAcc st + d"
    "0 \<le> frameAcc ?st1" "frameAcc ?st1 < frameInterval"
    using comicFrame_step [of d st e] by auto
  moreover from Cons.prems f have "\<forall>f \<in> set fs. 0 \<le> snd f" by simp
  ultimately have ih:
    "(comicRotY (comicRun fs ?st1) - comicRotY ?st1) * (25 / 6) + frameAcc (comicRun fs ?st1)
       \<le> frameAcc ?st1 + sum_list (map snd fs)"
    "0 \<le> frameAcc (comicRun fs ?st1)" "frameAcc (comicRun fs ?st1) < frameInterval"
    using Cons.IH [of ?st1] by auto
  have "(comicRotY (comicRun fs ?st1) - comicRotY st) * (25 / 6) + frameAcc (comicRun fs ?st1)
          \<le> frameAcc st + (d + sum_list (map snd fs))"
    using ih(1) step(1) by argo
  with ih(2,3) f show ?case by simp
qed

text \<open>
  C34: the comic panels are laid out at heights 1, 0.5 and 1, but the first throttled update assigns every panel an absolute height in [-0.5, 0.5] and a tilt in [-0.1, 0.1]: the layout height is lost.
\<close>

theorem comicFrame_layout_lost:
  assumes "frameInterval \<le> delta"
  shows "map (\<lambda>p. panelY p) (panelTfs initialComicScene) = [1, 1 / 2, 1] \<and>
         (\<forall>p \<in> set (panelTfs (comicFrame elapsed delta initialComicScene)).
            \<bar>panelY p\<bar> \<le> 1 / 2 \<and> \<bar>panelRotZ p\<bar> \<le> 1 / 10)"
proof -
  have "frameInterval \<le> frameAcc initialComicScene + delta"
    using assms by (simp add: initialComicScene_def)
  then show ?thesis
    by (auto simp: comicFrame_def initialComicScene_def comicPanels_def abs_sin_scaled)
qed

text \<open>
  Over any run, even crystals turn about x by 0.3 rad per second and odd ones by -0.3, all turn about y by 0.5, and the fractal about y by 0.2.
\<close>

lemma web3_counter_rotation:
  assumes "i < length (crystals st)"
  shows "length (crystals (web3Run fs st)) = length (crystals st) \<and>
         crystalRotX (crystals (web3Run fs st) ! i) =
           crystalRotX (crystals st ! i) + (if i mod 2 = 0 then 1 else -1) * (3 / 10) * sum_list (map snd fs) \<and>
         crystalRotY (crystals (web3Run fs st) ! i) = crystalRotY (crystals st ! i) + sum_list (map snd fs) / 2 \<and>
         fractalRotY (web3Run fs st) = fractalRotY st + sum_list (map snd fs) / 5"
  using assms
proof (induction fs arbitrary: st)
  case Nil
  then show ?case by simp
next
  case (Cons f fs)
  obtain t d where f: "f = (t, d)" by fastforce
  have "length (crystals (web3Frame t d st)) = length (crystals st)" by (simp add: web3Frame_def)
  with Cons.prems Cons.IH [of "web3Frame t d st"] f show ?case
    by (simp add: web3Frame_crystal algebra_simps) (simp add: web3Frame_def algebra_simps)
qed

text \<open>
  The mirror panels are laid out turned by minus their angle to face the centre (panel 2 by -4pi/5) and the crystals at their layout heights, but the first frame assigns every panel a rotation in [-0.5, 0.5] and every crystal a height in [-0.2, 0.2].
\<close>

lemma web3Frame_layout_lost:
  "mirrorRotY initialWeb3Scene ! 2 < -3 / 2 \<and> crystalY (crystals initialWeb3Scene ! 2) = -1 \<and>
   (\<forall>r \<in> set (mirrorRotY (web3Frame time delta initialWeb3Scene)). \<bar>r\<bar> \<le> 1 / 2) \<and>
   (\<forall>c \<in> set (crystals (web3Frame time delta initialWeb3Scene)). \<bar>crystalY c\<bar> \<le> 1 / 5)"
proof -
  have "mirrorRotY initialWeb3Scene ! 2 = - (4 / 5 * pi)"
    by (simp add: initialWeb3Scene_def mirrorAngle_def)
  moreover have "- (4 / 5 * pi) < -3 / 2" using pi_ge_two by simp
  ultimately show ?thesis
    by (auto simp: initialWeb3Scene_def crystalLayout_def web3Frame_def abs_sin_scaled)
qed

section \<open>Witnesses\<close>

lemma dataFrame_moves_heights_witness:
  "\<bar>particles (dataFrame 0 (1 / 60) \<lparr>particleRotY = 0, particles = [0, 2, 3], gridRotY = 0\<rparr>) ! 1 - 2\<bar> \<le> 1 / 100 \<and>
   particles (dataFrame 0 (1 / 60) \<lparr>particleRotY = 0, particles = [0, 2, 3], gridRotY = 0\<rparr>) ! 2 = 3"
proof -
  let ?st = "\<lparr>particleRotY = 0, particles = [0, 2, 3], gridRotY = 0\<rparr> :: data_scene"
  have a: "\<forall>i < length (particles ?st).
      \<bar>particles (dataFrame 0 (1 / 60) ?st) ! i - particles ?st ! i\<bar> \<le> 1 / 100 \<and>
      (i mod 3 \<noteq> 1 \<longrightarrow> particles (dataFrame 0 (1 / 60) ?st) ! i = particles ?st ! i)"
    using dataFrame_moves_heights [of 0 "1 / 60" ?st] by blast
  have "\<bar>particles (dataFrame 0 (1 / 60) ?st) ! 1 - 2\<bar> \<le> 1 / 100"
    using a [rule_format, of 1] by simp
  moreover have "particles (dataFrame 0 (1 / 60) ?st) ! 2 = 3"
    using a [rule_format, of 2] by simp
  ultimately show ?thesis by simp
qed

theorem dataRun_bounded_witness:
  "\<bar>particles (dataRun [(0, 1 / 60)] (initialDataScene [0, 1 / 2, 1])) ! 0\<bar> \<le> 10 + 1 / 100"
proof -
  have "\<forall>r \<in> set [0, 1 / 2, 1 :: real]. 0 \<le> r \<and> r \<le> 1" by simp
  note h = dataRun_bounded [OF this, of "[(0, 1 / 60)]"]
  have "particles (dataRun [(0, 1 / 60)] (initialDataScene [0, 1 / 2, 1])) ! 0
          \<in> set (particles (dataRun [(0, 1 / 60)] (initialDataScene [0, 1 / 2, 1])))"
    by (simp add: dataFrame_def initialDataScene_def dataLayout_def dataParticleLoop_0)
  with h show ?thesis by simp
qed

theorem comic_rate_bound_witness:
  "frameAcc (comicRun [(1 / 60, 1 / 60), (1 / 10, 1 / 12)] initialComicScene) < frameInterval \<and>
   comicRotY (comicRun [(1 / 60, 1 / 60), (1 / 10, 1 / 12)] initialComicScene) * (25 / 6) \<le> 1 / 60 + 1 / 12"
proof -
  have h: "\<forall>f \<in> set [(1 / 60, 1 / 60), (1 / 10, 1 / 12 :: real)]. 0 \<le> snd f"
    "0 \<le> frameAcc initialComicScene" "frameAcc initialComicScene < frameInterval"
    by (simp_all add: initialComicScene_def frameInterval_def)
  show ?thesis using comic_rate_bound [OF h] by (simp add: initialComicScene_def)
qed

theorem comicFrame_layout_lost_witness:
  "frameInterval \<le> 1 / 10 \<and> \<bar>panelY (panelTfs (comicFrame 0 (1 / 10) initialComicScene) ! 0)\<bar> \<le> 1 / 2"
proof -
  have d: "frameInterval \<le> 1 / 10" by (simp add: frameInterval_def)
  have "panelTfs (comicFrame 0 (1 / 10) initialComicScene) ! 0 \<in> set (panelTfs (comicFrame 0 (1 / 10) initialComicScene))"
    using d by (simp add: comicFrame_def initialComicScene_def comicPanels_def)
  with comicFrame_layout_lost [OF d, of 0] d show ?thesis by simp
qed

theorem web3_counter_rotation_witness:
  "1 < length (crystals initialWeb3Scene) \<and>
   crystalRotX (crystals (web3Run [(0, 1)] initialWeb3Scene) ! 1) = - 3 / 10"
proof -
  have i: "1 < length (crystals initialWeb3Scene)" by (simp add: initialWeb3Scene_def crystalLayout_def)
  show ?thesis using web3_counter_rotation [OF i, of "[(0, 1)]"] i
    by (simp add: initialWeb3Scene_def crystalLayout_def)
qed

lemma web3Frame_layout_lost_witness:
  "\<bar>mirrorRotY (web3Frame 0 0 initialWeb3Scene) ! 2\<bar> \<le> 1 / 2 \<and> mirrorRotY initialWeb3Scene ! 2 < - 3 / 2"
proof -
  have "mirrorRotY (web3Frame 0 0 initialWeb3Scene) ! 2 \<in> set (mirrorRotY (web3Frame 0 0 initialWeb3Scene))"
    by (simp add: web3Frame_def initialWeb3Scene_def)
  with web3Frame_layout_lost [of 0 0] show ?thesis by simp
qed

end
