(* ===== verification/Debris.thy ===== *)
theory Debris
  imports Prelude
begin

text \<open>
  The animation of \<open>src/src/components/DebrisField.tsx\<close>: a random layout of 50 debris,
  made once on mount (\<open>useMemo\<close>, lines 17--41), shared by the three instanced meshes
  (data, comic, web3), and a frame callback (lines 43--80) that writes every instance's
  position, Euler rotation and scale from the layout, the clock and \<open>delta\<close>, with a
  speed per kind. \<open>matrix.compose\<close> and the quaternion are three.js: an instance is the
  position, rotation and scale passed to it. The opacities are in \<open>SingularityScene\<close>.
\<close>

section \<open>Layout\<close>

definition debrisCount :: nat where
  "debrisCount = 50"

record debris =
  basePos :: vec3
  baseRot :: vec3
  baseScale :: real

text \<open>
  One iteration of the layout loop (lines 22--38) from its seven \<open>Math.random()\<close>
  results, in call order: position x, y, z, rotation x, y, z, scale.
\<close>

definition debrisOf :: "(nat \<Rightarrow> real) \<Rightarrow> debris" where
  "debrisOf r =
     \<lparr>basePos = ((r 0 - 1 / 2) * 20, (r 1 - 1 / 2) * 20, (r 2 - 1 / 2) * 10 - 5),
      baseRot = (r 3 * pi * 2, r 4 * pi * 2, r 5 * pi * 2),
      baseScale = r 6 * (3 / 10) + 1 / 10\<rparr>"

text \<open>The layout from the stream of random numbers, seven per debris.\<close>

definition debrisLayout :: "real list \<Rightarrow> debris list" where
  "debrisLayout rs = map (\<lambda>i. debrisOf (\<lambda>k. rs ! (7 * i + k))) [0..<debrisCount]"

section \<open>Animation\<close>

record instance_tf =
  instPos :: vec3
  instRot :: vec3
  instScale :: real

text \<open>
  \<open>animateDebris(mesh, speedMultiplier)\<close> (lines 47--75): position and rotation are
  copied from the layout every frame, then offset.
\<close>

definition animateDebris :: "real \<Rightarrow> real \<Rightarrow> real \<Rightarrow> debris list \<Rightarrow> instance_tf list" where
  "animateDebris time delta speed ds =
     map (\<lambda>(i, d).
            (case basePos d of (x, y, z) \<Rightarrow>
             case baseRot d of (rx, ry, rz) \<Rightarrow>
               \<lparr>instPos = (x + cos (time * speed * (1 / 2) + real i) * (1 / 100),
                           y + sin (time * speed + real i) * (2 / 100), z),
                instRot = (rx + delta * speed * (1 / 2), ry + delta * speed * (3 / 10), rz),
                instScale = baseScale d\<rparr>))
         (enumerate 0 (take debrisCount ds))"

record debris_frame =
  dataInstances :: "instance_tf list"
  comicInstances :: "instance_tf list"
  web3Instances :: "instance_tf list"

text \<open>The frame callback (lines 43--80): the three kinds at speeds 1, 1.5 and 0.8.\<close>

definition debrisFrame :: "real \<Rightarrow> real \<Rightarrow> debris list \<Rightarrow> debris_frame" where
  "debrisFrame time delta ds =
     \<lparr>dataInstances = animateDebris time delta 1 ds,
      comicInstances = animateDebris time delta (3 / 2) ds,
      web3Instances = animateDebris time delta (4 / 5) ds\<rparr>"


section \<open>Lemmas\<close>

lemma length_animateDebris [simp]:
  "length (animateDebris time delta speed ds) = min debrisCount (length ds)"
  by (simp add: animateDebris_def)

lemma nth_animateDebris:
  assumes "i < length (animateDebris time delta speed ds)"
  shows "animateDebris time delta speed ds ! i =
     \<lparr>instPos = (fst (basePos (ds ! i)) + cos (time * speed * (1 / 2) + real i) * (1 / 100),
                 fst (snd (basePos (ds ! i))) + sin (time * speed + real i) * (2 / 100),
                 snd (snd (basePos (ds ! i)))),
      instRot = (fst (baseRot (ds ! i)) + delta * speed * (1 / 2),
                 fst (snd (baseRot (ds ! i))) + delta * speed * (3 / 10), snd (snd (baseRot (ds ! i)))),
      instScale = baseScale (ds ! i)\<rparr>"
  using assms by (simp add: animateDebris_def nth_enumerate_eq split: prod.splits)

section \<open>Properties of the debris\<close>

text \<open>
  C35: the debris never spins: every frame copies the layout's rotation and adds only
  \<open>delta * speed\<close>, so an instance's rotation does not depend on the time and stays
  within one frame's step of its initial angle.
\<close>

theorem debris_rotation_no_spin:
  "map instRot (animateDebris t1 delta speed ds) = map instRot (animateDebris t2 delta speed ds) \<and>
   map instRot (animateDebris t1 delta speed ds) =
     map (\<lambda>d. (fst (baseRot d) + delta * speed * (1 / 2), fst (snd (baseRot d)) + delta * speed * (3 / 10),
               snd (snd (baseRot d)))) (take debrisCount ds)"
  by (auto simp: list_eq_iff_nth_eq nth_animateDebris)

text \<open>
  The three kinds of debris share one layout: at time 0 the data, comic and web3
  instances are drawn at the same positions.
\<close>

lemma debris_kinds_coincide:
  "map instPos (dataInstances (debrisFrame 0 delta ds)) = map instPos (comicInstances (debrisFrame 0 delta ds)) \<and>
   map instPos (comicInstances (debrisFrame 0 delta ds)) = map instPos (web3Instances (debrisFrame 0 delta ds))"
  by (auto simp: debrisFrame_def list_eq_iff_nth_eq nth_animateDebris)

text \<open>
  C36: from random numbers in [0, 1] the layout has 50 debris, positioned in
  [-10, 10] x [-10, 10] x [-10, 0] and scaled between 0.1 and 0.4.
\<close>

theorem debrisLayout_bounds:
  assumes "7 * debrisCount \<le> length rs" and "\<forall>r \<in> set rs. 0 \<le> r \<and> r \<le> 1"
  shows "length (debrisLayout rs) = debrisCount \<and>
         (\<forall>d \<in> set (debrisLayout rs).
            \<bar>fst (basePos d)\<bar> \<le> 10 \<and> \<bar>fst (snd (basePos d))\<bar> \<le> 10 \<and>
            -10 \<le> snd (snd (basePos d)) \<and> snd (snd (basePos d)) \<le> 0 \<and>
            1 / 10 \<le> baseScale d \<and> baseScale d \<le> 2 / 5)"
proof -
  have r: "0 \<le> rs ! (7 * i + k) \<and> rs ! (7 * i + k) \<le> 1" if "i < debrisCount" "k < 7" for i k
  proof -
    have "7 * i + k < length rs" using that assms(1) by linarith
    then show ?thesis using assms(2) nth_mem by blast
  qed
  show ?thesis
  proof (intro conjI ballI)
    show "length (debrisLayout rs) = debrisCount" by (simp add: debrisLayout_def)
  next
    fix d assume "d \<in> set (debrisLayout rs)"
    then obtain i where i: "i < debrisCount" "d = debrisOf (\<lambda>k. rs ! (7 * i + k))"
      by (auto simp: debrisLayout_def)
    have "\<And>k. k < 7 \<Longrightarrow> 0 \<le> rs ! (7 * i + k) \<and> rs ! (7 * i + k) \<le> 1" using r i(1) by blast
    from this [of 0] this [of 1] this [of 2] this [of 6] i(2)
    show "\<bar>fst (basePos d)\<bar> \<le> 10" "\<bar>fst (snd (basePos d))\<bar> \<le> 10"
      "-10 \<le> snd (snd (basePos d))" "snd (snd (basePos d)) \<le> 0"
      "1 / 10 \<le> baseScale d" "baseScale d \<le> 2 / 5"
      by (auto simp: debrisOf_def abs_le_iff)
  qed
qed

section \<open>Witnesses\<close>

theorem debrisLayout_bounds_witness:
  "length (debrisLayout (replicate 350 (1 / 2))) = 50 \<and>
   baseScale (debrisLayout (replicate 350 (1 / 2)) ! 0) \<le> 2 / 5"
proof -
  have h: "7 * debrisCount \<le> length (replicate 350 (1 / 2 :: real))"
    "\<forall>r \<in> set (replicate 350 (1 / 2 :: real)). 0 \<le> r \<and> r \<le> 1"
    by (simp_all add: debrisCount_def)
  have "0 < length (debrisLayout (replicate 350 (1 / 2 :: real)))"
    by (simp add: debrisLayout_def debrisCount_def)
  then have "debrisLayout (replicate 350 (1 / 2)) ! 0 \<in> set (debrisLayout (replicate 350 (1 / 2)))"
    by (rule nth_mem)
  with debrisLayout_bounds [OF h] show ?thesis by (simp add: debrisCount_def)
qed

end
