(* ===== verification/SceneTrees.thy ===== *)
theory SceneTrees
  imports TimelineScenes SingularityScene Debris
begin

text \<open>
  The JSX that the three committed scenes of \<open>src/src/components/timelines/\<close> return, as
  trees of react-three-fiber elements: groups with their transform and children, meshes
  with their geometry, material and transform, drei \<open>Text\<close> labels, lights and the other
  objects with their props. A geometry is its three.js class and constructor arguments;
  a material is its class and props. Transforms are the \<open>position\<close>, \<open>rotation\<close> (Euler
  angles) and \<open>scale\<close> props, with the three.js defaults (origin, no rotation, scale 1)
  where a prop is absent. \<open>Math.random()\<close> in a render is read from a stream argument.
\<close>

section \<open>Scene trees\<close>

datatype prop_value = PNum real | PStr string | PBool bool | PNums "real list"

type_synonym props = "(string \<times> prop_value) list"

datatype geometry = Geometry string "real list"

datatype material = Material string props

record transform =
  tfPosition :: vec3
  tfRotation :: vec3
  tfScale :: vec3

datatype node =
    Group transform "node list"
  | Mesh transform geometry material props
  | Points "real list" material
  | InstancedMesh nat geometry material
  | Label transform string props
  | Light string props
  | Object3D string props

definition identityTf :: transform where
  "identityTf = \<lparr>tfPosition = (0, 0, 0), tfRotation = (0, 0, 0), tfScale = (1, 1, 1)\<rparr>"

definition placedAt :: "vec3 \<Rightarrow> transform" where
  "placedAt p = identityTf\<lparr>tfPosition := p\<rparr>"

text \<open>The transform and the children of a node, as three.js exposes them.\<close>

fun nodeTransform :: "node \<Rightarrow> transform" where
  "nodeTransform (Group tf _) = tf"
| "nodeTransform (Mesh tf _ _ _) = tf"
| "nodeTransform (Label tf _ _) = tf"
| "nodeTransform _ = identityTf"

fun nodeChildren :: "node \<Rightarrow> node list" where
  "nodeChildren (Group _ ns) = ns"
| "nodeChildren _ = []"

section \<open>TimelineComic\<close>

text \<open>A Ben-Day dot (lines 125--135) from its two random numbers.\<close>

definition benDayDot :: "real \<Rightarrow> real \<Rightarrow> node" where
  "benDayDot r1 r2 =
     Mesh (placedAt ((r1 - 1 / 2) * (9 / 5), (r2 - 1 / 2) * (13 / 10), 1 / 50))
       (Geometry ''circleGeometry'' [1 / 20, 16])
       (Material ''meshBasicMaterial'' [(''color'', PStr ''#F7931E''), (''transparent'', PBool True),
                                        (''opacity'', PNum (3 / 10))]) []"

text \<open>
  Panel \<open>i\<close> of the panels group (lines 84--137): border, background, title, subtitle and
  20 Ben-Day dots, the dots reading the random numbers \<open>40 i\<close> to \<open>40 i + 39\<close>.
\<close>

definition comicPanelNode :: "real list \<Rightarrow> nat \<Rightarrow> comic_panel \<Rightarrow> node" where
  "comicPanelNode rs i p =
     Group (placedAt (layoutPos p))
       ([Mesh (placedAt (0, 0, - 1 / 100)) (Geometry ''planeGeometry'' [11 / 5, 17 / 10])
          (Material ''meshBasicMaterial'' [(''color'', PStr ''#000000'')]) [],
         Mesh identityTf (Geometry ''planeGeometry'' [2, 3 / 2])
          (Material ''meshBasicMaterial'' [(''color'', PStr ''#FFFFFF'')]) [],
         Label (placedAt (0, 3 / 10, 1 / 100)) (panelTitle p)
          [(''fontSize'', PNum (2 / 5)), (''color'', PStr ''#FF6B35''), (''anchorX'', PStr ''center''),
           (''anchorY'', PStr ''middle''), (''outlineWidth'', PNum (3 / 100)),
           (''outlineColor'', PStr ''#000000''), (''font'', PStr ''/fonts/Bangers-Regular.ttf'')],
         Label (placedAt (0, - 1 / 5, 1 / 100)) (panelSubtitle p)
          [(''fontSize'', PNum (3 / 20)), (''color'', PStr ''#000000''), (''anchorX'', PStr ''center''),
           (''anchorY'', PStr ''middle''), (''font'', PStr ''/fonts/ComicNeue-Bold.ttf'')]] @
        map (\<lambda>j. benDayDot (rs ! (40 * i + 2 * j)) (rs ! (40 * i + 2 * j + 1))) [0..<20])"

text \<open>The floating speech bubbles (lines 142--167).\<close>

definition speechBubbles :: "(string \<times> vec3) list" where
  "speechBubbles = [(''React.js'', (-4, -1, 1)), (''Three.js'', (4, - 3 / 2, 1 / 2)), (''WebGL'', (-3, -2, -1))]"

definition bubbleNode :: "string \<times> vec3 \<Rightarrow> node" where
  "bubbleNode b =
     Group (placedAt (snd b))
       [Mesh identityTf (Geometry ''sphereGeometry'' [3 / 5, 32, 32])
          (Material ''meshToonMaterial'' [(''color'', PStr ''#FFFFFF'')]) [],
        Mesh (identityTf\<lparr>tfPosition := (- 2 / 5, - 2 / 5, 0), tfScale := (3 / 10, 3 / 10, 3 / 10)\<rparr>)
          (Geometry ''sphereGeometry'' [1 / 2, 32, 32])
          (Material ''meshToonMaterial'' [(''color'', PStr ''#FFFFFF'')]) [],
        Label (placedAt (0, 0, 61 / 100)) (fst b)
          [(''fontSize'', PNum (1 / 5)), (''color'', PStr ''#000000''), (''anchorX'', PStr ''center''),
           (''anchorY'', PStr ''middle''), (''font'', PStr ''/fonts/ComicNeue-Bold.ttf'')]]"

text \<open>
  The panels group \<open>comicPanelsRef\<close> (lines 82--139), whose children the frame callback
  walks by index.
\<close>

definition comicPanelsGroup :: "real list \<Rightarrow> node" where
  "comicPanelsGroup rs = Group identityTf (map (\<lambda>(i, p). comicPanelNode rs i p) (enumerate 0 comicPanels))"

text \<open>The whole scene (lines 42--180).\<close>

definition comicTree :: "real list \<Rightarrow> node list" where
  "comicTree rs =
     [Light ''ambientLight'' [(''intensity'', PNum (1 / 2))],
      Light ''directionalLight'' [(''position'', PNums [5, 5, 5]), (''intensity'', PNum (3 / 2)), (''color'', PStr ''#FF6B35'')],
      Light ''directionalLight'' [(''position'', PNums [-5, 3, 2]), (''intensity'', PNum (4 / 5)), (''color'', PStr ''#F7931E'')],
      Mesh (identityTf\<lparr>tfPosition := (0, 0, -8), tfScale := (20, 20, 1)\<rparr>)
        (Geometry ''planeGeometry'' [1, 1, 32, 32]) (Material ''meshBasicMaterial'' [(''color'', PStr ''#FBD1A2'')]) [],
      Group identityTf
        ([Group (placedAt (0, 2, 0))
            (Label identityTf ''THE ANOMALY''
               [(''fontSize'', PNum (4 / 5)), (''color'', PStr ''#FF6B35''), (''anchorX'', PStr ''center''),
                (''anchorY'', PStr ''middle''), (''outlineWidth'', PNum (1 / 20)),
                (''outlineColor'', PStr ''#000000''), (''font'', PStr ''/fonts/Bangers-Regular.ttf'')] #
             map (\<lambda>dir. Mesh (identityTf\<lparr>tfPosition := (dir * 2, 0, - 1 / 10), tfRotation := (0, 0, dir * (3 / 10))\<rparr>)
                           (Geometry ''planeGeometry'' [3 / 2, 1 / 10])
                           (Material ''meshBasicMaterial'' [(''color'', PStr ''#000000'')]) []) [-1, 1]),
          comicPanelsGroup rs] @
         map bubbleNode speechBubbles),
      Mesh (identityTf\<lparr>tfPosition := (0, 0, - 79 / 10), tfScale := (20, 20, 1)\<rparr>) (Geometry ''planeGeometry'' [1, 1])
        (Material ''meshBasicMaterial'' [(''color'', PStr ''#FF0000''), (''transparent'', PBool True), (''opacity'', PNum (3 / 100))]) [],
      Mesh (identityTf\<lparr>tfPosition := (1 / 20, 0, - 159 / 20), tfScale := (20, 20, 1)\<rparr>) (Geometry ''planeGeometry'' [1, 1])
        (Material ''meshBasicMaterial'' [(''color'', PStr ''#00FF00''), (''transparent'', PBool True), (''opacity'', PNum (3 / 100))]) []]"

section \<open>TimelineWeb3\<close>

text \<open>Mirror panel \<open>i\<close> (lines 99--124), turned by \<open>-angle\<close> to face the centre.\<close>

definition mirrorPanelNode :: "nat \<Rightarrow> node" where
  "mirrorPanelNode i =
     Mesh (identityTf\<lparr>tfPosition := (cos (mirrorAngle i) * 3, sin (real i) * (1 / 2), sin (mirrorAngle i) * 3),
                      tfRotation := (0, - mirrorAngle i, 0)\<rparr>)
       (Geometry ''planeGeometry'' [3 / 2, 5 / 2])
       (Material ''meshPhysicalMaterial''
          [(''color'', PStr ''#1a1a2e''), (''metalness'', PNum 1), (''roughness'', PNum (1 / 10)),
           (''transmission'', PNum (9 / 10)), (''thickness'', PNum (1 / 2)), (''envMapIntensity'', PNum 1),
           (''clearcoat'', PNum 1), (''clearcoatRoughness'', PNum (1 / 10))]) []"

text \<open>The group \<open>mirrorPanelsRef\<close> (lines 98--126), whose children the frame walks by index.\<close>

definition mirrorPanelsGroup :: node where
  "mirrorPanelsGroup = Group identityTf (map mirrorPanelNode [0..<5])"

text \<open>The crystals' colours (lines 130--133), in the order of \<^const>\<open>crystalLayout\<close>.\<close>

definition crystalColors :: "string list" where
  "crystalColors = [''#7B2CBF'', ''#C77DFF'', ''#FFD60A'', ''#9D4EDD'']"

text \<open>A crystal (lines 135--153); its ref callback stores it at index \<open>i\<close> of \<open>crystalRefs\<close>.\<close>

definition crystalNode :: "vec3 \<times> string \<Rightarrow> node" where
  "crystalNode c =
     Mesh (placedAt (fst c)) (Geometry ''octahedronGeometry'' [4 / 5, 0])
       (Material ''meshPhysicalMaterial''
          [(''color'', PStr (snd c)), (''metalness'', PNum (9 / 10)), (''roughness'', PNum (1 / 20)),
           (''clearcoat'', PNum 1), (''clearcoatRoughness'', PNum 0), (''reflectivity'', PNum 1),
           (''envMapIntensity'', PNum 2)])
       [(''castShadow'', PBool True)]"

text \<open>The fractal (lines 157--184): five groups scaled by \<open>1 / (depth + 1)\<close> of eight cubes each.\<close>

definition fractalNode :: node where
  "fractalNode =
     Group (placedAt (0, 0, -8))
       (map (\<lambda>depth. Group (identityTf\<lparr>tfScale := (1 / real (depth + 1), 1 / real (depth + 1), 1 / real (depth + 1))\<rparr>)
              (map (\<lambda>i. Mesh (placedAt (cos (real i / 8 * pi * 2) * 2, sin (real i / 8 * pi * 2) * 2, - real depth))
                          (Geometry ''boxGeometry'' [1 / 5, 1 / 5, 1 / 5])
                          (Material ''meshStandardMaterial''
                             [(''color'', PStr ''#7B2CBF''), (''emissive'', PStr ''#C77DFF''),
                              (''emissiveIntensity'', PNum (1 / 2)), (''wireframe'', PBool True)]) [])
                   [0..<8]))
          [0..<5])"

text \<open>The whole scene (lines 39--212).\<close>

definition web3Tree :: "node list" where
  "web3Tree =
     [Light ''ambientLight'' [(''intensity'', PNum (1 / 10))],
      Light ''spotLight'' [(''position'', PNums [0, 10, 0]), (''angle'', PNum (3 / 10)), (''penumbra'', PNum 1),
                          (''intensity'', PNum 2), (''color'', PStr ''#C77DFF''), (''castShadow'', PBool True)],
      Light ''pointLight'' [(''position'', PNums [-5, 5, 5]), (''intensity'', PNum 1), (''color'', PStr ''#FFD60A'')],
      Light ''pointLight'' [(''position'', PNums [5, 5, -5]), (''intensity'', PNum 1), (''color'', PStr ''#7B2CBF'')],
      Mesh (identityTf\<lparr>tfPosition := (0, -3, 0), tfRotation := (- pi / 2, 0, 0)\<rparr>) (Geometry ''planeGeometry'' [50, 50])
        (Material ''MeshReflectorMaterial''
           [(''blur'', PNums [300, 100]), (''resolution'', PNum 2048), (''mixBlur'', PNum 1),
            (''mixStrength'', PNum 40), (''roughness'', PNum 1), (''depthScale'', PNum (6 / 5)),
            (''minDepthThreshold'', PNum (2 / 5)), (''maxDepthThreshold'', PNum (7 / 5)),
            (''color'', PStr ''#0a0a0a''), (''metalness'', PNum (4 / 5))])
        [(''receiveShadow'', PBool True)],
      Group (placedAt (0, 2, 0))
        [Label identityTf ''THE MIRROR DIMENSION''
           [(''fontSize'', PNum (3 / 5)), (''color'', PStr ''#C77DFF''), (''anchorX'', PStr ''center''),
            (''anchorY'', PStr ''middle''), (''font'', PStr ''/fonts/OrbitronBlack.ttf'')],
         Mesh (placedAt (0, - 1 / 2, 0)) (Geometry ''boxGeometry'' [4, 1 / 20, 1 / 20])
           (Material ''meshStandardMaterial''
              [(''color'', PStr ''#FFD60A''), (''emissive'', PStr ''#FFD60A''), (''emissiveIntensity'', PNum 2),
               (''metalness'', PNum 1), (''roughness'', PNum 0)]) []],
      mirrorPanelsGroup] @
     map crystalNode (zip crystalLayout crystalColors) @
     [fractalNode,
      Group identityTf
        (map (\<lambda>(i, radius). Mesh (identityTf\<lparr>tfRotation := (pi / 2 + real i * (1 / 5), 0, 0)\<rparr>)
                              (Geometry ''torusGeometry'' [radius, 1 / 50, 16, 100])
                              (Material ''meshStandardMaterial''
                                 [(''color'', PStr ''#FFD60A''), (''emissive'', PStr ''#FFD60A''),
                                  (''emissiveIntensity'', PNum 1), (''metalness'', PNum 1), (''roughness'', PNum 0)]) [])
           (enumerate 0 [1, 3 / 2, 2])),
      Mesh (identityTf\<lparr>tfPosition := (0, 5, -10), tfScale := (20, 20, 1)\<rparr>) (Geometry ''planeGeometry'' [1, 1])
        (Material ''meshBasicMaterial''
           [(''color'', PStr ''#7B2CBF''), (''transparent'', PBool True), (''opacity'', PNum (1 / 20)),
            (''blending'', PStr ''AdditiveBlending'')]) []]"

section \<open>TimelineData\<close>

text \<open>
  The console's third line (line 125) holds two U+2022 bullets and a newline; the string
  is its UTF-8 bytes.
\<close>

definition consoleTagline :: string where
  "consoleTagline =
     ''Machine Learning '' @ [CHR 0xE2, CHR 0x80, CHR 0xA2] @ '' Data Science'' @ [CHR 0x0A] @
     ''Cloud Architecture '' @ [CHR 0xE2, CHR 0x80, CHR 0xA2] @ '' Systems Engineering''"

text \<open>The whole scene (lines 39--153), with the particle buffer \<open>positions\<close> of the render.\<close>

definition dataTree :: "real list \<Rightarrow> node list" where
  "dataTree positions =
     [Light ''ambientLight'' [(''intensity'', PNum (1 / 10))],
      Light ''directionalLight'' [(''position'', PNums [0, 10, 5]), (''intensity'', PNum 1), (''color'', PStr ''#00ff41'')],
      Object3D ''Grid''
        [(''position'', PNums [0, -3, 0]), (''args'', PNums [50, 50]), (''cellSize'', PNum (1 / 2)),
         (''cellThickness'', PNum (1 / 2)), (''cellColor'', PStr ''#008F11''), (''sectionSize'', PNum 5),
         (''sectionThickness'', PNum 1), (''sectionColor'', PStr ''#00ff41''), (''fadeDistance'', PNum 30),
         (''fadeStrength'', PNum 1), (''infiniteGrid'', PBool True)],
      Points positions
        (Material ''pointsMaterial''
           [(''size'', PNum (3 / 100)), (''color'', PStr ''#00ff41''), (''transparent'', PBool True),
            (''opacity'', PNum (3 / 5)), (''sizeAttenuation'', PBool True), (''blending'', PStr ''AdditiveBlending'')]),
      Group identityTf
        (Group identityTf
           [Mesh identityTf (Geometry ''boxGeometry'' [3, 2, 1 / 10])
              (Material ''meshStandardMaterial''
                 [(''color'', PStr ''#000000''), (''emissive'', PStr ''#00ff41''), (''emissiveIntensity'', PNum (1 / 5))]) [],
            Label (placedAt (0, 1 / 2, 1 / 10)) ''> THE ARCHITECT_''
              [(''fontSize'', PNum (1 / 5)), (''color'', PStr ''#00ff41''), (''anchorX'', PStr ''center''),
               (''anchorY'', PStr ''middle''), (''font'', PStr ''/fonts/CourierPrime-Regular.ttf'')],
            Label (placedAt (0, 0, 1 / 10)) ''SYSTEM.BOOT [OK]''
              [(''fontSize'', PNum (1 / 10)), (''color'', PStr ''#00ff41''), (''anchorX'', PStr ''center''),
               (''anchorY'', PStr ''middle''), (''font'', PStr ''/fonts/CourierPrime-Regular.ttf'')],
            Label (placedAt (0, - 3 / 10, 1 / 10)) consoleTagline
              [(''fontSize'', PNum (2 / 25)), (''color'', PStr ''#008F11''), (''anchorX'', PStr ''center''),
               (''anchorY'', PStr ''middle''), (''maxWidth'', PNum (5 / 2)), (''textAlign'', PStr ''center''),
               (''font'', PStr ''/fonts/CourierPrime-Regular.ttf'')]] #
         map (\<lambda>(i, x). Mesh (placedAt (x, sin (real i) * 2, -3)) (Geometry ''boxGeometry'' [4 / 5, 6 / 5, 1 / 10])
                          (Material ''meshStandardMaterial''
                             [(''color'', PStr ''#001100''), (''emissive'', PStr ''#00ff41''),
                              (''emissiveIntensity'', PNum (3 / 10)), (''wireframe'', PBool True)]) [])
           (enumerate 0 [-4, -2, 2, 4])),
      Group (placedAt (0, 0, -5))
        (map (\<lambda>i. Mesh (identityTf\<lparr>tfPosition := (0, 0, real i * 2 - 10), tfRotation := (pi / 2, 0, 0)\<rparr>)
                      (Geometry ''ringGeometry'' [3 + real i * (1 / 2), 31 / 10 + real i * (1 / 2), 64])
                      (Material ''meshBasicMaterial''
                         [(''color'', PStr ''#00ff41''), (''transparent'', PBool True), (''opacity'', PNum (1 / 5))]) [])
           [0..<10])]"

section \<open>The singularity scene's meshes\<close>

text \<open>
  The hero object's mesh (HeroObject, lines 98--118): the icosahedron of radius 1.5 and
  detail 3, whose vertices \<^const>\<open>deformGeometry\<close> moves, drawn with the shader
  material of \<open>HeroShader\<close>; hovering it sets the page's cursor style.
\<close>

definition heroMesh :: node where
  "heroMesh =
     Mesh identityTf (Geometry ''IcosahedronGeometry'' [3 / 2, 3])
       (Material ''shaderMaterial''
          [(''vertexShader'', PStr ''vertexShader''), (''fragmentShader'', PStr ''fragmentShader''),
           (''uniforms'', PStr ''uniforms''), (''wireframe'', PBool False)])
       [(''onClick'', PStr ''onClick''), (''onPointerOver'', PStr ''cursor: pointer''),
        (''onPointerOut'', PStr ''cursor: none'')]"

text \<open>
  The three instanced meshes of DebrisField (lines 87--126), 50 instances each, with the
  opacity \<^const>\<open>getOpacity\<close> gives each kind for the dominant timeline \<open>d\<close>.
\<close>

definition debrisTree :: "timeline \<Rightarrow> node list" where
  "debrisTree d =
     [InstancedMesh debrisCount (Geometry ''boxGeometry'' [3 / 10, 3 / 5, 3 / 10])
        (Material ''meshStandardMaterial''
           [(''color'', PStr ''#00ff41''), (''emissive'', PStr ''#008F11''), (''emissiveIntensity'', PNum (1 / 2)),
            (''transparent'', PBool True), (''opacity'', PNum (getOpacity d Data)), (''wireframe'', PBool True)]),
      InstancedMesh debrisCount (Geometry ''sphereGeometry'' [3 / 10, 8, 8])
        (Material ''meshToonMaterial''
           [(''color'', PStr ''#FF6B35''), (''transparent'', PBool True), (''opacity'', PNum (getOpacity d Comic))]),
      InstancedMesh debrisCount (Geometry ''octahedronGeometry'' [1 / 4, 0])
        (Material ''meshPhysicalMaterial''
           [(''color'', PStr ''#7B2CBF''), (''emissive'', PStr ''#C77DFF''), (''emissiveIntensity'', PNum (3 / 10)),
            (''transparent'', PBool True), (''opacity'', PNum (getOpacity d Web3)), (''metalness'', PNum (9 / 10)),
            (''roughness'', PNum (1 / 10))])]"

end
