(* ===== verification/ProjectData.thy ===== *)
theory ProjectData
  imports Prelude
begin

text \<open>
  The example data file \<open>src/PROJECT_DATA_EXAMPLE.ts\<close>: the \<open>Project\<close> interface as a
  record (the optional fields as options), the three project lists, the skills, the
  social links and the personal info as constants with the file's values. The usage
  example at the file's end is inside a block comment and is not modelled. No component
  imports the file; it is the template of \<open>src/data/projects.ts\<close>.
\<close>

section \<open>Data\<close>

text \<open>\<open>interface Project\<close> (lines 4--13); \<open>id\<close> is \<^term>\<open>projectId\<close>.\<close>

record project =
  projectId :: string
  title :: string
  description :: string
  technologies :: "string list"
  link :: "string option"
  github :: "string option"
  image :: "string option"
  featured :: bool

text \<open>Data science and engineering projects (lines 15--42).\<close>

definition dataProjects :: "project list" where
  "dataProjects =
    [\<lparr>projectId = ''ml-pipeline'',
      title = ''Real-Time ML Pipeline'',
      description = ''Built a scalable machine learning pipeline processing 1M+ events per day with automated retraining'',
      technologies = [''Python'', ''TensorFlow'', ''Apache Kafka'', ''Kubernetes'', ''FastAPI''],
      link = Some ''https://example.com/project1'', github = Some ''https://github.com/yourusername/ml-pipeline'', image = None,
      featured = True\<rparr>,
    \<lparr>projectId = ''data-viz'',
      title = ''Interactive Data Visualization Dashboard'',
      description = ''Created an interactive dashboard for business analytics with real-time data streaming'',
      technologies = [''Python'', ''D3.js'', ''PostgreSQL'', ''Docker''],
      link = Some ''https://example.com/project2'', github = None, image = None,
      featured = False\<rparr>,
    \<lparr>projectId = ''nlp-model'',
      title = ''NLP Sentiment Analysis'',
      description = ''Developed a custom sentiment analysis model achieving 94% accuracy on product reviews'',
      technologies = [''PyTorch'', ''BERT'', ''HuggingFace'', ''AWS SageMaker''],
      link = None, github = Some ''https://github.com/yourusername/nlp-sentiment'', image = None,
      featured = True\<rparr>]"

text \<open>Web development projects (lines 44--71).\<close>

definition webProjects :: "project list" where
  "webProjects =
    [\<lparr>projectId = ''ecommerce'',
      title = ''Modern E-Commerce Platform'',
      description = ''Full-stack e-commerce with payment integration, inventory management, and admin dashboard'',
      technologies = [''React'', ''Next.js'', ''Node.js'', ''Stripe'', ''MongoDB''],
      link = Some ''https://example.com/shop'', github = Some ''https://github.com/yourusername/ecommerce'', image = None,
      featured = True\<rparr>,
    \<lparr>projectId = ''3d-portfolio'',
      title = ''3D Interactive Portfolio'',
      description = ''This very portfolio! A cinematic multiverse experience built with Three.js'',
      technologies = [''React'', ''Three.js'', ''TypeScript'', ''WebGL'', ''GSAP''],
      link = Some ''https://yourportfolio.com'', github = Some ''https://github.com/yourusername/portfolio'', image = None,
      featured = True\<rparr>,
    \<lparr>projectId = ''social-app'',
      title = ''Real-Time Social Platform'',
      description = ''Built a social media app with live messaging, notifications, and content feeds'',
      technologies = [''React'', ''Socket.io'', ''Express'', ''Redis'', ''PostgreSQL''],
      link = None, github = None, image = None,
      featured = False\<rparr>]"

text \<open>Web3 and blockchain projects (lines 73--100).\<close>

definition web3Projects :: "project list" where
  "web3Projects =
    [\<lparr>projectId = ''nft-marketplace'',
      title = ''NFT Marketplace'',
      description = ''Decentralized marketplace for creating, buying, and selling NFTs with low gas fees'',
      technologies = [''Solidity'', ''Ethers.js'', ''React'', ''IPFS'', ''Hardhat''],
      link = Some ''https://example.com/nft-market'', github = Some ''https://github.com/yourusername/nft-marketplace'', image = None,
      featured = True\<rparr>,
    \<lparr>projectId = ''defi-protocol'',
      title = ''DeFi Yield Aggregator'',
      description = ''Smart contract protocol that automatically finds the best yield farming opportunities'',
      technologies = [''Solidity'', ''Web3.js'', ''Next.js'', ''The Graph'', ''Chainlink''],
      link = None, github = Some ''https://github.com/yourusername/defi-yield'', image = None,
      featured = True\<rparr>,
    \<lparr>projectId = ''dao-platform'',
      title = ''DAO Governance Platform'',
      description = ''Voting and proposal system for decentralized autonomous organizations'',
      technologies = [''Solidity'', ''React'', ''Snapshot'', ''IPFS'', ''Gnosis Safe''],
      link = Some ''https://example.com/dao'', github = None, image = None,
      featured = False\<rparr>]"

text \<open>\<open>skills\<close> (lines 102--150): one list per group, keyed \<open>data\<close>, \<open>web\<close> and \<open>web3\<close>.\<close>

record skill_groups =
  skillsData :: "string list"
  skillsWeb :: "string list"
  skillsWeb3 :: "string list"

definition skills :: skill_groups where
  "skills =
    \<lparr>skillsData = [''Machine Learning'', ''Deep Learning'', ''NLP & Computer Vision'', ''Data Science'', ''Python'', ''TensorFlow'', ''PyTorch'', ''Apache Spark'', ''SQL & NoSQL'', ''Cloud (AWS, GCP, Azure)'', ''Docker & Kubernetes'', ''FastAPI'', ''Data Visualization''],
     skillsWeb = [''React'', ''Next.js'', ''TypeScript'', ''Node.js'', ''Express'', ''GraphQL'', ''Three.js'', ''WebGL'', ''GSAP'', ''Tailwind CSS'', ''PostgreSQL'', ''MongoDB'', ''Redis'', ''REST APIs''],
     skillsWeb3 = [''Solidity'', ''Smart Contracts'', ''Ethers.js'', ''Web3.js'', ''Hardhat'', ''Truffle'', ''IPFS'', ''The Graph'', ''DeFi Protocols'', ''NFT Standards'', ''DAO Development'', ''Zero-Knowledge Proofs'', ''Layer 2 Solutions'']\<rparr>"

text \<open>\<open>socialLinks\<close> (lines 152--159).\<close>

record social_links =
  socialGithub :: string
  socialLinkedin :: string
  socialTwitter :: string
  socialEmail :: string
  socialWebsite :: string

definition socialLinks :: social_links where
  "socialLinks =
    \<lparr>socialGithub = ''https://github.com/yourusername'',
     socialLinkedin = ''https://linkedin.com/in/yourusername'',
     socialTwitter = ''https://twitter.com/yourusername'',
     socialEmail = ''your.email@example.com'',
     socialWebsite = ''https://yourwebsite.com''\<rparr>"

text \<open>\<open>personalInfo\<close> (lines 161--169).\<close>

record personal_info =
  personName :: string
  personTitle :: string
  bio :: string
  location :: string
  available :: bool
  resumeUrl :: string

definition personalInfo :: personal_info where
  "personalInfo =
    \<lparr>personName = ''Your Name'',
     personTitle = ''Full Stack Developer | Data Scientist | Web3 Builder'',
     bio = ''I build at the intersection of data, design, and decentralization. From machine learning pipelines to immersive 3D experiences to blockchain protocols.'',
     location = ''Your City, Country'',
     available = True,
     resumeUrl = ''https://example.com/resume.pdf''\<rparr>"

end
