(* ===== verification/Theme.thy ===== *)
theory Theme
  imports App SceneTrees
begin

text \<open>
  The colour theme of \<open>src/tailwind.config.js\<close> and the colours the components use for
  each timeline: the Tailwind classes of the portal flash, the cursor ring and pulse and
  the watch, and the hex colours of the singularity scene's lights, debris and hero
  shader. A Tailwind colour class \<open>bg-\<close>, \<open>border-\<close>, \<open>text-\<close> or \<open>shadow-\<close> followed
  by \<open>group-shade\<close> takes its colour from the theme; other classes have none here.
\<close>

section \<open>The theme\<close>

text \<open>\<open>theme.extend.colors\<close> (lines 9--25): per group, its shades and their hex values.\<close>

definition themeColors :: "(string \<times> (string \<times> string) list) list" where
  "themeColors =
     [(''data'', [(''primary'', ''#00ff41''), (''secondary'', ''#008F11''), (''glow'', ''#39FF14'')]),
      (''comic'', [(''primary'', ''#FF6B35''), (''secondary'', ''#F7931E''), (''accent'', ''#FBD1A2'')]),
      (''web3'', [(''primary'', ''#7B2CBF''), (''secondary'', ''#C77DFF''), (''gold'', ''#FFD60A'')])]"

text \<open>\<open>theme.extend.fontFamily\<close> (lines 26--30) and the scanned \<open>content\<close> (lines 3--6).\<close>

definition themeFonts :: "(string \<times> string list) list" where
  "themeFonts =
     [(''mono'', [''Courier New'', ''monospace'']), (''comic'', [''Comic Sans MS'', ''cursive'']),
      (''sans'', [''Inter'', ''sans-serif''])]"

definition themeContent :: "string list" where
  "themeContent = [''./index.html'', ''./src/**/*.{js,ts,jsx,tsx}'']"

section \<open>Tailwind colour classes\<close>

fun dropPrefix :: "string \<Rightarrow> string \<Rightarrow> string option" where
  "dropPrefix [] s = Some s"
| "dropPrefix (c # cs) [] = None"
| "dropPrefix (c # cs) (d # ds) = (if c = d then dropPrefix cs ds else None)"

text \<open>The theme colour \<open>group-shade\<close> names, if any.\<close>

definition themeColor :: "string \<Rightarrow> string option" where
  "themeColor name =
     (case find (\<lambda>(g, _). dropPrefix (g @ ''-'') name \<noteq> None) themeColors of
        None \<Rightarrow> None
      | Some (g, shades) \<Rightarrow> map_of shades (the (dropPrefix (g @ ''-'') name)))"

definition classColor :: "string \<Rightarrow> string option" where
  "classColor c =
     (case find (\<lambda>p. dropPrefix p c \<noteq> None) [''bg-'', ''border-'', ''text-'', ''shadow-''] of
        None \<Rightarrow> None
      | Some p \<Rightarrow> themeColor (the (dropPrefix p c)))"

text \<open>The colours a \<open>className\<close> string sets, in class order.\<close>

definition classColors :: "string \<Rightarrow> string list" where
  "classColors s = List.map_filter classColor (classWords [] s)"

section \<open>Colours of the components\<close>

text \<open>The hex strings of the hero shader's colour uniforms (HeroObject, lines 54--56).\<close>

definition heroColorHex :: "timeline \<Rightarrow> string" where
  "heroColorHex t =
     (case t of Data \<Rightarrow> ''#00ff41'' | Comic \<Rightarrow> ''#FF6B35'' | Web3 \<Rightarrow> ''#C77DFF'' | Singularity \<Rightarrow> '''')"

text \<open>The theme group of a committed timeline and its primary colour.\<close>

definition themeGroup :: "timeline \<Rightarrow> string" where
  "themeGroup t = (case t of Data \<Rightarrow> ''data'' | Comic \<Rightarrow> ''comic'' | Web3 \<Rightarrow> ''web3'' | Singularity \<Rightarrow> '''')"

definition primaryOf :: "timeline \<Rightarrow> string option" where
  "primaryOf t = themeColor (themeGroup t @ ''-primary'')"

text \<open>The \<open>color\<close> prop of a material.\<close>

definition materialColor :: "material \<Rightarrow> string option" where
  "materialColor m = (case m of Material _ ps \<Rightarrow>
     (case map_of ps ''color'' of Some (PStr c) \<Rightarrow> Some c | _ \<Rightarrow> None))"

fun nodeMaterial :: "node \<Rightarrow> material option" where
  "nodeMaterial (Mesh _ _ m _) = Some m"
| "nodeMaterial (Points _ m) = Some m"
| "nodeMaterial (InstancedMesh _ _ m) = Some m"
| "nodeMaterial _ = None"

lemmas theme_defs = classColors_def classColor_def themeColor_def themeColors_def primaryOf_def
  themeGroup_def List.map_filter_def

section \<open>Properties of the theme\<close>

text \<open>
  C15: one colour per timeline across the page: for a committed timeline, the colour
  classes of the portal flash, the cursor ring, the pulse and the active watch button
  resolve to the timeline's primary theme colour; the three debris kinds and the three
  lights, each lit by one timeline's influence, have the primary colours of their
  timelines; the hero shader's colour uniform is the primary colour for data and comic
  but the secondary one for web3.
\<close>

theorem timeline_colours_agree:
  assumes "t \<noteq> Singularity"
  shows "classColors (getPortalClass (styleForTimeline t)) = [the (primaryOf t), the (primaryOf t)] \<and>
         take 1 (classColors (getCursorStyle t p)) = [the (primaryOf t)] \<and>
         map_option classColors (innerPulseClass (Some t)) = Some [the (primaryOf t)] \<and>
         classColors (watchColorClass (themeGroup t)) = [the (primaryOf t), the (primaryOf t)] \<and>
         (Some (heroColorHex t) = primaryOf t \<longleftrightarrow> t \<noteq> Web3) \<and>
         map (\<lambda>n. materialColor (the (nodeMaterial n))) (debrisTree d) = map primaryOf [Data, Comic, Web3] \<and>
         directionalLights m = [(the (primaryOf Data), infData (timelineInfluence m)),
                                (the (primaryOf Web3), infWeb3 (timelineInfluence m)),
                                (the (primaryOf Comic), infComic (timelineInfluence m))] \<and>
         Some (heroColorHex Web3) = themeColor ''web3-secondary''"
  using assms
  by (cases t) (simp_all add: theme_defs getPortalClass_def styleForTimeline_def getCursorStyle_def
      innerPulseClass_def watchColorClass_def heroColorHex_def debrisTree_def materialColor_def
      directionalLights_def timelineInfluence_def)

section \<open>Witnesses\<close>

theorem timeline_colours_agree_witness:
  "Comic \<noteq> Singularity \<and>
   classColors (getPortalClass (styleForTimeline Comic)) = [''#FF6B35'', ''#FF6B35''] \<and>
   Some (heroColorHex Web3) \<noteq> primaryOf Web3"
proof -
  have h: "Comic \<noteq> Singularity" by simp
  note c = timeline_colours_agree [OF h, of origin Singularity origin]
  have "primaryOf Comic = Some ''#FF6B35''" by (simp add: theme_defs)
  moreover have "Some (heroColorHex Web3) \<noteq> primaryOf Web3" by (simp add: theme_defs heroColorHex_def)
  ultimately show ?thesis using c by simp
qed

end
