(* ===== verification/SoundGains.thy ===== *)
theory SoundGains
  imports Sound
begin

text \<open>
  The gain automation of the sound controller's soundscapes
  (\<open>src/src/components/Sound/SoundController.tsx\<close>): every oscillator is connected to a
  gain node whose \<open>gain\<close> parameter gets a list of automation events at times relative to
  \<open>audioContext.currentTime\<close>. The pulse schedules are \<open>for\<close> loops over a float
  \<open>t\<close> that stop at 60 s; such a loop runs forever for a non-positive step, so it is
  a \<open>partial_function (option)\<close>, and the lemmas prove that it returns for the steps the
  code uses. Times are reals: the rounding of the float sum \<open>t += step\<close> is not
  modelled.
\<close>

section \<open>Automation events\<close>

datatype gain_event = SetValue real real | LinearRamp real real

fun eventTime :: "gain_event \<Rightarrow> real" where
  "eventTime (SetValue v t) = t"
| "eventTime (LinearRamp v t) = t"

text \<open>
  \<open>for (let t = 0; t < 60; t += step) { setValueAtTime(level, now + t);
  setValueAtTime(0, now + t + width) }\<close>, from a given \<open>t\<close>.
\<close>

partial_function (option) pulseLoop :: "real \<Rightarrow> real \<Rightarrow> real \<Rightarrow> real \<Rightarrow> gain_event list option" where
  "pulseLoop step level width t =
     (if t < 60
      then Option.bind (pulseLoop step level width (t + step))
             (\<lambda>evs. Some (SetValue level t # SetValue 0 (t + width) # evs))
      else Some [])"

text \<open>The pulse schedule of a gain node: first \<open>setValueAtTime(0, now)\<close>, then the loop.\<close>

definition pulseSchedule :: "real \<Rightarrow> real \<Rightarrow> real \<Rightarrow> gain_event list option" where
  "pulseSchedule step level width = map_option (\<lambda>evs. SetValue 0 0 # evs) (pulseLoop step level width 0)"

text \<open>Data oscillator \<open>i\<close> (lines 77--82): pulses of 0.05 for 0.02 s every \<open>0.1 + 0.05 i\<close> s.\<close>

definition dataGain :: "nat \<Rightarrow> gain_event list option" where
  "dataGain i = pulseSchedule (1 / 10 + real i * (1 / 20)) (1 / 20) (1 / 50)"

text \<open>The comic bass (lines 102--106) and clicks (lines 122--126).\<close>

definition comicBassGain :: "gain_event list option" where
  "comicBassGain = pulseSchedule (1 / 2) (3 / 20) (1 / 10)"

definition comicClickGain :: "gain_event list option" where
  "comicClickGain = pulseSchedule (1 / 4) (1 / 20) (1 / 50)"

text \<open>A web3 pad (lines 148--149): a ramp from 0 to 0.08 over 3 s; the singularity rumble (line 177).\<close>

definition web3PadGain :: "gain_event list" where
  "web3PadGain = [SetValue 0 0, LinearRamp (2 / 25) 3]"

definition rumbleGain :: "gain_event list" where
  "rumbleGain = [SetValue (1 / 10) 0]"

text \<open>
  The value of an \<open>AudioParam\<close> at time \<open>\<tau>\<close> under its automation events (in time
  order, events at equal times in insertion order), as the Web Audio specification computes
  it: the value of the last event at or before \<open>\<tau>\<close>, held, unless the next event is a
  \<open>linearRampToValueAtTime\<close>, which interpolates linearly from the previous event's value
  and time \<open>t0\<close> to its own. Before the first event the value is the default, starting at
  time 0 (the \<open>currentTime\<close> the events are relative to).
\<close>

fun paramValue :: "gain_event list \<Rightarrow> real \<Rightarrow> real \<Rightarrow> real \<Rightarrow> real" where
  "paramValue [] cur t0 \<tau> = cur"
| "paramValue (SetValue v t # evs) cur t0 \<tau> = (if t \<le> \<tau> then paramValue evs v t \<tau> else cur)"
| "paramValue (LinearRamp v t # evs) cur t0 \<tau> =
     (if t \<le> \<tau> then paramValue evs v t \<tau> else cur + (v - cur) * (\<tau> - t0) / (t - t0))"

text \<open>A gain node's value: its default gain is 1.\<close>

definition gainAt :: "gain_event list \<Rightarrow> real \<Rightarrow> real" where
  "gainAt evs \<tau> = paramValue evs 1 0 \<tau>"

text \<open>The events written by \<open>n\<close> rounds of the pulse loop from \<open>t\<close>, in closed form.\<close>

definition pulses :: "real \<Rightarrow> real \<Rightarrow> real \<Rightarrow> real \<Rightarrow> nat \<Rightarrow> gain_event list" where
  "pulses step level width t n =
     concat (map (\<lambda>k. [SetValue level (t + real k * step), SetValue 0 (t + real k * step + width)]) [0..<n])"

fun eventValue :: "gain_event \<Rightarrow> real" where
  "eventValue (SetValue v t) = v"
| "eventValue (LinearRamp v t) = v"

section \<open>The pulse loops return\<close>


lemma pulses_Suc:
  "pulses step level width t (Suc n) =
     SetValue level t # SetValue 0 (t + width) # pulses step level width (t + step) n"
  by (induction n) (simp_all add: pulses_def algebra_simps)

lemma pulseLoop_closed:
  assumes "0 < step"
  shows "pulseLoop step level width t = Some (pulses step level width t (nat \<lceil>(60 - t) / step\<rceil>))"
proof (induction "nat \<lceil>(60 - t) / step\<rceil>" arbitrary: t)
  case 0
  then have "\<not> t < 60" using assms by (auto simp: field_simps)
  then show ?case using 0 by (simp add: pulseLoop.simps pulses_def)
next
  case (Suc n)
  then have lt: "t < 60" using assms by (cases "t < 60") (auto simp: field_simps)
  have "(60 - (t + step)) / step = (60 - t) / step - 1" using assms by (simp add: field_simps)
  then have "nat \<lceil>(60 - (t + step)) / step\<rceil> = n" using Suc.hyps(2) by linarith
  with Suc.hyps(1) [of "t + step"] lt Suc.hyps(2) show ?case
    by (simp add: pulseLoop.simps [of step level width t] pulses_Suc [symmetric])
qed

lemma paramValue_all_le:
  assumes "\<forall>e \<in> set evs. eventTime e \<le> \<tau>"
  shows "paramValue evs cur t0 \<tau> = (if evs = [] then cur else eventValue (last evs))"
  using assms by (induction evs cur t0 \<tau> rule: paramValue.induct) auto

lemma pulses_times:
  assumes "0 < step" and "e \<in> set (pulses step level width 0 (nat \<lceil>60 / step\<rceil>))" and "0 \<le> width"
  shows "eventTime e < 60 + width \<and> (\<exists>v t. e = SetValue v t)"
proof -
  obtain k where k: "k < nat \<lceil>60 / step\<rceil>"
    and e: "e = SetValue level (real k * step) \<or> e = SetValue 0 (real k * step + width)"
    using assms(2) by (auto simp: pulses_def)
  have "real k < 60 / step" using k by linarith
  then have "real k * step < 60" using assms(1) by (simp add: field_simps)
  with e assms(3) show ?thesis by auto
qed

lemma pulses_last:
  "0 < n \<Longrightarrow> last (pulses step level width t n) = SetValue 0 (t + real (n - 1) * step + width)"
  by (cases n) (simp_all add: pulses_def)

lemma pulses_Nil: "pulses step level width t n = [] \<longleftrightarrow> n = 0"
  by (cases n) (simp_all add: pulses_def)

lemma pulseSchedule_closed:
  "0 < step \<Longrightarrow> pulseSchedule step level width = Some (SetValue 0 0 # pulses step level width 0 (nat \<lceil>60 / step\<rceil>))"
  by (simp add: pulseSchedule_def pulseLoop_closed)

lemma pulseSchedule_silent:
  assumes "0 < step" and "0 \<le> width" and "60 + width \<le> \<tau>"
  shows "map_option (\<lambda>evs. gainAt evs \<tau>) (pulseSchedule step level width) = Some 0"
proof -
  let ?n = "nat \<lceil>60 / step\<rceil>"
  have n: "0 < ?n" using assms(1) by simp
  have "eventTime e \<le> \<tau>"
    if "e \<in> set (pulses step level width 0 ?n)" for e
    using pulses_times [OF assms(1) that assms(2)] assms(3) by auto
  moreover have "0 \<le> \<tau>" using assms(2,3) by linarith
  ultimately have "\<forall>e \<in> set (SetValue 0 0 # pulses step level width 0 ?n). eventTime e \<le> \<tau>"
    by auto
  then show ?thesis
    using n by (simp add: pulseSchedule_closed [OF assms(1)] gainAt_def paramValue_all_le pulses_last pulses_Nil)
qed

lemma pulseSchedule_start:
  assumes "0 < step" and "0 < width"
  shows "map_option (\<lambda>evs. gainAt evs 0) (pulseSchedule step level width) = Some level"
proof -
  have "0 < nat \<lceil>60 / step\<rceil>" using assms(1) by simp
  then obtain n where "nat \<lceil>60 / step\<rceil> = Suc n" by (cases "nat \<lceil>60 / step\<rceil>") auto
  then show ?thesis using assms
    by (simp add: pulseSchedule_closed gainAt_def pulses_Suc)
qed

lemma web3PadGain_fade:
  "0 \<le> \<tau> \<Longrightarrow> \<tau> \<le> 3 \<Longrightarrow> gainAt web3PadGain \<tau> = 2 / 75 * \<tau>"
  "3 \<le> \<tau> \<Longrightarrow> gainAt web3PadGain \<tau> = 2 / 25"
  by (auto simp: gainAt_def web3PadGain_def)

lemma rumbleGain_const: "0 \<le> \<tau> \<Longrightarrow> gainAt rumbleGain \<tau> = 1 / 10"
  by (simp add: gainAt_def rumbleGain_def)


text \<open>
  C23: The data and comic soundscapes pulse from the start (the gain is the pulse level at
  time 0) but their schedules end after a minute: from 60.1 s on every data and comic gain
  is 0 for good, although the oscillators keep running until the timeline changes; the web3
  pads, faded in over 3 s, and the singularity rumble hold their gains (0.08 and 0.1).
\<close>

theorem soundscapes_fall_silent:
  assumes "60 + 1 / 10 \<le> \<tau>"
  shows "map_option (\<lambda>evs. gainAt evs 0) (dataGain i) = Some (1 / 20) \<and>
         map_option (\<lambda>evs. gainAt evs \<tau>) (dataGain i) = Some 0 \<and>
         map_option (\<lambda>evs. gainAt evs 0) comicBassGain = Some (3 / 20) \<and>
         map_option (\<lambda>evs. gainAt evs \<tau>) comicBassGain = Some 0 \<and>
         map_option (\<lambda>evs. gainAt evs 0) comicClickGain = Some (1 / 20) \<and>
         map_option (\<lambda>evs. gainAt evs \<tau>) comicClickGain = Some 0 \<and>
         gainAt web3PadGain \<tau> = 2 / 25 \<and> gainAt rumbleGain \<tau> = 1 / 10"
proof -
  have step: "(0::real) < 1 / 10 + real i * (1 / 20)" by (simp add: add_pos_nonneg)
  have w1: "60 + 1 / 50 \<le> \<tau>" and w2: "60 + 1 / 10 \<le> \<tau>" using assms by simp_all
  have nn: "(0::real) \<le> 1 / 50" "(0::real) \<le> 1 / 10" "(0::real) < 1 / 50" "(0::real) < 1 / 10"
    "(0::real) < 1 / 2" "(0::real) < 1 / 4" by simp_all
  have web: "gainAt web3PadGain \<tau> = 2 / 25" using w2 by (simp add: web3PadGain_fade(2))
  have rum: "gainAt rumbleGain \<tau> = 1 / 10" using w2 by (simp add: rumbleGain_const)
  show ?thesis
    unfolding dataGain_def comicBassGain_def comicClickGain_def
    using pulseSchedule_start [OF step nn(3)] pulseSchedule_silent [OF step nn(1) w1]
      pulseSchedule_start [OF nn(5) nn(4)] pulseSchedule_silent [OF nn(5) nn(2) w2]
      pulseSchedule_start [OF nn(6) nn(3)] pulseSchedule_silent [OF nn(6) nn(1) w1]
      web rum
    by (intro conjI) assumption+
qed


theorem soundscapes_fall_silent_witness:
  "60 + 1 / 10 \<le> (61::real) \<and> map_option (\<lambda>evs. gainAt evs 61) (dataGain 0) = Some 0"
  using soundscapes_fall_silent [of 61 0] by simp

end
