(* ===== verification/CursorSync.thy ===== *)
theory CursorSync
  imports App
begin

text \<open>
  Two listeners see every mouse move: App's, which stores the normalised pointer that the
  classifier and the singularity scene read, and RealityAnchor's, which keeps the raw
  client position where the cursor ring is drawn. This theory relates the two along every
  run of the page.
\<close>

definition ringPointer :: "viewport \<Rightarrow> app_state \<Rightarrow> vec2 option" where
  "ringPointer w s =
     normalizePointer w \<lparr>clientX = vx (anchorPos (loop_state.more s)), clientY = vy (anchorPos (loop_state.more s))\<rparr>"

definition pointer_synced :: "viewport \<Rightarrow> app_state \<Rightarrow> bool" where
  "pointer_synced w s \<longleftrightarrow> ringPointer w s = Some (mousePosition (store s))"

section \<open>Lemmas\<close>

lemma vec2_eta [simp]: "\<lparr>vx = vx p, vy = vy p\<rparr> = p"
  by (cases p) simp

lemma mouse_event_eta [simp]: "\<lparr>clientX = clientX m, clientY = clientY m\<rparr> = m"
  by (cases m) simp

lemma run_callback_more [simp]: "loop_state.more (run_callback cb s) = loop_state.more s"
  by (cases cb) simp_all

lemma syncEffects_anchor [simp]: "anchorPos (syncEffects old new c) = anchorPos c"
  by (simp add: syncEffects_def)

lemma react_anchor [simp]: "anchorPos (loop_state.more (react s s')) = anchorPos (loop_state.more s')"
  by (simp add: react_def)

lemma run_callback_mouse [simp]: "mousePosition (store (run_callback cb s)) = mousePosition (store s)"
  by (cases cb) (simp_all add: store_ops)

lemma advance_pointer:
  "mousePosition (store (advance syncEffects target s)) = mousePosition (store s) \<and>
   anchorPos (loop_state.more (advance syncEffects target s)) = anchorPos (loop_state.more s)"
  by (rule advance_invariant [where P = "\<lambda>s'. mousePosition (store s') = mousePosition (store s) \<and>
        anchorPos (loop_state.more s') = anchorPos (loop_state.more s)"])
    (simp_all add: fire_def Let_def)

text \<open>Every event but a mouse move leaves both positions as they are.\<close>

lemma appStep_keeps_pointer:
  assumes "appStep w s e = Some s'" and "\<forall>m. e \<noteq> MouseMove m"
  shows "mousePosition (store s') = mousePosition (store s) \<and>
         anchorPos (loop_state.more s') = anchorPos (loop_state.more s)"
  using assms
  by (cases e) (auto simp: handleCommit_def handleTimelineSwitch_def singularityFrame_def store_ops
      elapse_def advance_pointer Let_def split: if_splits prod.splits)

text \<open>
  Along a run: if every mouse move brings both positions to the same pointer, they agree
  after the last mouse move, and are unchanged by a run without one.
\<close>

lemma appRun_pointer:
  assumes sync: "\<And>s m s'. appStep w s (MouseMove m) = Some s' \<Longrightarrow> pointer_synced w s'"
  shows "appRun w es s = Some s' \<Longrightarrow>
   (if \<exists>m. MouseMove m \<in> set es then pointer_synced w s'
    else mousePosition (store s') = mousePosition (store s) \<and>
         anchorPos (loop_state.more s') = anchorPos (loop_state.more s))"
proof (induction es arbitrary: s)
  case Nil
  then show ?case by simp
next
  case (Cons e es)
  then obtain s1 where s1: "appStep w s e = Some s1" and r: "appRun w es s1 = Some s'"
    by (auto split: option.splits)
  show ?case
  proof (cases "\<exists>m. MouseMove m \<in> set es")
    case True
    with Cons.IH [OF r] show ?thesis by auto
  next
    case False
    note ih = Cons.IH [OF r, simplified False, simplified]
    show ?thesis
    proof (cases "\<exists>m. e = MouseMove m")
      case True
      with s1 have "pointer_synced w s1" by (auto intro: sync)
      with ih True show ?thesis by (auto simp: pointer_synced_def ringPointer_def)
    next
      case False
      with appStep_keeps_pointer [OF s1] ih \<open>\<not> (\<exists>m. MouseMove m \<in> set es)\<close> show ?thesis by auto
    qed
  qed
qed

text \<open>
  C14: the cursor ring and the pointer the page classifies agree exactly after the first mouse
  move: on a run of the page from its initial state over a non-degenerate viewport, the ring's
  client position normalises to the store's pointer iff the run contains a mouse move. Before
  it, the ring sits at the top left corner (client position (0, 0), the pointer (-1, 1))
  while the store's pointer is the centre (0, 0).
\<close>

theorem cursor_ring_matches_pointer:
  assumes run: "appRun w es initialApp = Some s" and w: "0 < innerWidth w" "0 < innerHeight w"
  shows "pointer_synced w s \<longleftrightarrow> (\<exists>m. MouseMove m \<in> set es)"
proof -
  have sync: "pointer_synced w s'" if "appStep w s0 (MouseMove m) = Some s'" for s0 m s'
    using that by (auto simp: pointer_synced_def ringPointer_def handleMouseMove_def store_ops)
  note runs = appRun_pointer [OF sync run]
  show ?thesis
  proof (cases "\<exists>m. MouseMove m \<in> set es")
    case True
    with runs show ?thesis by simp
  next
    case False
    with runs have "mousePosition (store s) = origin" "anchorPos (loop_state.more s) = origin"
      by (simp_all add: initialApp_def initial_store_def initialComponents_def)
    with False w show ?thesis
      by (simp add: pointer_synced_def ringPointer_def normalizePointer_def origin_def)
  qed
qed

theorem cursor_ring_matches_pointer_witness:
  "appRun demoViewport [MouseMove \<lparr>clientX = 10, clientY = 50\<rparr>] initialApp = Some pointedPage \<and>
   pointer_synced demoViewport pointedPage \<and> \<not> pointer_synced demoViewport initialApp"
proof -
  have w: "0 < innerWidth demoViewport" "0 < innerHeight demoViewport" by (simp_all add: demoViewport_def)
  have r1: "appRun demoViewport [MouseMove \<lparr>clientX = 10, clientY = 50\<rparr>] initialApp = Some pointedPage"
    by (simp del: appStep.simps add: demo_steps(1))
  have r0: "appRun demoViewport [] initialApp = Some initialApp" by simp
  show ?thesis
    using r1 cursor_ring_matches_pointer [OF r1 w] cursor_ring_matches_pointer [OF r0 w] by auto
qed

end
