(* ===== verification/Spec2Isabelle.thy ===== *)
theory Spec2Isabelle
  imports Classifier Sequencer SequencerSpec Pointer SingularityScene HeroShader App TimelineScenes SceneTrees Debris ProjectData Theme SoundGains CursorSync
begin

text \<open>
  Verification development of the portfolio-multiverse front end (React, zustand,
  react-three-fiber), sources under \<open>src/src/\<close>.

  \<^bold>\<open>The program.\<close> A zustand store (\<open>store/multiverseStore.ts\<close>) holds the active
  timeline (singularity, data, comic, web3), the normalised pointer, the transition flag,
  a cursor influence and the sound switch. \<open>App.tsx\<close> writes the pointer from a window
  \<open>mousemove\<close> listener and renders one scene per timeline. In the singularity scene
  (\<open>components/Singularity.tsx\<close>) the pointer drives the hero object's shader uniforms
  (\<open>HeroObject.tsx\<close>), the debris opacities (\<open>DebrisField.tsx\<close>) and the glitch pass
  (\<open>Effects/GlitchEffect.tsx\<close>), and a click on the hero commits the pointer's dominant
  timeline. Outside it the watch (\<open>UI/MultiverseWatch.tsx\<close>) switches timelines
  through two nested \<open>setTimeout\<close>s (commit at 300 ms, flag down 500 ms later), while
  \<open>PortalTransition.tsx\<close> and \<open>Sound/SoundController.tsx\<close> react to the store through
  effects, and \<open>UI/RealityAnchor.tsx\<close> draws the cursor from the same classification.

  \<^bold>\<open>Theories.\<close>
  \<^item> \<open>Prelude\<close>: the types of times (\<open>ms\<close>, \<open>seconds\<close>), \<open>vec2\<close>, \<open>lerp\<close>
    (three.js \<open>MathUtils.lerp\<close>) and its lemmas, the triples \<open>vec3\<close> with GLSL's vector
    operations, the shared collections.
  \<^item> \<open>Store\<close>: the store as the record \<open>multiverse_state\<close>, its defaults and its five
    mutators, one definition each; \<open>timeline\<close> is an \<open>enum\<close> instance.
  \<^item> \<open>Classifier\<close>: \<open>dominantTimeline\<close> of Singularity.tsx and RealityAnchor's
    \<open>getCursorStyle\<close>, \<open>getInnerDot\<close> and render.
  \<^item> \<open>Sequencer\<close>: \<open>handleTimelineSwitch\<close> and its continuations run by an explicit
    browser event loop: a state \<open>loop_state\<close> of the store, a clock in ms and a
    queue of timers ordered by due time (\<open>schedule\<close> inserts after equal due times, as
    browsers run equal timeouts in creation order). \<open>fire\<close> runs the first timer and
    passes the store before and after to a hook \<open>eff\<close> (the effects subscribed to the
    store); \<open>advance\<close> fires every timer due by a target time. Its termination measure
    weighs a pending commit 2 and a pending end 1: each firing lowers the weight.
  \<^item> \<open>SequencerSpec\<close>: the spec's transition machine (section 4.5 of \<open>spec.md\<close>: Idle,
    Leaving with the target, Entering, timed by \<open>leaveDuration\<close> = 300 ms and
    \<open>enterDuration\<close> = 500 ms, rejecting requests during a transition), modelled from the
    spec, and the abstraction \<open>absSeq\<close> of the event loop onto it, read from the pending timer.
  \<^item> \<open>Pointer\<close>: the mousemove normalisation; a zero-size viewport, where JavaScript
    would store an infinite or NaN value, is the result \<^term>\<open>None\<close>.
  \<^item> \<open>SingularityScene\<close>: the singularity scene's frame and hero-click handlers,
    the hero's vertex deformation and per-frame uniform update, the debris opacity and
    the glitch parameters. The three.js objects are records of the numbers the code
    writes into them.
  \<^item> \<open>HeroShader\<close>: the two GLSL programs of \<open>shaders/heroShader.ts\<close> over reals, one
    definition per block of each \<open>main\<close> (glitch, data, comic and web3 displacement;
    base colour, data, comic and web3 styles, RGB split), composed in the shader's order
    and run with the uniforms \<^typ>\<open>hero_state\<close> that HeroObject writes. GLSL's \<open>fract\<close>,
    \<open>mod\<close> and \<open>step\<close> are written out; vectors are the triples of \<open>Prelude\<close>. The
    uniforms three.js supplies (projection, model-view and normal matrices, camera
    position) are a record of inputs: \<open>vertexShader\<close> is the whole vertex \<open>main\<close>
    with its varyings and \<open>gl_Position\<close>, and \<open>shadeVertex\<close> runs the fragment shader
    on a vertex's outputs. \<open>frontView\<close> is App's camera at (0, 0, 5) looking at the
    unrotated hero, \<open>turnedView\<close> the same scene turned by 180 degrees.
  \<^item> \<open>Portal\<close>: the portal's \<open>portalStyle\<close> state, its effect and its render, and the
    component's stylesheet: its class rules and keyframes, and the animations (name,
    duration, delay) the sheet gives each rendered element. Easing curves are not
    modelled: a claim about the sheet only uses durations, delays and keyframe values.
  \<^item> \<open>Sound\<close>: the sound controller's effect and cleanup, following the oscillators
    created, started, registered and stopped, and its button (classes, title, icon).
  \<^item> \<open>SoundGains\<close>: the gain automation each soundscape writes (\<open>setValueAtTime\<close> and
    \<open>linearRampToValueAtTime\<close> events) and the value a gain takes at a time under
    them, ramps interpolated as the Web Audio specification says. The pulse loops \<open>for (t = 0; t < 60; t += step)\<close> are a
    \<open>partial_function (option)\<close> (they run forever for a non-positive step), proved
    equal to a closed form and so to return for every positive step.
  \<^item> \<open>App\<close>: the scene selector, the watch's render and the whole page: the event
    loop state of \<open>Sequencer\<close> extended with the components' own state, one step
    \<open>appStep\<close> per user or browser event (mouse move, hero click, watch click, sound
    button, animation frame, waiting), the effects of Portal and Sound run after every
    store change (\<open>syncEffects\<close>, also as the hook of timer callbacks), and the
    reachable states.
  \<^item> \<open>SceneTrees\<close>: the JSX trees the three timeline scenes render, as trees of
    react-three-fiber elements (groups, meshes with geometry and material, texts, lights,
    the particle points and drei's grid) with their props, the comic scene's
    \<open>Math.random()\<close> calls read from a stream; also the hero mesh with its shader
    material and pointer handlers, and DebrisField's three instanced meshes.
  \<^item> \<open>CursorSync\<close>: the two mousemove listeners (App's, which writes the store's
    pointer, and RealityAnchor's, which keeps the ring's client position) related along
    every run \<open>appRun\<close> of the page.
  \<^item> \<open>Theme\<close>: \<open>tailwind.config.js\<close> (colour groups, fonts, content globs), the
    resolution of the colour utility classes (\<open>bg-\<close>, \<open>border-\<close>, \<open>text-\<close>,
    \<open>shadow-\<close>) against it, and the hex colours of the hero's uniforms.
  \<^item> \<open>Debris\<close>: the random layout of DebrisField and its frame callback, which
    writes every instance's position, Euler rotation and scale for the three kinds.
  \<^item> \<open>ProjectData\<close>: the example data file \<open>PROJECT_DATA_EXAMPLE.ts\<close> (imported by
    nothing): the \<open>Project\<close> record and its constants; the usage example at the end of the
    file is inside a block comment and is not modelled.
  \<^item> \<open>TimelineScenes\<close>: the frame callbacks of the three committed scenes
    (\<open>timelines/TimelineData.tsx\<close>, \<open>TimelineComic.tsx\<close>, \<open>TimelineWeb3.tsx\<close>) over
    records of the rotations, positions and particle buffer they write, with the layout
    values they start from; the data scene's particle loop is a \<open>function\<close> over the
    index with the measure \<open>length - i\<close>, and is proved equal to a reference over triples.

  \<^bold>\<open>What is proved.\<close> The timed behaviour of a watch click (commit at 300 ms, flag down
  at 800 ms, nothing else changed) and that the flag always comes down within 800 ms; that
  clicks during a transition make a later commit happen with the flag down (a bug), and
  that with clicks only while idle every commit happens under the flag; that waiting
  splits. On the page: an invariant kept by every event (queue well formed, no pending
  commit to the singularity, the portal styled whenever shown), that the sound controller
  always holds the active timeline's soundscape while the sound is on and lets none of
  it run while the sound is off, so that the sound button's title tells the truth, that a committed
  timeline is never left for the singularity, that leaving the singularity shows no
  portal, the portal's colours over time (the outgoing timeline's for 300 ms, against
  the spec), and that the target's portal content is removed before any of its CSS
  entrance animations has ended. The classifier's regions and the cursor's agreement with it; the pointer's
  bounds iff the mouse is in the viewport (so no clamping) and its round trip.
  The singularity scene's smoothing (a no-op \<open>lerp\<close>), the geometric
  convergence and bounds of the shader uniforms, and their failure for unclamped
  pointers. For the shaders: that no timeline style and no RGB split is applied while
  the pointer stays in the classifier's singularity region (the uniforms never pass the
  0.3 threshold), the bound on the vertex displacement for pointers in the unit square,
  and the comic outline. The sound controller's registration and cleanup, that its button
  offers to mute exactly when its soundscape runs and to enable the sound exactly when no
  registered oscillator runs, and the four oscillators the web3 soundscape leaks on every
  build.
  The portal's and the watch's renders. In the
  timeline scenes: the particle loop's equivalence with its reference, that a frame moves
  only heights and by at most 0.01, the growing bound on particle coordinates, the comic
  throttle's rate bound, the web3 crystals' counter-rotation, and that the comic panels,
  web3 crystals and web3 mirror panels lose their layout height or orientation at the
  first update, because the callbacks assign absolute values. For the debris: the bounds
  of the layout and that the rotation never accumulates (the debris does not spin). The
  scene trees and the example data are definitions only: no property of them is claimed
  beyond their use by the theme's colour claim. For the theme: that every
  element coloured by the timeline (portal frame, cursor, watch button, debris, light)
  resolves to the timeline's primary theme colour, and that the hero's web3 colour is
  the secondary one. For the sound gains: that every pulse loop returns, with its count
  of events, and that the data and comic soundscapes fall silent after a minute. For the
  cursor: that the ring and the store's pointer agree exactly once the mouse has moved.
  For the shader pipeline: that turning the whole scene leaves every vertex output as it
  is but turns the front of the hero into a black comic outline (the fragment shader
  mixes coordinate spaces).

  \<^bold>\<open>Bounds.\<close> Times are natural milliseconds, so the 300 ms and 500 ms delays are
  exact; the timer loop needs no fuel because it terminates by the weight measure. JS
  numbers are reals: no rounding is modelled. Where rounding could matter it is said: with
  floats, five frames of 1/60 s may sum to slightly less than the comic scene's 1/12 s, so
  the bound on its update rate holds but the real model may update one frame earlier;
  likewise the pulse loops' float sums \<open>t += step\<close> may run one round more or fewer
  than the real model's \<open>\<lceil>60 / step\<rceil>\<close>. The pulse loops need no fuel: they are
  partial functions, proved total for positive steps.

  \<^bold>\<open>Not modelled.\<close> How three.js computes the shader's matrices and camera position
  from the scene graph (they are inputs of the shader model), and the interpolation of
  varyings between vertices (the fragment shader is run at a vertex); what three.js draws from the scene trees
  (materials, lighting, text layout); the composition of the debris instance matrices
  (a three.js library call); the easing curves of the CSS animations and Tailwind's own
  utility animations and default palette; the frequencies and connections of the audio
  graph, which are constants; the Web Audio rendering itself (only the value of each
  gain over time is computed, under the specification's rules for \<open>setValueAtTime\<close>
  and \<open>linearRampToValueAtTime\<close>); the SVG icons of the watch and the sound button; and the
  bundler configuration \<open>vite.config.ts\<close>, which has no behaviour at run time.
\<close>

end
